theory Spec2Isabelle
  imports Main
begin

section \<open>Linux Universal App Installer: the installation engine of main.py\<close>

text \<open>
  A shallow embedding of the parts of \<^verbatim>\<open>src/main.py\<close> that decide how a package file is
  classified, installed, tracked as a task and recorded in the history: the class
  \<^verbatim>\<open>InstallationTask\<close>, the batch thread \<^verbatim>\<open>BatchInstaller\<close>, and the methods of
  \<^verbatim>\<open>LinuxAppInstaller\<close> that install a file, integrate it into the desktop and keep the
  history. The widgets are left out; what a handler shows to the user is kept as a
  list of dialog events.

  Conventions. A Python \<^verbatim>\<open>str\<close> is a list of characters, each one of the 256 code
  points below \<^verbatim>\<open>0x100\<close>; text with other characters is not covered. A method that
  can raise returns \<^verbatim>\<open>exn + 'a\<close> together with the world it leaves behind. Everything
  the program asks of the operating system (file operations, child processes, the
  clock) is answered by the \<^verbatim>\<open>world\<close> record, whose oracle fields stand for an arbitrary
  environment.
\<close>

subsection \<open>Python string and path functions used by the source\<close>

text \<open>\<^verbatim>\<open>s.endswith(suf)\<close> and \<^verbatim>\<open>s.startswith(pre)\<close>.\<close>

definition endswith :: "string \<Rightarrow> string \<Rightarrow> bool" where
  "endswith s suf \<longleftrightarrow> length suf \<le> length s \<and> drop (length s - length suf) s = suf"

definition startswith :: "string \<Rightarrow> string \<Rightarrow> bool" where
  "startswith s pre \<longleftrightarrow> take (length pre) s = pre"

text \<open>\<^verbatim>\<open>s.rfind(c)\<close>: the index of the last occurrence of \<^verbatim>\<open>c\<close>, or \<^verbatim>\<open>-1\<close>.\<close>

definition rfind :: "string \<Rightarrow> char \<Rightarrow> int" where
  "rfind s c = (if c \<in> set s
                then int (length s) - 1 - int (length (takeWhile (\<lambda>x. x \<noteq> c) (rev s)))
                else - 1)"

text \<open>
  \<^verbatim>\<open>os.path.splitext\<close> (posixpath): the extension starts at the last dot of the last
  path component, unless that component consists of leading dots only up to there.
\<close>

definition splitext :: "string \<Rightarrow> string \<times> string" where
  "splitext p =
     (let sepIndex = rfind p (CHR ''/'');
          dotIndex = rfind p (CHR ''.'')
      in if dotIndex > sepIndex
            \<and> list_ex (\<lambda>c. c \<noteq> CHR ''.'')
                 (take (nat (dotIndex - (sepIndex + 1))) (drop (nat (sepIndex + 1)) p))
         then (take (nat dotIndex) p, drop (nat dotIndex) p)
         else (p, ''''))"

text \<open>\<^verbatim>\<open>os.path.basename\<close>, \<^verbatim>\<open>os.path.dirname\<close> and the two-argument \<^verbatim>\<open>os.path.join\<close>.\<close>

definition basename :: "string \<Rightarrow> string" where
  "basename p = drop (nat (rfind p (CHR ''/'') + 1)) p"

definition rstrip :: "char \<Rightarrow> string \<Rightarrow> string" where
  "rstrip c s = rev (dropWhile (\<lambda>x. x = c) (rev s))"

definition lstrip :: "char \<Rightarrow> string \<Rightarrow> string" where
  "lstrip c s = dropWhile (\<lambda>x. x = c) s"

definition dirname :: "string \<Rightarrow> string" where
  "dirname p =
     (let head = take (nat (rfind p (CHR ''/'') + 1)) p
      in if head \<noteq> [] \<and> list_ex (\<lambda>c. c \<noteq> CHR ''/'') head
         then rstrip (CHR ''/'') head else head)"

definition path_join :: "string \<Rightarrow> string \<Rightarrow> string" where
  "path_join a b =
     (if startswith b ''/'' then b
      else if a = [] \<or> endswith a ''/'' then a @ b
      else a @ ''/'' @ b)"

text \<open>
  \<^verbatim>\<open>os.path.expanduser\<close> for the paths of the source, which all start with \<^verbatim>\<open>~/\<close>: the
  tilde becomes the home directory without its trailing slashes.
\<close>

definition expanduser :: "string \<Rightarrow> string \<Rightarrow> string" where
  "expanduser home_dir p =
     (if p = ''~'' \<or> startswith p ''~/''
      then (let r = rstrip (CHR ''/'') home_dir @ drop 1 p in if r = [] then ''/'' else r)
      else p)"

text \<open>
  \<^verbatim>\<open>s.lower()\<close>: the upper-case letters among the 256 characters are the 26 ASCII
  letters and the characters \<^verbatim>\<open>0xC0\<close> to \<^verbatim>\<open>0xDE\<close> without \<^verbatim>\<open>0xD7\<close>; the lower-case
  letter of each is 32 places up.
\<close>

definition upper_letters :: string where
  "upper_letters =
     ''ABCDEFGHIJKLMNOPQRSTUVWXYZ''
       @ [CHR 0xC0, CHR 0xC1, CHR 0xC2, CHR 0xC3, CHR 0xC4, CHR 0xC5, CHR 0xC6, CHR 0xC7,
          CHR 0xC8, CHR 0xC9, CHR 0xCA, CHR 0xCB, CHR 0xCC, CHR 0xCD, CHR 0xCE, CHR 0xCF,
          CHR 0xD0, CHR 0xD1, CHR 0xD2, CHR 0xD3, CHR 0xD4, CHR 0xD5, CHR 0xD6, CHR 0xD8,
          CHR 0xD9, CHR 0xDA, CHR 0xDB, CHR 0xDC, CHR 0xDD, CHR 0xDE]"

definition lower_letters :: string where
  "lower_letters =
     ''abcdefghijklmnopqrstuvwxyz''
       @ [CHR 0xE0, CHR 0xE1, CHR 0xE2, CHR 0xE3, CHR 0xE4, CHR 0xE5, CHR 0xE6, CHR 0xE7,
          CHR 0xE8, CHR 0xE9, CHR 0xEA, CHR 0xEB, CHR 0xEC, CHR 0xED, CHR 0xEE, CHR 0xEF,
          CHR 0xF0, CHR 0xF1, CHR 0xF2, CHR 0xF3, CHR 0xF4, CHR 0xF5, CHR 0xF6, CHR 0xF8,
          CHR 0xF9, CHR 0xFA, CHR 0xFB, CHR 0xFC, CHR 0xFD, CHR 0xFE]"

definition lower_char :: "char \<Rightarrow> char" where
  "lower_char c =
     (case map_of (zip upper_letters lower_letters) c of
        Some l \<Rightarrow> l
      | None \<Rightarrow> c)"

definition lower :: "string \<Rightarrow> string" where
  "lower s = map lower_char s"

text \<open>
  \<^verbatim>\<open>s.strip()\<close>: white space is removed at both ends. Among the 256 characters the
  white space of \<^verbatim>\<open>str\<close> is the space, \<^verbatim>\<open>0x09\<close> to \<^verbatim>\<open>0x0D\<close>, \<^verbatim>\<open>0x1C\<close> to \<^verbatim>\<open>0x1F\<close>, the
  next-line character \<^verbatim>\<open>0x85\<close> and the no-break space \<^verbatim>\<open>0xA0\<close>.
\<close>

definition isspace :: "char \<Rightarrow> bool" where
  "isspace c \<longleftrightarrow> c \<in> set [CHR '' '', CHR 0x09, CHR 0x0A, CHR 0x0B, CHR 0x0C, CHR 0x0D,
                              CHR 0x1C, CHR 0x1D, CHR 0x1E, CHR 0x1F, CHR 0x85, CHR 0xA0]"

definition strip :: "string \<Rightarrow> string" where
  "strip s = rev (dropWhile isspace (rev (dropWhile isspace s)))"

text \<open>
  What a file opened in text mode hands to the program: every line ending, \<^verbatim>\<open>CR LF\<close>,
  \<^verbatim>\<open>CR\<close> or \<^verbatim>\<open>LF\<close>, is read as \<^verbatim>\<open>LF\<close>.
\<close>

fun universal_newlines :: "string \<Rightarrow> string" where
  "universal_newlines [] = []"
| "universal_newlines [c] = (if c = CHR 0x0D then [CHR 0x0A] else [c])"
| "universal_newlines (c # d # cs) =
     (if c = CHR 0x0D \<and> d = CHR 0x0A then CHR 0x0A # universal_newlines cs
      else if c = CHR 0x0D then CHR 0x0A # universal_newlines (d # cs)
      else c # universal_newlines (d # cs))"

text \<open>\<^verbatim>\<open>s.replace(a, b)\<close> for single characters and \<^verbatim>\<open>sep.join(xs)\<close>.\<close>

definition replace_char :: "char \<Rightarrow> char \<Rightarrow> string \<Rightarrow> string" where
  "replace_char a b s = map (\<lambda>c. if c = a then b else c) s"

fun join_with :: "string \<Rightarrow> string list \<Rightarrow> string" where
  "join_with sep [] = []"
| "join_with sep [x] = x"
| "join_with sep (x # y # ys) = x @ sep @ join_with sep (y # ys)"

text \<open>\<^verbatim>\<open>str(n)\<close> for a natural number: its decimal digits.\<close>

definition digit_char :: "nat \<Rightarrow> char" where
  "digit_char d = ''0123456789'' ! d"

fun str_nat :: "nat \<Rightarrow> string" where
  "str_nat n = (if n < 10 then [digit_char n] else str_nat (n div 10) @ [digit_char (n mod 10)])"

declare str_nat.simps [simp del]

text \<open>\<^verbatim>\<open>int(s)\<close> for a string of decimal digits.\<close>

definition digit_val :: "char \<Rightarrow> nat" where
  "digit_val c =
     (case map_of (zip ''0123456789'' [0, 1, 2, 3, 4, 5, 6, 7, 8, 9]) c of
        Some d \<Rightarrow> d
      | None \<Rightarrow> 0)"

definition nat_of_str :: "string \<Rightarrow> nat" where
  "nat_of_str s = foldl (\<lambda>acc c. 10 * acc + digit_val c) 0 s"

text \<open>
  \<^verbatim>\<open>repr\<close> of a string and of a list of strings, as \<^verbatim>\<open>str(TimeoutExpired)\<close> prints the
  argument vector: single quotes unless the string holds a single and no double quote,
  backslash escapes for the quote, the backslash, tab, newline and carriage return, and
  \<^verbatim>\<open>\xNN\<close> for the other characters that are not printable: those below \<^verbatim>\<open>0x20\<close>, those
  from \<^verbatim>\<open>0x7F\<close> to \<^verbatim>\<open>0xA0\<close>, and the soft hyphen \<^verbatim>\<open>0xAD\<close>.
\<close>

definition hex_digit :: "nat \<Rightarrow> char" where
  "hex_digit d = ''0123456789abcdef'' ! d"

definition repr_char :: "char \<Rightarrow> char \<Rightarrow> string" where
  "repr_char q c =
     (if c = q \<or> c = CHR 0x5C then [CHR 0x5C, c]
      else if c = CHR 0x09 then [CHR 0x5C, CHR ''t'']
      else if c = CHR 0x0A then [CHR 0x5C, CHR ''n'']
      else if c = CHR 0x0D then [CHR 0x5C, CHR ''r'']
      else if (of_char c :: nat) < 32
              \<or> (127 \<le> (of_char c :: nat) \<and> (of_char c :: nat) \<le> 160)
              \<or> (of_char c :: nat) = 173
        then [CHR 0x5C, CHR ''x'', hex_digit ((of_char c :: nat) div 16),
              hex_digit ((of_char c :: nat) mod 16)]
      else [c])"

definition repr_str :: "string \<Rightarrow> string" where
  "repr_str s =
     (let q = (if CHR 0x27 \<in> set s \<and> CHR 0x22 \<notin> set s then CHR 0x22 else CHR 0x27)
      in [q] @ concat (map (repr_char q) s) @ [q])"

definition repr_list :: "string list \<Rightarrow> string" where
  "repr_list xs = ''['' @ join_with '', '' (map repr_str xs) @ '']''"

subsection \<open>Format detection and dispatch\<close>

text \<open>
  \<^verbatim>\<open>get_file_type\<close> is written three times in the source with the same body
  (\<^verbatim>\<open>InstallationTask\<close>, \<^verbatim>\<open>BatchInstaller\<close>, \<^verbatim>\<open>LinuxAppInstaller\<close>).
\<close>

definition get_file_type :: "string \<Rightarrow> string" where
  "get_file_type file_path =
     (if endswith file_path ''.tar.gz'' then ''tar.gz''
      else if endswith file_path ''.tar.xz'' then ''tar.xz''
      else lstrip (CHR ''.'') (lower (snd (splitext file_path))))"

text \<open>The list \<^verbatim>\<open>install_file\<close> checks the tag against.\<close>

definition supported_types :: "string list" where
  "supported_types =
     [''deb'', ''appimage'', ''tar.gz'', ''tar.xz'', ''tgz'', ''snap'', ''flatpak'', ''run'', ''bin'']"

text \<open>The name both classes look the procedure up by: \<^verbatim>\<open>f"install_{ext.replace('.', '_')}"\<close>.\<close>

definition method_name :: "string \<Rightarrow> string" where
  "method_name ext = ''install_'' @ replace_char (CHR ''.'') (CHR ''_'') ext"

subsection \<open>Exceptions, the world and its operations\<close>

text \<open>
  The exceptions that reach the program: its own \<^verbatim>\<open>Exception(msg)\<close>, the
  \<^verbatim>\<open>subprocess.TimeoutExpired\<close> of a child that ran too long, the \<^verbatim>\<open>OSError\<close> of a
  file operation or of a child that could not be started, the \<^verbatim>\<open>UnicodeDecodeError\<close> of
  output that is no text in the encoding of the locale, the \<^verbatim>\<open>ValueError\<close> of an
  argument that the operating system interface refuses, and the \<^verbatim>\<open>AttributeError\<close> of
  an attribute that an object does not have. All are subclasses of \<^verbatim>\<open>Exception\<close>.
  \<^verbatim>\<open>str_exn\<close> is \<^verbatim>\<open>str(e)\<close>.
\<close>

datatype exn =
    Exception string
  | TimeoutExpired "string list" nat   \<comment> \<open>argument vector and timeout in seconds\<close>
  | OSError string
  | UnicodeDecodeError string
  | ValueError string
  | AttributeError string

fun str_exn :: "exn \<Rightarrow> string" where
  "str_exn (Exception m) = m"
| "str_exn (TimeoutExpired cmd t) =
     ''Command '' @ [CHR 0x27] @ repr_list cmd @ [CHR 0x27] @ '' timed out after ''
       @ str_nat t @ '' seconds''"
| "str_exn (OSError m) = m"
| "str_exn (UnicodeDecodeError m) = m"
| "str_exn (ValueError m) = m"
| "str_exn (AttributeError m) = m"

text \<open>What a child process started by \<^verbatim>\<open>subprocess.run\<close> does.\<close>

datatype proc_outcome =
    Exited int string string   \<comment> \<open>return code, standard output, standard error\<close>
  | Undecodable string         \<comment> \<open>it ended, but its output is no text in the locale's encoding\<close>
  | TimedOut                   \<comment> \<open>still running when the timeout expired\<close>
  | NotStarted string          \<comment> \<open>the program could not be executed\<close>
  | Rejected string            \<comment> \<open>the argument vector was refused (a NUL character)\<close>

datatype os_op =
    Makedirs string
  | Move string string
  | Chmod string
  | WriteFile string string
  | ReadFile string
  | CopyFile string string
  | Run "string list" nat      \<comment> \<open>argument vector and timeout in seconds\<close>

text \<open>
  The world. \<^verbatim>\<open>files\<close> lists the paths for which \<^verbatim>\<open>os.path.exists\<close> holds (paths
  are compared as strings), \<^verbatim>\<open>trace\<close> the operations attempted so far, oldest first. The
  remaining fields are oracles: \<^verbatim>\<open>faults n\<close> says whether the \<^verbatim>\<open>n\<close>-th operation raises,
  \<^verbatim>\<open>child n\<close> what the child started as the \<^verbatim>\<open>n\<close>-th operation does and \<^verbatim>\<open>child_files n\<close>
  what it leaves on the disk, and \<^verbatim>\<open>contents n\<close> the text read by the \<^verbatim>\<open>n\<close>-th operation.
  \<^verbatim>\<open>logged\<close> holds the calls of the \<^verbatim>\<open>logging\<close> module, as (level, message).
\<close>

record world =
  home :: string
  files :: "string list"
  trace :: "os_op list"
  faults :: "nat \<Rightarrow> string option"
  child :: "nat \<Rightarrow> proc_outcome"
  child_files :: "nat \<Rightarrow> string list \<Rightarrow> string list"
  contents :: "nat \<Rightarrow> string"
  which :: "string \<Rightarrow> bool"
  readable :: "string \<Rightarrow> bool"
  executable :: "string \<Rightarrow> bool"
  getsize :: "string \<Rightarrow> int"
  sha256_hex :: "string \<Rightarrow> string option"
  walk :: "string \<Rightarrow> string list"
  header :: "string \<Rightarrow> string option"
  logged :: "(string \<times> string) list"

type_synonym 'a io = "world \<Rightarrow> (exn + 'a) \<times> world"

definition io_return :: "'a \<Rightarrow> 'a io" where
  "io_return x w = (Inr x, w)"

definition io_raise :: "exn \<Rightarrow> 'a io" where
  "io_raise e w = (Inl e, w)"

definition io_bind :: "'a io \<Rightarrow> ('a \<Rightarrow> 'b io) \<Rightarrow> 'b io" where
  "io_bind m f w = (case m w of (Inl e, w') \<Rightarrow> (Inl e, w') | (Inr x, w') \<Rightarrow> f x w')"

text \<open>\<^verbatim>\<open>try: m except Exception as e: h(e)\<close>.\<close>

definition io_try :: "'a io \<Rightarrow> (exn \<Rightarrow> 'a io) \<Rightarrow> 'a io" where
  "io_try m h w = (case m w of (Inl e, w') \<Rightarrow> h e w' | (Inr x, w') \<Rightarrow> (Inr x, w'))"

text \<open>\<^verbatim>\<open>try: m except subprocess.TimeoutExpired: h\<close>: the other exceptions pass.\<close>

definition io_try_timeout :: "'a io \<Rightarrow> 'a io \<Rightarrow> 'a io" where
  "io_try_timeout m h w =
     (case m w of (Inl (TimeoutExpired c t), w') \<Rightarrow> h w' | (r, w') \<Rightarrow> (r, w'))"

definition io_get :: "(world \<Rightarrow> 'a) \<Rightarrow> 'a io" where
  "io_get f w = (Inr (f w), w)"

definition path_exists :: "world \<Rightarrow> string \<Rightarrow> bool" where
  "path_exists w p \<longleftrightarrow> p \<in> set (files w)"

text \<open>A file operation: recorded in the trace; it raises or takes effect on the files.\<close>

definition os_call :: "os_op \<Rightarrow> (string list \<Rightarrow> string list) \<Rightarrow> unit io" where
  "os_call opn effect w =
     (let n = length (trace w); w1 = w\<lparr>trace := trace w @ [opn]\<rparr>
      in case faults w n of
           Some msg \<Rightarrow> (Inl (OSError msg), w1)
         | None \<Rightarrow> (Inr (), w1\<lparr>files := effect (files w)\<rparr>))"

definition makedirs :: "string \<Rightarrow> unit io" where
  "makedirs p = os_call (Makedirs p) (List.insert p)"

definition shutil_move :: "string \<Rightarrow> string \<Rightarrow> unit io" where
  "shutil_move src dst = os_call (Move src dst) (\<lambda>fs. List.insert dst (removeAll src fs))"

definition chmod :: "string \<Rightarrow> unit io" where
  "chmod p = os_call (Chmod p) (\<lambda>fs. fs)"

definition write_file :: "string \<Rightarrow> string \<Rightarrow> unit io" where
  "write_file p text = os_call (WriteFile p text) (List.insert p)"

definition copy2 :: "string \<Rightarrow> string \<Rightarrow> unit io" where
  "copy2 src dst = os_call (CopyFile src dst) (List.insert dst)"

definition read_file :: "string \<Rightarrow> string io" where
  "read_file p w =
     (let n = length (trace w); w1 = w\<lparr>trace := trace w @ [ReadFile p]\<rparr>
      in case faults w n of
           Some msg \<Rightarrow> (Inl (OSError msg), w1)
         | None \<Rightarrow> (Inr (contents w n), w1))"

text \<open>
  \<^verbatim>\<open>subprocess.run(cmd, capture_output=True, text=True, timeout=t)\<close>: one child process
  per call. It returns the tuple (return code, stdout, stderr) of a child that exited and
  whose output could be decoded, whatever the return code. It raises
  \<^verbatim>\<open>UnicodeDecodeError\<close> when the output of the child could not be decoded (also after
  return code 0), \<^verbatim>\<open>TimeoutExpired\<close> when the child was still running at the timeout,
  \<^verbatim>\<open>OSError\<close> when the program could not be started, and \<^verbatim>\<open>ValueError\<close> when the
  argument vector was refused.
\<close>

definition subprocess_run :: "string list \<Rightarrow> nat \<Rightarrow> (int \<times> string \<times> string) io" where
  "subprocess_run cmd timeout w =
     (let n = length (trace w); w1 = w\<lparr>trace := trace w @ [Run cmd timeout]\<rparr>
      in case child w n of
           NotStarted msg \<Rightarrow> (Inl (OSError msg), w1)
         | Rejected msg \<Rightarrow> (Inl (ValueError msg), w1)
         | TimedOut \<Rightarrow> (Inl (TimeoutExpired cmd timeout), w1\<lparr>files := child_files w n (files w)\<rparr>)
         | Undecodable msg \<Rightarrow>
             (Inl (UnicodeDecodeError msg), w1\<lparr>files := child_files w n (files w)\<rparr>)
         | Exited rc out err \<Rightarrow>
             (Inr (rc, out, err), w1\<lparr>files := child_files w n (files w)\<rparr>))"

definition logging :: "string \<Rightarrow> string \<Rightarrow> unit io" where
  "logging level msg w = (Inr (), w\<lparr>logged := logged w @ [(level, msg)]\<rparr>)"


subsection \<open>The command executor\<close>

text \<open>\<^verbatim>\<open>result.stderr.strip() or result.stdout.strip()\<close>.\<close>

definition failure_text :: "string \<Rightarrow> string \<Rightarrow> string" where
  "failure_text out err = (if strip err \<noteq> [] then strip err else strip out)"

text \<open>\<^verbatim>\<open>LinuxAppInstaller.run_command\<close> (lines 1602 to 1612).\<close>

definition run_command :: "string list \<Rightarrow> unit io" where
  "run_command cmd =
     io_try_timeout
       (io_bind (subprocess_run cmd 300) (\<lambda>(rc, out, err).
          if rc \<noteq> 0 then
            io_bind (logging ''ERROR''
                       (''Command failed: '' @ join_with '' '' cmd @ '' - '' @ failure_text out err))
              (\<lambda>_. io_raise (Exception (failure_text out err)))
          else io_return ()))
       (io_bind (logging ''ERROR'' (''Command timed out: '' @ join_with '' '' cmd))
          (\<lambda>_. io_raise (Exception (''Command timed out: '' @ join_with '' '' cmd))))"

text \<open>\<^verbatim>\<open>BatchInstaller.run_command\<close> (lines 392 to 395): no handler for the timeout.\<close>

definition batch_run_command :: "string list \<Rightarrow> unit io" where
  "batch_run_command cmd =
     io_bind (subprocess_run cmd 300) (\<lambda>(rc, out, err).
       if rc \<noteq> 0 then io_raise (Exception (failure_text out err)) else io_return ())"

subsection \<open>The install procedures of BatchInstaller\<close>

definition app_dir :: "world \<Rightarrow> string" where
  "app_dir w = expanduser (home w) ''~/Applications''"

text \<open>\<^verbatim>\<open>f"{base}_{counter}{ext}"\<close>.\<close>

definition candidate :: "string \<Rightarrow> nat \<Rightarrow> string \<Rightarrow> string" where
  "candidate base counter ext = base @ ''_'' @ str_nat counter @ ext"

text \<open>
  The loop \<^verbatim>\<open>while os.path.exists(f"{base}_{counter}{ext}"): counter += 1\<close>,
  returning the counter it stops at.
\<close>

function free_counter :: "string list \<Rightarrow> string \<Rightarrow> string \<Rightarrow> nat \<Rightarrow> nat" where
  "free_counter fs base ext counter =
     (if candidate base counter ext \<in> set fs
      then free_counter fs base ext (Suc counter) else counter)"
  by pat_completeness auto

text \<open>
  The destination both \<^verbatim>\<open>install_appimage\<close> methods choose (lines 337 to 343 and 1191
  to 1197), given the files that exist.
\<close>

definition appimage_dest :: "string list \<Rightarrow> string \<Rightarrow> string \<Rightarrow> string" where
  "appimage_dest fs dir file_path =
     (let dest = path_join dir (basename file_path)
      in if dest \<in> set fs
         then (let (base, ext) = splitext dest
               in candidate base (free_counter fs base ext 1) ext)
         else dest)"

definition batch_install_deb :: "string \<Rightarrow> string io" where
  "batch_install_deb file_path =
     io_bind (io_get (\<lambda>w. which w ''dpkg'')) (\<lambda>found.
       if \<not> found then io_raise (Exception ''dpkg not found. Please install dpkg.'')
       else
         io_bind (batch_run_command [''pkexec'', ''dpkg'', ''-i'', file_path]) (\<lambda>_.
         io_bind (batch_run_command [''pkexec'', ''apt-get'', ''install'', ''-f'']) (\<lambda>_.
         io_return (''Successfully installed '' @ basename file_path))))"

definition batch_install_appimage :: "string \<Rightarrow> string io" where
  "batch_install_appimage file_path =
     io_bind (io_get app_dir) (\<lambda>dir.
     io_bind (makedirs dir) (\<lambda>_.
     io_bind (io_get (\<lambda>w. appimage_dest (files w) dir file_path)) (\<lambda>dest.
     io_bind (shutil_move file_path dest) (\<lambda>_.
     io_bind (chmod dest) (\<lambda>_.
     io_return (''AppImage installed to '' @ dest))))))"

definition batch_install_tar :: "string \<Rightarrow> string io" where
  "batch_install_tar file_path =
     io_bind (io_get app_dir) (\<lambda>dir.
     io_bind (makedirs dir) (\<lambda>_.
     let extract_dir = path_join dir (fst (splitext (basename file_path))) in
     io_bind (makedirs extract_dir) (\<lambda>_.
     io_bind (batch_run_command [''tar'', ''-xf'', file_path, ''-C'', extract_dir]) (\<lambda>_.
     let install_script = path_join extract_dir ''install.sh'' in
     io_bind (io_get (\<lambda>w. path_exists w install_script)) (\<lambda>has_script.
     io_bind (if has_script
              then io_bind (chmod install_script) (\<lambda>_.
                     batch_run_command [''pkexec'', ''bash'', install_script])
              else io_return ()) (\<lambda>_.
     io_return (''Extracted to '' @ extract_dir)))))))"

definition batch_install_snap :: "string \<Rightarrow> string io" where
  "batch_install_snap file_path =
     io_bind (io_get (\<lambda>w. which w ''snap'')) (\<lambda>found.
       if \<not> found then io_raise (Exception ''snap not found. Please install snapd.'')
       else
         io_bind (batch_run_command [''pkexec'', ''snap'', ''install'', file_path, ''--dangerous''])
           (\<lambda>_. io_return (''Successfully installed '' @ basename file_path)))"

definition batch_install_flatpak :: "string \<Rightarrow> string io" where
  "batch_install_flatpak file_path =
     io_bind (io_get (\<lambda>w. which w ''flatpak'')) (\<lambda>found.
       if \<not> found then io_raise (Exception ''flatpak not found. Please install flatpak.'')
       else
         io_bind (batch_run_command [''flatpak'', ''install'', ''--user'', file_path])
           (\<lambda>_. io_return (''Successfully installed '' @ basename file_path)))"

definition batch_install_executable :: "string \<Rightarrow> string io" where
  "batch_install_executable file_path =
     io_bind (chmod file_path) (\<lambda>_.
     io_bind (batch_run_command [''pkexec'', ''bash'', file_path]) (\<lambda>_.
     io_return (''Executed '' @ basename file_path)))"

text \<open>
  \<^verbatim>\<open>getattr(self, f"install_{ext.replace('.', '_')}", None)\<close> on a BatchInstaller: the
  bound method of that name, if the class has one. The class defines eleven methods
  whose names start with \<^verbatim>\<open>install_\<close>; its Qt base classes have none of that form.
\<close>

definition batch_getattr :: "string \<Rightarrow> (string \<Rightarrow> string io) option" where
  "batch_getattr ext =
     (let name = method_name ext
      in if name = ''install_deb'' then Some batch_install_deb
         else if name = ''install_appimage'' then Some batch_install_appimage
         else if name = ''install_tar_gz'' then Some batch_install_tar
         else if name = ''install_tar_xz'' then Some batch_install_tar
         else if name = ''install_tgz'' then Some batch_install_tar
         else if name = ''install_tar'' then Some batch_install_tar
         else if name = ''install_snap'' then Some batch_install_snap
         else if name = ''install_flatpak'' then Some batch_install_flatpak
         else if name = ''install_run'' then Some batch_install_executable
         else if name = ''install_bin'' then Some batch_install_executable
         else if name = ''install_executable'' then Some batch_install_executable
         else None)"

subsection \<open>Desktop integration (LinuxAppInstaller)\<close>

definition nl :: string where
  "nl = [CHR 0x0A]"

definition text_lines :: "string list \<Rightarrow> string" where
  "text_lines ls = concat (map (\<lambda>l. l @ nl) ls)"

definition applications_dir :: "world \<Rightarrow> string" where
  "applications_dir w = expanduser (home w) ''~/.local/share/applications''"

text \<open>
  The loop of \<^verbatim>\<open>extract_appimage_icon\<close> over the icon names (lines 1344 to 1351): the
  first name that exists under the mount point is copied and returned.
\<close>

fun find_icon :: "string \<Rightarrow> string \<Rightarrow> string list \<Rightarrow> string option io" where
  "find_icon actual_mount app_name [] = io_return None"
| "find_icon actual_mount app_name (icon_name # rest) =
     io_bind (io_get (\<lambda>w. path_exists w (path_join actual_mount icon_name))) (\<lambda>found.
       if found then
         io_bind (io_get (\<lambda>w. expanduser (home w) ''~/.local/share/icons'')) (\<lambda>icons_dir.
         io_bind (makedirs icons_dir) (\<lambda>_.
         let icon_dest = path_join icons_dir (app_name @ ''.png'') in
         io_bind (copy2 (path_join actual_mount icon_name) icon_dest) (\<lambda>_.
         io_return (Some icon_dest))))
       else find_icon actual_mount app_name rest)"

text \<open>\<^verbatim>\<open>extract_appimage_icon\<close> (lines 1322 to 1356).\<close>

definition extract_appimage_icon :: "string \<Rightarrow> string \<Rightarrow> string option io" where
  "extract_appimage_icon appimage_path app_name =
     io_try
       (io_bind (makedirs (''/tmp/'' @ app_name @ ''_mount'')) (\<lambda>_.
        io_bind (subprocess_run [appimage_path, ''--appimage-mount''] 10) (\<lambda>(rc, out, err).
          if rc = 0 \<and> strip out \<noteq> [] then
            (let actual_mount = strip out; icon_dir = path_join actual_mount ''.DirIcon'' in
             io_bind (io_get (\<lambda>w. path_exists w icon_dir)) (\<lambda>found.
               if found then
                 io_bind (io_get (\<lambda>w. expanduser (home w) ''~/.local/share/icons'')) (\<lambda>icons_dir.
                 io_bind (makedirs icons_dir) (\<lambda>_.
                 let icon_dest = path_join icons_dir (app_name @ ''.png'') in
                 io_bind (copy2 icon_dir icon_dest) (\<lambda>_.
                 io_return (Some icon_dest))))
               else find_icon actual_mount app_name
                      [''.DirIcon'', ''icon.png'', ''Icon.png'', app_name @ ''.png'']))
          else io_return None)))
       (\<lambda>e. io_bind (logging ''DEBUG''
                       (''Could not extract icon from AppImage '' @ appimage_path @ '': '' @ str_exn e))
               (\<lambda>_. io_return None))"

definition appimage_desktop_content :: "string \<Rightarrow> string \<Rightarrow> string option \<Rightarrow> string" where
  "appimage_desktop_content app_name appimage_path icon_path =
     text_lines
       [''[Desktop Entry]'',
        ''Version=1.0'',
        ''Type=Application'',
        ''Name='' @ app_name,
        ''Comment=Application installed by Linux Universal App Installer'',
        ''Exec='' @ [CHR 0x22] @ appimage_path @ [CHR 0x22],
        ''Icon='' @ (case icon_path of Some p \<Rightarrow> p | None \<Rightarrow> ''application-x-executable''),
        ''Terminal=false'',
        ''StartupWMClass='' @ app_name,
        ''Categories=Utility;Application;'']"

text \<open>
  Writing a descriptor to the menu directory and to the desktop and marking both
  executable: the sequence shared by the three \<^verbatim>\<open>create_..._desktop_entr...\<close> methods.
\<close>

definition write_desktop_files :: "string \<Rightarrow> string \<Rightarrow> unit io" where
  "write_desktop_files app_name desktop_content =
     io_bind (io_get (\<lambda>w. expanduser (home w)
                 (''~/.local/share/applications/'' @ app_name @ ''.desktop''))) (\<lambda>desktop_file.
     io_bind (makedirs (dirname desktop_file)) (\<lambda>_.
     io_bind (write_file desktop_file desktop_content) (\<lambda>_.
     io_bind (io_get (\<lambda>w. expanduser (home w)
                 (''~/Desktop/'' @ app_name @ ''.desktop''))) (\<lambda>desktop_shortcut.
     io_bind (write_file desktop_shortcut desktop_content) (\<lambda>_.
     io_bind (chmod desktop_file) (\<lambda>_.
     chmod desktop_shortcut))))))"

definition update_desktop_database :: "unit io" where
  "update_desktop_database =
     io_bind (io_get applications_dir) (\<lambda>d. run_command [''update-desktop-database'', d])"

text \<open>\<^verbatim>\<open>create_appimage_desktop_entry\<close> (lines 1282 to 1320).\<close>

definition create_appimage_desktop_entry :: "string \<Rightarrow> unit io" where
  "create_appimage_desktop_entry appimage_path =
     io_try
       (let app_name = fst (splitext (basename appimage_path)) in
        io_bind (extract_appimage_icon appimage_path app_name) (\<lambda>icon_path.
        io_bind (write_desktop_files app_name
                   (appimage_desktop_content app_name appimage_path icon_path)) (\<lambda>_.
        update_desktop_database)))
       (\<lambda>e. logging ''WARNING''
               (''Failed to create desktop entry for '' @ appimage_path @ '': '' @ str_exn e))"

text \<open>
  \<^verbatim>\<open>create_tar_desktop_entries\<close> (lines 1358 to 1414). \<^verbatim>\<open>walk w dir\<close> lists the files
  below \<^verbatim>\<open>dir\<close> in the order \<^verbatim>\<open>os.walk\<close> visits them; \<^verbatim>\<open>header w p\<close> is the first
  four bytes of \<^verbatim>\<open>p\<close>, or nothing when it cannot be opened.
\<close>

definition is_program :: "world \<Rightarrow> string \<Rightarrow> bool" where
  "is_program w file_path \<longleftrightarrow>
     executable w file_path
     \<and> \<not> (endswith (basename file_path) ''.so'' \<or> endswith (basename file_path) ''.dll''
           \<or> endswith (basename file_path) ''.dylib'')
     \<and> (case header w file_path of
           None \<Rightarrow> False
         | Some h \<Rightarrow> startswith h ([CHR 0x7F] @ ''ELF'') \<or> startswith h ''#!/'')"

definition generic_desktop_content :: "string \<Rightarrow> string \<Rightarrow> string" where
  "generic_desktop_content app_name exec_target =
     text_lines
       [''[Desktop Entry]'',
        ''Version=1.0'',
        ''Type=Application'',
        ''Name='' @ app_name,
        ''Comment=Application installed by Linux Universal App Installer'',
        ''Exec='' @ exec_target,
        ''Icon=application-x-executable'',
        ''Terminal=false'',
        ''Categories=Utility;Application;'']"

fun tar_entries :: "string list \<Rightarrow> unit io" where
  "tar_entries [] = io_return ()"
| "tar_entries (exe_path # rest) =
     (let exe_name = basename exe_path in
      if exe_name \<in> set [''install.sh'', ''uninstall.sh'', ''configure'']
      then tar_entries rest
      else io_bind (write_desktop_files exe_name
                      (generic_desktop_content exe_name ([CHR 0x22] @ exe_path @ [CHR 0x22])))
             (\<lambda>_. tar_entries rest))"

definition create_tar_desktop_entries :: "string \<Rightarrow> unit io" where
  "create_tar_desktop_entries extract_dir =
     io_try
       (io_bind (io_get (\<lambda>w. filter (is_program w) (walk w extract_dir))) (\<lambda>executables.
        io_bind (tar_entries (take 3 executables)) (\<lambda>_.
        if executables \<noteq> [] then update_desktop_database else io_return ())))
       (\<lambda>e. logging ''WARNING''
               (''Failed to create desktop entries for '' @ extract_dir @ '': '' @ str_exn e))"

text \<open>\<^verbatim>\<open>create_executable_desktop_entry\<close> (lines 1416 to 1451).\<close>

definition create_executable_desktop_entry :: "string \<Rightarrow> unit io" where
  "create_executable_desktop_entry exe_path =
     io_try
       (let app_name = fst (splitext (basename exe_path)) in
        io_bind (write_desktop_files app_name (generic_desktop_content app_name exe_path)) (\<lambda>_.
        update_desktop_database))
       (\<lambda>e. logging ''WARNING''
               (''Failed to create desktop entry for '' @ exe_path @ '': '' @ str_exn e))"

text \<open>
  \<^verbatim>\<open>setup_application_directories\<close> (lines 1453 to 1475): the dictionary of the three
  directories, or the empty dictionary after a failure.
\<close>

definition setup_application_directories :: "string \<Rightarrow> (string \<times> string) list io" where
  "setup_application_directories app_name =
     io_try
       (io_bind (io_get (\<lambda>w. expanduser (home w) (''~/.local/share/'' @ app_name))) (\<lambda>app_data_dir.
        io_bind (makedirs app_data_dir) (\<lambda>_.
        io_bind (io_get (\<lambda>w. expanduser (home w) (''~/.config/'' @ app_name))) (\<lambda>config_dir.
        io_bind (makedirs config_dir) (\<lambda>_.
        io_bind (io_get (\<lambda>w. expanduser (home w) (''~/.cache/'' @ app_name))) (\<lambda>cache_dir.
        io_bind (makedirs cache_dir) (\<lambda>_.
        io_return [(''data'', app_data_dir), (''config'', config_dir), (''cache'', cache_dir)])))))))
       (\<lambda>e. io_bind (logging ''WARNING''
                       (''Failed to create application directories for '' @ app_name @ '': ''
                          @ str_exn e))
               (\<lambda>_. io_return []))"

text \<open>\<^verbatim>\<open>create_uninstall_entry\<close> (lines 1477 to 1505).\<close>

definition uninstall_desktop_content :: "string \<Rightarrow> string \<Rightarrow> string" where
  "uninstall_desktop_content app_name exec_cmd =
     text_lines
       [''[Desktop Entry]'',
        ''Version=1.0'',
        ''Type=Application'',
        ''Name=Uninstall '' @ app_name,
        ''Comment=Uninstall '' @ app_name,
        ''Exec='' @ exec_cmd,
        ''Icon=edit-delete'',
        ''Terminal=true'',
        ''Categories=Utility;System;'']"

definition create_uninstall_entry :: "string \<Rightarrow> string \<Rightarrow> string option \<Rightarrow> unit io" where
  "create_uninstall_entry app_name install_path uninstall_command =
     io_try
       (io_bind (io_get (\<lambda>w. expanduser (home w)
                   (''~/.local/share/applications/'' @ app_name @ ''-uninstall.desktop'')))
          (\<lambda>uninstall_desktop.
        let exec_cmd = (case uninstall_command of
                          Some c \<Rightarrow> if c \<noteq> [] then c else ''rm -rf '' @ install_path
                        | None \<Rightarrow> ''rm -rf '' @ install_path) in
        io_bind (write_file uninstall_desktop (uninstall_desktop_content app_name exec_cmd)) (\<lambda>_.
        chmod uninstall_desktop)))
       (\<lambda>e. logging ''WARNING''
               (''Failed to create uninstall entry for '' @ app_name @ '': '' @ str_exn e))"

text \<open>
  \<^verbatim>\<open>setup_file_associations\<close> (lines 1507 to 1558). The dictionary \<^verbatim>\<open>defaults\<close> is an
  association list in insertion order; \<^verbatim>\<open>dict_set\<close> is \<^verbatim>\<open>defaults[key] = value\<close>.
\<close>

fun dict_set :: "'k \<Rightarrow> 'v \<Rightarrow> ('k \<times> 'v) list \<Rightarrow> ('k \<times> 'v) list" where
  "dict_set k v [] = [(k, v)]"
| "dict_set k v ((k', v') # d) = (if k = k' then (k, v) # d else (k', v') # dict_set k v d)"

fun split_lines :: "string \<Rightarrow> string list" where
  "split_lines [] = [[]]"
| "split_lines (c # cs) =
     (if c = CHR 0x0A then [] # split_lines cs
      else (case split_lines cs of l # ls \<Rightarrow> (c # l) # ls | [] \<Rightarrow> [[c]]))"

definition parse_defaults :: "string \<Rightarrow> (string \<times> string) list" where
  "parse_defaults text =
     foldl (\<lambda>defaults line.
              if CHR ''='' \<in> set line
              then (let s = strip line
                    in dict_set (takeWhile (\<lambda>c. c \<noteq> CHR ''='') s)
                         (drop 1 (dropWhile (\<lambda>c. c \<noteq> CHR ''='') s)) defaults)
              else defaults)
       [] (split_lines text)"

definition mime_content :: "string \<Rightarrow> string \<Rightarrow> string \<Rightarrow> string" where
  "mime_content mime_type app_name ext =
     ''<?xml version='' @ [CHR 0x22] @ ''1.0'' @ [CHR 0x22] @ '' encoding='' @ [CHR 0x22]
       @ ''UTF-8'' @ [CHR 0x22] @ ''?>'' @ nl
     @ ''<mime-info xmlns='' @ [CHR 0x22]
       @ ''http://www.freedesktop.org/standards/shared-mime-info'' @ [CHR 0x22] @ ''>'' @ nl
     @ ''  <mime-type type='' @ [CHR 0x22] @ mime_type @ [CHR 0x22] @ ''>'' @ nl
     @ ''    <comment>'' @ app_name @ '' '' @ ext @ '' file</comment>'' @ nl
     @ ''    <glob pattern='' @ [CHR 0x22] @ ''*'' @ ext @ [CHR 0x22] @ ''/>'' @ nl
     @ ''  </mime-type>'' @ nl
     @ ''</mime-info>''"

definition associate_extension :: "string \<Rightarrow> string \<Rightarrow> unit io" where
  "associate_extension app_name ext =
     (let mime_type = ''application/x-'' @ app_name @ ''-'' @ lstrip (CHR ''.'') ext in
      io_bind (io_get (\<lambda>w. expanduser (home w) ''~/.local/share/mime/packages'')) (\<lambda>mime_dir.
      io_bind (makedirs mime_dir) (\<lambda>_.
      io_bind (write_file (path_join mime_dir (app_name @ ''-'' @ lstrip (CHR ''.'') ext @ ''.xml''))
                 (mime_content mime_type app_name ext)) (\<lambda>_.
      io_bind (io_get (\<lambda>w. expanduser (home w) ''~/.local/share/mime'')) (\<lambda>mime_root.
      io_bind (run_command [''update-mime-database'', mime_root]) (\<lambda>_.
      io_bind (io_get applications_dir) (\<lambda>apps_dir.
      let defaults_file = path_join apps_dir ''defaults.list'' in
      io_bind (makedirs apps_dir) (\<lambda>_.
      io_bind (io_get (\<lambda>w. path_exists w defaults_file)) (\<lambda>found.
      io_bind (if found
               then io_bind (read_file defaults_file)
                      (\<lambda>text. io_return (parse_defaults (universal_newlines text)))
               else io_return []) (\<lambda>defaults.
      write_file defaults_file
        (concat (map (\<lambda>(key, value). key @ ''='' @ value @ nl)
                   (dict_set mime_type (app_name @ ''.desktop'') defaults)))))))))))))"

fun associate_all :: "string \<Rightarrow> string list \<Rightarrow> unit io" where
  "associate_all app_name [] = io_return ()"
| "associate_all app_name (ext # rest) =
     io_bind (associate_extension app_name ext) (\<lambda>_. associate_all app_name rest)"

definition setup_file_associations :: "string \<Rightarrow> string list \<Rightarrow> unit io" where
  "setup_file_associations app_name file_extensions =
     (if file_extensions = [] then io_return ()
      else io_try (associate_all app_name file_extensions)
             (\<lambda>e. logging ''WARNING''
                     (''Failed to setup file associations for '' @ app_name @ '': '' @ str_exn e)))"

text \<open>\<^verbatim>\<open>post_install_setup\<close> (lines 1560 to 1600).\<close>

definition file_associations :: "(string \<times> string list) list" where
  "file_associations =
     [(''appimage'', [''.appimage'']),
      (''tar.gz'', [''.tar.gz'', ''.tgz'']),
      (''tar.xz'', [''.tar.xz'']),
      (''run'', [''.run'']),
      (''bin'', [''.bin''])]"

definition dict_get :: "(string \<times> string) list \<Rightarrow> string \<Rightarrow> string \<Rightarrow> string" where
  "dict_get d k dflt = (case map_of d k of Some v \<Rightarrow> v | None \<Rightarrow> dflt)"

definition completion_message :: "string \<Rightarrow> string \<Rightarrow> (string \<times> string) list \<Rightarrow> string" where
  "completion_message app_name install_path dirs =
     nl @ text_lines
       [''Application '' @ [CHR 0x27] @ app_name @ [CHR 0x27] @ '' has been successfully installed!'',
        '''',
        ''Installation Details:'',
        '' Application Location: '' @ install_path,
        '' Desktop Shortcut: ~/Desktop/'' @ app_name @ ''.desktop'',
        '' Menu Entry: ~/.local/share/applications/'' @ app_name @ ''.desktop'',
        '' Data Directory: '' @ dict_get dirs ''data'' ''N/A'',
        '' Config Directory: '' @ dict_get dirs ''config'' ''N/A'',
        '''',
        ''The application is now ready to use. You can find it in your applications menu or on your desktop.'']"

definition degraded_message :: "string \<Rightarrow> string" where
  "degraded_message app_name =
     ''Application '' @ [CHR 0x27] @ app_name @ [CHR 0x27]
       @ '' installed successfully, but some integration features may not be available.''"

definition post_install_setup :: "string \<Rightarrow> string \<Rightarrow> string \<Rightarrow> string io" where
  "post_install_setup app_name install_path file_type =
     io_try
       (io_bind (setup_application_directories app_name) (\<lambda>dirs.
        io_bind (create_uninstall_entry app_name install_path None) (\<lambda>_.
        io_bind (case map_of file_associations file_type of
                   Some exts \<Rightarrow> setup_file_associations app_name exts
                 | None \<Rightarrow> io_return ()) (\<lambda>_.
        io_bind (logging ''INFO'' (''Post-installation setup completed for '' @ app_name)) (\<lambda>_.
        io_return (completion_message app_name install_path dirs))))))
       (\<lambda>e. io_bind (logging ''WARNING''
                       (''Post-installation setup failed for '' @ app_name @ '': '' @ str_exn e))
               (\<lambda>_. io_return (degraded_message app_name)))"

subsection \<open>The install procedures of LinuxAppInstaller\<close>

definition install_deb :: "string \<Rightarrow> string io" where
  "install_deb file_path =
     io_bind (io_get (\<lambda>w. which w ''dpkg'')) (\<lambda>found.
       if \<not> found then io_raise (Exception ''dpkg not found. Please install dpkg.'')
       else
         io_bind (run_command [''pkexec'', ''dpkg'', ''-i'', file_path]) (\<lambda>_.
         io_bind (run_command [''pkexec'', ''apt-get'', ''install'', ''-f'']) (\<lambda>_.
         io_return (''Successfully installed '' @ basename file_path))))"

text \<open>
  \<^verbatim>\<open>install_appimage\<close> (lines 1187 to 1209). \<^verbatim>\<open>appimage_primary\<close> is the part of the
  \<^verbatim>\<open>try\<close> block before the desktop integration: it returns the destination.
\<close>

definition appimage_primary :: "string \<Rightarrow> string io" where
  "appimage_primary file_path =
     io_bind (io_get app_dir) (\<lambda>dir.
     io_bind (makedirs dir) (\<lambda>_.
     io_bind (io_get (\<lambda>w. appimage_dest (files w) dir file_path)) (\<lambda>dest.
     io_bind (shutil_move file_path dest) (\<lambda>_.
     io_bind (chmod dest) (\<lambda>_.
     io_return dest)))))"

definition install_appimage :: "string \<Rightarrow> string io" where
  "install_appimage file_path =
     io_bind
       (io_try
          (io_bind (appimage_primary file_path) (\<lambda>dest.
           io_bind (create_appimage_desktop_entry dest) (\<lambda>_.
           io_bind (post_install_setup (fst (splitext (basename dest))) dest ''appimage'')
             (\<lambda>completion_msg. io_return dest))))
          (\<lambda>e. io_raise (Exception (''Failed to install AppImage: '' @ str_exn e))))
       (\<lambda>dest. io_return (''AppImage installed to '' @ dest @ '' with desktop integration''))"

text \<open>
  \<^verbatim>\<open>install_tar\<close> (lines 1220 to 1242). \<^verbatim>\<open>tar_extract\<close> is the part of the \<^verbatim>\<open>try\<close>
  block up to the \<^verbatim>\<open>tar\<close> command, \<^verbatim>\<open>tar_install_script\<close> the run of \<^verbatim>\<open>install.sh\<close>
  when the archive has one.
\<close>

definition tar_extract :: "string \<Rightarrow> string io" where
  "tar_extract file_path =
     io_bind (io_get app_dir) (\<lambda>dir.
     io_bind (makedirs dir) (\<lambda>_.
     let extract_dir = path_join dir (fst (splitext (basename file_path))) in
     io_bind (makedirs extract_dir) (\<lambda>_.
     io_bind (run_command [''tar'', ''-xf'', file_path, ''-C'', extract_dir]) (\<lambda>_.
     io_return extract_dir))))"

definition tar_install_script :: "string \<Rightarrow> unit io" where
  "tar_install_script extract_dir =
     (let install_script = path_join extract_dir ''install.sh'' in
      io_bind (io_get (\<lambda>w. path_exists w install_script)) (\<lambda>has_script.
        if has_script
        then io_bind (chmod install_script) (\<lambda>_.
               run_command [''pkexec'', ''bash'', install_script])
        else io_return ()))"

definition install_tar :: "string \<Rightarrow> string io" where
  "install_tar file_path =
     io_bind
       (io_try
          (io_bind (tar_extract file_path) (\<lambda>extract_dir.
           io_bind (create_tar_desktop_entries extract_dir) (\<lambda>_.
           io_bind (tar_install_script extract_dir) (\<lambda>_.
           io_bind (post_install_setup (basename extract_dir) extract_dir ''tar'')
             (\<lambda>completion_msg. io_return extract_dir)))))
          (\<lambda>e. io_raise (Exception (''Failed to extract archive: '' @ str_exn e))))
       (\<lambda>extract_dir. io_return (''Extracted to '' @ extract_dir @ '' with desktop integration''))"

definition install_snap :: "string \<Rightarrow> string io" where
  "install_snap file_path =
     io_bind (io_get (\<lambda>w. which w ''snap'')) (\<lambda>found.
       if \<not> found then io_raise (Exception ''snap not found. Please install snapd.'')
       else
         io_bind (run_command [''pkexec'', ''snap'', ''install'', file_path, ''--dangerous''])
           (\<lambda>_. io_return (''Successfully installed '' @ basename file_path)))"

definition install_flatpak :: "string \<Rightarrow> string io" where
  "install_flatpak file_path =
     io_bind (io_get (\<lambda>w. which w ''flatpak'')) (\<lambda>found.
       if \<not> found then io_raise (Exception ''flatpak not found. Please install flatpak.'')
       else
         io_bind (run_command [''flatpak'', ''install'', ''--user'', file_path])
           (\<lambda>_. io_return (''Successfully installed '' @ basename file_path)))"

text \<open>
  \<^verbatim>\<open>install_executable\<close> (lines 1262 to 1280). \<^verbatim>\<open>executable_primary\<close> is the part of
  the \<^verbatim>\<open>try\<close> block that runs the installer.
\<close>

definition executable_primary :: "string \<Rightarrow> unit io" where
  "executable_primary file_path =
     io_bind (chmod file_path) (\<lambda>_. run_command [''pkexec'', ''bash'', file_path])"

definition install_executable :: "string \<Rightarrow> string io" where
  "install_executable file_path =
     io_bind
       (io_try
          (io_bind (executable_primary file_path) (\<lambda>_.
           let exe_name = basename file_path in
           io_bind (if \<not> (startswith (lower exe_name) ''install''
                            \<or> startswith (lower exe_name) ''setup''
                            \<or> startswith (lower exe_name) ''configure'')
                    then create_executable_desktop_entry file_path
                    else io_return ()) (\<lambda>_.
           post_install_setup (fst (splitext exe_name)) file_path ''executable'')))
          (\<lambda>e. io_raise (Exception (''Failed to execute installer: '' @ str_exn e))))
       (\<lambda>_. io_return (''Executed '' @ basename file_path @ '' with desktop integration''))"

text \<open>
  \<^verbatim>\<open>getattr(self, f"install_{ext.replace('.', '_')}")\<close> at line 1166 of \<^verbatim>\<open>install_file\<close>,
  which is reached only with a tag of the list \<^verbatim>\<open>supported_types\<close>. The function gives
  the procedure the attribute is for such a tag, and \<^verbatim>\<open>None\<close> for every tag that
  does not reach the line. (The main window has further attributes whose names begin
  with \<^verbatim>\<open>install_\<close>, such as \<^verbatim>\<open>install_file\<close> itself; none belongs to a tag of the list.)
\<close>

definition linux_getattr :: "string \<Rightarrow> (string \<Rightarrow> string io) option" where
  "linux_getattr ext =
     (let name = method_name ext
      in if ext \<notin> set supported_types then None
         else if name = ''install_deb'' then Some install_deb
         else if name = ''install_appimage'' then Some install_appimage
         else if name = ''install_tar_gz'' then Some install_tar
         else if name = ''install_tar_xz'' then Some install_tar
         else if name = ''install_tgz'' then Some install_tar
         else if name = ''install_snap'' then Some install_snap
         else if name = ''install_flatpak'' then Some install_flatpak
         else if name = ''install_run'' then Some install_executable
         else if name = ''install_bin'' then Some install_executable
         else None)"

subsection \<open>InstallationTask\<close>

text \<open>
  The fields of \<^verbatim>\<open>InstallationTask\<close> with the types its constructor and the batch thread
  give them. The program sets \<^verbatim>\<open>status\<close> to one of the strings \<^verbatim>\<open>queued\<close>,
  \<^verbatim>\<open>installing\<close>, \<^verbatim>\<open>completed\<close>, \<^verbatim>\<open>failed\<close>; \<^verbatim>\<open>from_dict\<close> sets it to whatever the
  dictionary holds, so it is a \<^verbatim>\<open>pyval\<close>: a \<^verbatim>\<open>str\<close>, or a value of another type, of
  which the name of the type is kept (\<^verbatim>\<open>NoneType\<close> for \<^verbatim>\<open>None\<close>). A \<^verbatim>\<open>datetime\<close> is a
  point on the time line, counted in microseconds.
\<close>

type_synonym datetime = nat

datatype pyval = Str string | NotStr string

record InstallationTask =
  file_path :: string
  task_id :: string
  status :: pyval
  progress :: int
  message :: string
  start_time :: "datetime option"
  end_time :: "datetime option"
  file_hash :: string
  file_size :: int

text \<open>
  Library functions the class uses and the source does not define: the hexadecimal MD5
  digest of a string, and \<^verbatim>\<open>datetime.isoformat\<close> with its parser
  \<^verbatim>\<open>datetime.fromisoformat\<close> (which raises on text that is no ISO date).
\<close>

record pylib =
  md5_hexdigest :: "string \<Rightarrow> string"
  isoformat :: "datetime \<Rightarrow> string"
  fromisoformat :: "string \<Rightarrow> exn + datetime"

text \<open>
  \<^verbatim>\<open>__init__\<close> (lines 218 to 227) with \<^verbatim>\<open>calculate_hash\<close>: \<^verbatim>\<open>sha256_hex w p\<close> is the
  digest of the file when it can be read, \<^verbatim>\<open>getsize w p\<close> the size of an existing file.
\<close>

definition InstallationTask_init ::
  "pylib \<Rightarrow> world \<Rightarrow> string \<Rightarrow> string option \<Rightarrow> InstallationTask" where
  "InstallationTask_init L w path tid =
     \<lparr>file_path = path,
      task_id = (case tid of
                   Some s \<Rightarrow> if s \<noteq> [] then s else take 8 (md5_hexdigest L path)
                 | None \<Rightarrow> take 8 (md5_hexdigest L path)),
      status = Str ''queued'',
      progress = 0,
      message = '''',
      start_time = None,
      end_time = None,
      file_hash = (case sha256_hex w path of Some h \<Rightarrow> h | None \<Rightarrow> ''unknown''),
      file_size = (if path_exists w path then getsize w path else 0)\<rparr>"

text \<open>
  The dictionary of \<^verbatim>\<open>to_dict\<close> and \<^verbatim>\<open>from_dict\<close>, which is also one entry of
  \<^verbatim>\<open>history.json\<close>. Each key is absent or holds a value of the JSON type \<^verbatim>\<open>to_dict\<close>
  writes; the keys that \<^verbatim>\<open>from_dict\<close> tests for truth may also hold \<^verbatim>\<open>null\<close>, and
  \<^verbatim>\<open>status\<close> may hold a value of any type. Entries that hold a value of another type
  under one of the other keys are not covered.
\<close>

datatype 'a field = Absent | Null | Val 'a

record task_dict =
  d_file_path :: "string option"
  d_task_id :: "string field"
  d_status :: "pyval option"
  d_progress :: "int option"
  d_message :: "string option"
  d_start_time :: "string field"
  d_end_time :: "string field"
  d_file_hash :: "string option"
  d_file_size :: "int option"

text \<open>\<^verbatim>\<open>to_dict\<close> (lines 246 to 258).\<close>

definition to_dict :: "pylib \<Rightarrow> InstallationTask \<Rightarrow> task_dict" where
  "to_dict L t =
     \<lparr>d_file_path = Some (file_path t),
      d_task_id = Val (task_id t),
      d_status = Some (status t),
      d_progress = Some (progress t),
      d_message = Some (message t),
      d_start_time = (case start_time t of Some d \<Rightarrow> Val (isoformat L d) | None \<Rightarrow> Null),
      d_end_time = (case end_time t of Some d \<Rightarrow> Val (isoformat L d) | None \<Rightarrow> Null),
      d_file_hash = Some (file_hash t),
      d_file_size = Some (file_size t)\<rparr>"

text \<open>
  \<^verbatim>\<open>datetime.fromisoformat(data[k]) if data.get(k) else None\<close>: absent, null and the
  empty string give \<^verbatim>\<open>None\<close>.
\<close>

definition parse_time :: "pylib \<Rightarrow> string field \<Rightarrow> exn + datetime option" where
  "parse_time L f =
     (case f of
        Val s \<Rightarrow> if s \<noteq> [] then map_sum (\<lambda>e. e) Some (fromisoformat L s) else Inr None
      | Null \<Rightarrow> Inr None
      | Absent \<Rightarrow> Inr None)"

text \<open>\<^verbatim>\<open>data.get(k, default)\<close>.\<close>

definition get_or :: "'a option \<Rightarrow> 'a \<Rightarrow> 'a" where
  "get_or v dflt = (case v of Some x \<Rightarrow> x | None \<Rightarrow> dflt)"

text \<open>\<^verbatim>\<open>from_dict\<close> (lines 260 to 271).\<close>

definition from_dict :: "pylib \<Rightarrow> world \<Rightarrow> task_dict \<Rightarrow> exn + InstallationTask" where
  "from_dict L w data =
     (case d_file_path data of
        None \<Rightarrow> Inl (Exception ([CHR 0x27] @ ''file_path'' @ [CHR 0x27]))
      | Some path \<Rightarrow>
          (let task = InstallationTask_init L w path
                        (case d_task_id data of Val s \<Rightarrow> Some s | Null \<Rightarrow> None | Absent \<Rightarrow> None)
           in case parse_time L (d_start_time data) of
                Inl e \<Rightarrow> Inl e
              | Inr st \<Rightarrow>
                  (case parse_time L (d_end_time data) of
                     Inl e \<Rightarrow> Inl e
                   | Inr et \<Rightarrow>
                       Inr (task\<lparr>status := get_or (d_status data) (Str ''queued''),
                                 progress := get_or (d_progress data) 0,
                                 message := get_or (d_message data) '''',
                                 start_time := st,
                                 end_time := et,
                                 file_hash := get_or (d_file_hash data) ''unknown'',
                                 file_size := get_or (d_file_size data) 0\<rparr>))))"

subsection \<open>The state of the application\<close>

text \<open>
  Task objects live in \<^verbatim>\<open>heap\<close> and are referred to by their address, because the
  queue, a running batch and the history share them. \<^verbatim>\<open>history_json\<close> is the file
  \<^verbatim>\<open>history.json\<close>: missing, unreadable (it cannot be opened, is no JSON, or is not a
  list of objects), or a list of entries. \<^verbatim>\<open>clock n\<close> is the \<^verbatim>\<open>n\<close>-th reading of
  \<^verbatim>\<open>datetime.now()\<close>. \<^verbatim>\<open>emitted\<close> lists the Qt signals of the batch thread and
  \<^verbatim>\<open>dialogs\<close> the message boxes shown, both oldest first. \<^verbatim>\<open>batch_is_running\<close> is
  \<^verbatim>\<open>isRunning()\<close> of the current batch thread. The list and table widgets are not
  part of the state.
\<close>

datatype signal =
    ProgressUpdated string int string   \<comment> \<open>task id, percent, message\<close>
  | TaskCompleted string bool string    \<comment> \<open>task id, success, message\<close>
  | BatchFinished

datatype dialog = Information string string | Warning string string | Critical string string

datatype history_store =
    NoFile
  | Unreadable string            \<comment> \<open>the text of the exception that reading it raises\<close>
  | Entries "task_dict list"

text \<open>
  What happens when \<^verbatim>\<open>history.json\<close> is rewritten: it is written, or \<^verbatim>\<open>open\<close> raises
  and the file stays as it was, or \<^verbatim>\<open>json.dump\<close> raises and leaves a truncated file
  (the second text is what reading that file raises later).
\<close>

datatype write_outcome = Written | OpenFailed string | DumpFailed string string

record BatchInstaller =
  tasks :: "nat list"
  running :: bool

record InstallWorker =
  worker_func :: "string \<Rightarrow> string io"
  worker_path :: string

record app =
  heap :: "nat \<Rightarrow> InstallationTask"
  next_ref :: nat
  installation_queue :: "nat list"
  installation_history :: "nat list"
  current_batch_installer :: "BatchInstaller option"
  batch_is_running :: bool
  current_worker :: "InstallWorker option"
  worker_is_running :: bool
  installing :: bool
  history_json :: history_store
  emitted :: "signal list"
  dialogs :: "dialog list"
  status_label :: string
  clock :: "nat \<Rightarrow> datetime"
  ticks :: nat
  os :: world

definition emit :: "signal \<Rightarrow> app \<Rightarrow> app" where
  "emit s st = st\<lparr>emitted := emitted st @ [s]\<rparr>"

definition update_task :: "nat \<Rightarrow> (InstallationTask \<Rightarrow> InstallationTask) \<Rightarrow> app \<Rightarrow> app" where
  "update_task r f st = st\<lparr>heap := (heap st)(r := f (heap st r))\<rparr>"

text \<open>\<^verbatim>\<open>datetime.now()\<close>: the next reading of the clock.\<close>

definition now :: "app \<Rightarrow> datetime \<times> app" where
  "now st = (clock st (ticks st), st\<lparr>ticks := Suc (ticks st)\<rparr>)"

text \<open>Running an operation of the world inside the application state.\<close>

definition with_os :: "'a io \<Rightarrow> app \<Rightarrow> (exn + 'a) \<times> app" where
  "with_os m st = (case m (os st) of (r, w') \<Rightarrow> (r, st\<lparr>os := w'\<rparr>))"

subsection \<open>BatchInstaller.run\<close>

text \<open>\<^verbatim>\<open>BatchInstaller.__init__\<close>: \<^verbatim>\<open>deque(tasks)\<close> holds the same task objects.\<close>

definition BatchInstaller_init :: "nat list \<Rightarrow> BatchInstaller" where
  "BatchInstaller_init ts = \<lparr>tasks = ts, running = True\<rparr>"

text \<open>The body of the \<^verbatim>\<open>try\<close> block (lines 291 to 301) up to the result of the call.\<close>

definition run_try :: "nat \<Rightarrow> app \<Rightarrow> (exn + string) \<times> app" where
  "run_try r st =
     (let task = heap st r;
          st1 = emit (ProgressUpdated (task_id task) 10
                        (''Starting installation of '' @ basename (file_path task))) st;
          ext = get_file_type (file_path task)
      in case batch_getattr ext of
           None \<Rightarrow> (Inl (Exception (''Unsupported file type: '' @ ext)), st1)
         | Some install_func \<Rightarrow>
             with_os (install_func (file_path task))
               (emit (ProgressUpdated (task_id task) 50 ''Installing...'') st1))"

text \<open>The rest of the \<^verbatim>\<open>try\<close> block (lines 303 to 306) and the handler (lines 309 to 313).\<close>

definition run_completed :: "nat \<Rightarrow> string \<Rightarrow> app \<Rightarrow> app" where
  "run_completed r result st =
     (let st1 = update_task r (\<lambda>t. t\<lparr>status := Str ''completed'', message := result\<rparr>) st
      in emit (TaskCompleted (task_id (heap st1 r)) True result)
           (emit (ProgressUpdated (task_id (heap st1 r)) 100 result) st1))"

definition run_failed :: "nat \<Rightarrow> exn \<Rightarrow> app \<Rightarrow> app" where
  "run_failed r e st =
     (let st1 = update_task r (\<lambda>t. t\<lparr>status := Str ''failed'', message := str_exn e\<rparr>) st;
          st2 = snd (with_os (logging ''ERROR''
                       (''Installation failed for '' @ file_path (heap st1 r) @ '': '' @ str_exn e)) st1)
      in emit (TaskCompleted (task_id (heap st2 r)) False (str_exn e))
           (emit (ProgressUpdated (task_id (heap st2 r)) 100 (''Failed: '' @ str_exn e)) st2))"

text \<open>One iteration of the loop for the task popped from the deque.\<close>

definition run_body :: "nat \<Rightarrow> app \<Rightarrow> app" where
  "run_body r st =
     (let st1 = update_task r (\<lambda>t. t\<lparr>status := Str ''installing''\<rparr>) st;
          (t0, st2) = now st1;
          st3 = update_task r (\<lambda>t. t\<lparr>start_time := Some t0\<rparr>) st2;
          st4 = (case run_try r st3 of
                   (Inr result, st') \<Rightarrow> run_completed r result st'
                 | (Inl e, st') \<Rightarrow> run_failed r e st');
          (t1, st5) = now st4
      in update_task r (\<lambda>t. t\<lparr>end_time := Some t1\<rparr>) st5)"

text \<open>
  \<^verbatim>\<open>while self.tasks and self.running\<close> with \<^verbatim>\<open>popleft\<close>: the deque that is left and
  the state. Nothing in the program writes \<^verbatim>\<open>running\<close> after the constructor.
\<close>

fun run_loop :: "bool \<Rightarrow> nat list \<Rightarrow> app \<Rightarrow> nat list \<times> app" where
  "run_loop go [] st = ([], st)"
| "run_loop go (r # rest) st =
     (if go then run_loop go rest (run_body r st) else (r # rest, st))"

text \<open>\<^verbatim>\<open>BatchInstaller.run\<close> (lines 284 to 317).\<close>

definition run :: "BatchInstaller \<Rightarrow> app \<Rightarrow> BatchInstaller \<times> app" where
  "run b st =
     (case run_loop (running b) (tasks b) st of
        (left, st') \<Rightarrow> (b\<lparr>tasks := left\<rparr>, emit BatchFinished st'))"

subsection \<open>The queue and the batch handlers of the main window\<close>

definition alloc :: "InstallationTask \<Rightarrow> app \<Rightarrow> nat \<times> app" where
  "alloc t st =
     (next_ref st, st\<lparr>heap := (heap st)(next_ref st := t), next_ref := Suc (next_ref st)\<rparr>)"

text \<open>
  The body of the loop of \<^verbatim>\<open>add_to_queue\<close> (lines 941 to 944) for one selected path
  that \<^verbatim>\<open>os.path.isfile\<close> accepts; for any other path the loop does nothing.
\<close>

definition add_to_queue :: "pylib \<Rightarrow> string \<Rightarrow> app \<Rightarrow> app" where
  "add_to_queue L path st =
     (case alloc (InstallationTask_init L (os st) path None) st of
        (r, st') \<Rightarrow> st'\<lparr>installation_queue := installation_queue st' @ [r]\<rparr>)"

text \<open>\<^verbatim>\<open>remove_from_queue\<close> for the selected item's task id, and \<^verbatim>\<open>clear_queue\<close>.\<close>

definition remove_from_queue :: "string \<Rightarrow> app \<Rightarrow> app" where
  "remove_from_queue tid st =
     st\<lparr>installation_queue := filter (\<lambda>r. task_id (heap st r) \<noteq> tid) (installation_queue st)\<rparr>"

definition clear_queue :: "app \<Rightarrow> app" where
  "clear_queue st = st\<lparr>installation_queue := []\<rparr>"

text \<open>A call of \<^verbatim>\<open>logging.error\<close> inside the application state.\<close>

definition log_error :: "string \<Rightarrow> app \<Rightarrow> app" where
  "log_error msg st = snd (with_os (logging ''ERROR'' msg) st)"

text \<open>
  \<^verbatim>\<open>global_exception_handler\<close> (lines 20 to 28), installed as \<^verbatim>\<open>sys.excepthook\<close>: what
  happens to an exception that leaves a slot. \<^verbatim>\<open>exn_name\<close> is the name of the class
  of the exception; for an \<^verbatim>\<open>OSError\<close> the name of its subclass is not kept.
\<close>

fun exn_name :: "exn \<Rightarrow> string" where
  "exn_name (Exception m) = ''Exception''"
| "exn_name (TimeoutExpired cmd t) = ''TimeoutExpired''"
| "exn_name (OSError m) = ''OSError''"
| "exn_name (UnicodeDecodeError m) = ''UnicodeDecodeError''"
| "exn_name (ValueError m) = ''ValueError''"
| "exn_name (AttributeError m) = ''AttributeError''"

definition global_exception_handler :: "exn \<Rightarrow> app \<Rightarrow> app" where
  "global_exception_handler e st =
     (let error_msg = ''Uncaught exception: '' @ exn_name e @ '': '' @ str_exn e;
          st1 = log_error error_msg st
      in st1\<lparr>dialogs := dialogs st1
               @ [Critical ''Unexpected Error''
                    (''An unexpected error occurred:'' @ nl @ error_msg @ nl @ nl
                       @ ''Please check the logs for more details.'')]\<rparr>)"

text \<open>
  \<^verbatim>\<open>start_batch_installation\<close> (lines 964 to 981). \<^verbatim>\<open>self.installation_queue.copy()\<close>
  copies the list, not the tasks. Line 974 calls \<^verbatim>\<open>set_installer\<close> on the new
  BatchInstaller. Neither \<^verbatim>\<open>BatchInstaller\<close> nor its base class \<^verbatim>\<open>QThread\<close> has an
  attribute of that name, so the call raises \<^verbatim>\<open>AttributeError\<close> and the statements
  after it (the three \<^verbatim>\<open>connect\<close> calls and \<^verbatim>\<open>start()\<close>, lines 975 to 981) are not
  reached: the thread is created and never started.
\<close>

definition no_set_installer :: exn where
  "no_set_installer =
     AttributeError ([CHR 0x27] @ ''BatchInstaller'' @ [CHR 0x27]
       @ '' object has no attribute '' @ [CHR 0x27] @ ''set_installer'' @ [CHR 0x27])"

definition start_batch_installation :: "app \<Rightarrow> (exn + unit) \<times> app" where
  "start_batch_installation st =
     (if installation_queue st = [] then
        (Inr (), st\<lparr>dialogs := dialogs st
               @ [Information ''No Files'' ''Please add files to the queue first.'']\<rparr>)
      else if current_batch_installer st \<noteq> None \<and> batch_is_running st then
        (Inr (), st\<lparr>dialogs := dialogs st
               @ [Warning ''Installation in Progress'' ''Batch installation is already running.'']\<rparr>)
      else
        (Inl no_set_installer,
         st\<lparr>current_batch_installer := Some (BatchInstaller_init (installation_queue st))\<rparr>))"

subsection \<open>The history ledger\<close>

text \<open>The list comprehension over \<^verbatim>\<open>from_dict\<close>: the first exception ends it.\<close>

fun from_dicts :: "pylib \<Rightarrow> world \<Rightarrow> task_dict list \<Rightarrow> exn + InstallationTask list" where
  "from_dicts L w [] = Inr []"
| "from_dicts L w (d # ds) =
     (case from_dict L w d of
        Inl e \<Rightarrow> Inl e
      | Inr t \<Rightarrow> (case from_dicts L w ds of Inl e \<Rightarrow> Inl e | Inr ts \<Rightarrow> Inr (t # ts)))"

fun alloc_all :: "InstallationTask list \<Rightarrow> app \<Rightarrow> nat list \<times> app" where
  "alloc_all [] st = ([], st)"
| "alloc_all (t # ts) st =
     (case alloc t st of
        (r, st1) \<Rightarrow> (case alloc_all ts st1 of (rs, st2) \<Rightarrow> (r # rs, st2)))"

text \<open>
  \<^verbatim>\<open>update_history_display\<close> (lines 1025 to 1032) writes one row of the table for each
  of the last 100 entries, newest first. Of the refresh the model keeps the exception
  it raises: \<^verbatim>\<open>task.status.capitalize()\<close> raises \<^verbatim>\<open>AttributeError\<close> for a status
  that is no \<^verbatim>\<open>str\<close>, and the rows after that one are not written. The other cells
  (\<^verbatim>\<open>basename\<close> and \<^verbatim>\<open>get_file_type\<close> of the path, \<^verbatim>\<open>strftime\<close> of the end time) do
  not raise.
\<close>

definition no_capitalize :: "string \<Rightarrow> exn" where
  "no_capitalize type_name =
     AttributeError ([CHR 0x27] @ type_name @ [CHR 0x27]
       @ '' object has no attribute '' @ [CHR 0x27] @ ''capitalize'' @ [CHR 0x27])"

fun display_rows :: "InstallationTask list \<Rightarrow> exn + unit" where
  "display_rows [] = Inr ()"
| "display_rows (task # rest) =
     (case status task of
        Str s \<Rightarrow> display_rows rest
      | NotStr type_name \<Rightarrow> Inl (no_capitalize type_name))"

text \<open>\<^verbatim>\<open>xs[-100:]\<close>.\<close>

definition last_100 :: "'a list \<Rightarrow> 'a list" where
  "last_100 xs = drop (length xs - 100) xs"

definition update_history_display :: "app \<Rightarrow> (exn + unit) \<times> app" where
  "update_history_display st =
     (display_rows (rev (map (heap st) (last_100 (installation_history st)))), st)"

text \<open>
  \<^verbatim>\<open>load_history\<close> (lines 1011 to 1023): the \<^verbatim>\<open>try\<close> statement, whose handler catches
  every exception of reading and parsing, and after it the refresh of the table,
  which is outside the \<^verbatim>\<open>try\<close>.
\<close>

definition load_history_try :: "pylib \<Rightarrow> app \<Rightarrow> app" where
  "load_history_try L st =
     (case history_json st of
        NoFile \<Rightarrow> st\<lparr>installation_history := []\<rparr>
      | Unreadable msg \<Rightarrow>
          (log_error (''Failed to load history: '' @ msg) st)\<lparr>installation_history := []\<rparr>
      | Entries history_data \<Rightarrow>
          (case from_dicts L (os st) history_data of
             Inl e \<Rightarrow>
               (log_error (''Failed to load history: '' @ str_exn e) st)
                 \<lparr>installation_history := []\<rparr>
           | Inr ts \<Rightarrow>
               (case alloc_all ts st of (rs, st') \<Rightarrow> st'\<lparr>installation_history := rs\<rparr>)))"

definition load_history :: "pylib \<Rightarrow> app \<Rightarrow> (exn + unit) \<times> app" where
  "load_history L st = update_history_display (load_history_try L st)"

text \<open>\<^verbatim>\<open>xs[-1000:]\<close>.\<close>

definition last_1000 :: "'a list \<Rightarrow> 'a list" where
  "last_1000 xs = drop (length xs - 1000) xs"

text \<open>\<^verbatim>\<open>save_history_entry\<close> (lines 1034 to 1041).\<close>

definition save_history_entry :: "pylib \<Rightarrow> write_outcome \<Rightarrow> nat \<Rightarrow> app \<Rightarrow> app" where
  "save_history_entry L wo r st =
     (let st1 = st\<lparr>installation_history := installation_history st @ [r]\<rparr>;
          history_data = map (\<lambda>x. to_dict L (heap st1 x)) (last_1000 (installation_history st1))
      in case wo of
           Written \<Rightarrow> st1\<lparr>history_json := Entries history_data\<rparr>
         | OpenFailed msg \<Rightarrow> log_error (''Failed to save history: '' @ msg) st1
         | DumpFailed msg later \<Rightarrow>
             log_error (''Failed to save history: '' @ msg) (st1\<lparr>history_json := Unreadable later\<rparr>))"

text \<open>
  \<^verbatim>\<open>clear_history\<close> (lines 1043 to 1054) once the user has confirmed;
  \<^verbatim>\<open>remove_fails\<close> is the error of \<^verbatim>\<open>os.remove\<close>, if it raises. The refresh of
  the table at its end finds an empty history and writes no row.
\<close>

definition clear_history :: "string option \<Rightarrow> app \<Rightarrow> app" where
  "clear_history remove_fails st =
     (let st1 = st\<lparr>installation_history := []\<rparr>
      in if history_json st1 = NoFile then st1
         else (case remove_fails of
                 None \<Rightarrow> st1\<lparr>history_json := NoFile\<rparr>
               | Some msg \<Rightarrow> log_error (''Failed to delete history file: '' @ msg) st1))"

text \<open>
  \<^verbatim>\<open>on_batch_task_completed\<close> (lines 987 to 995): the slot that line 976 would connect
  to the \<^verbatim>\<open>task_completed\<close> signal. \<^verbatim>\<open>next((t for t in self.installation_queue if t.task_id == task_id), None)\<close>
  is the first task of the queue with that id.
\<close>

definition on_batch_task_completed ::
  "pylib \<Rightarrow> write_outcome \<Rightarrow> string \<Rightarrow> bool \<Rightarrow> string \<Rightarrow> app \<Rightarrow> (exn + unit) \<times> app" where
  "on_batch_task_completed L wo tid success msg st =
     (case find (\<lambda>r. task_id (heap st r) = tid) (installation_queue st) of
        None \<Rightarrow> (Inr (), st)
      | Some r \<Rightarrow>
          load_history L
            (save_history_entry L wo r
               (update_task r
                  (\<lambda>t. t\<lparr>status := Str (if success then ''completed'' else ''failed''),
                          message := msg\<rparr>) st)))"

text \<open>\<^verbatim>\<open>on_batch_finished\<close> (lines 997 to 1001).\<close>

definition on_batch_finished :: "app \<Rightarrow> app" where
  "on_batch_finished st =
     st\<lparr>current_batch_installer := None,
        status_label := ''Batch installation completed.'',
        dialogs := dialogs st
          @ [Information ''Batch Complete'' ''All files in the queue have been processed.'']\<rparr>"

subsection \<open>The interactive installation\<close>

definition show_error :: "string \<Rightarrow> app \<Rightarrow> app" where
  "show_error msg st = st\<lparr>dialogs := dialogs st @ [Critical ''Error'' msg]\<rparr>"

definition busy_text :: string where
  "busy_text = ''Installation already in progress. Please wait.''"

text \<open>The checks of the \<^verbatim>\<open>try\<close> block of \<^verbatim>\<open>install_file\<close> (lines 1135 to 1147).\<close>

definition check_file :: "string \<Rightarrow> unit io" where
  "check_file p =
     io_bind (io_get (\<lambda>w. path_exists w p)) (\<lambda>ex.
       if \<not> ex then
         io_bind (logging ''ERROR'' (''File does not exist: '' @ p))
           (\<lambda>_. io_raise (Exception (''File does not exist: '' @ p)))
       else
         io_bind (io_get (\<lambda>w. readable w p)) (\<lambda>rd.
           if \<not> rd then
             io_bind (logging ''ERROR'' (''File is not readable: '' @ p))
               (\<lambda>_. io_raise (Exception (''File is not readable: '' @ p)))
           else
             io_bind (io_get (\<lambda>w. getsize w p)) (\<lambda>sz.
               if sz = 0 then
                 io_bind (logging ''ERROR'' (''File is empty: '' @ p))
                   (\<lambda>_. io_raise (Exception (''File is empty: '' @ p)))
               else io_return ())))"

text \<open>\<^verbatim>\<open>install_file\<close> (lines 1126 to 1170).\<close>

definition install_file :: "string \<Rightarrow> app \<Rightarrow> app" where
  "install_file p st =
     (if installing st then st\<lparr>status_label := busy_text\<rparr>
      else if current_worker st \<noteq> None \<and> worker_is_running st then
        st\<lparr>status_label := busy_text\<rparr>
      else
        (case with_os (check_file p) st of
           (Inl e, st1) \<Rightarrow> show_error (str_exn e) st1
         | (Inr u, st1) \<Rightarrow>
             (let ext = get_file_type p in
              if ext \<notin> set supported_types then
                show_error (''Unsupported file type: '' @ ext)
                  (log_error (''Unsupported file type: '' @ ext) st1)
              else
                (let st2 = st1\<lparr>installing := True,
                                status_label := ''Installing '' @ basename p @ ''...''\<rparr>
                 in case linux_getattr ext of
                      None \<Rightarrow> st2
                    | Some f \<Rightarrow>
                        st2\<lparr>current_worker := Some \<lparr>worker_func = f, worker_path = p\<rparr>,
                            worker_is_running := True\<rparr>))))"

text \<open>\<^verbatim>\<open>on_install_finished\<close> and \<^verbatim>\<open>on_install_error\<close> (lines 1614 to 1637).\<close>

definition on_install_finished :: "string \<Rightarrow> app \<Rightarrow> app" where
  "on_install_finished msg st =
     st\<lparr>installing := False, current_worker := None, status_label := '''',
        dialogs := dialogs st @ [Information ''Success'' msg]\<rparr>"

definition on_install_error :: "string \<Rightarrow> app \<Rightarrow> app" where
  "on_install_error error_msg st =
     (let st1 = log_error (''Installation failed: '' @ error_msg)
                  (st\<lparr>installing := False, current_worker := None, status_label := ''''\<rparr>)
      in st1\<lparr>dialogs := dialogs st1 @ [Critical ''Installation Failed'' error_msg]\<rparr>)"

text \<open>
  \<^verbatim>\<open>InstallWorker.run\<close> (lines 406 to 411) followed by the slot its signal is connected
  to: what the started worker does to the state.
\<close>

definition worker_run :: "app \<Rightarrow> app" where
  "worker_run st =
     (case current_worker st of
        None \<Rightarrow> st
      | Some wk \<Rightarrow>
          (case with_os (worker_func wk (worker_path wk)) st of
             (Inr result, st') \<Rightarrow> on_install_finished result (st'\<lparr>worker_is_running := False\<rparr>)
           | (Inl e, st') \<Rightarrow> on_install_error (str_exn e) (st'\<lparr>worker_is_running := False\<rparr>)))"

text \<open>An interactive installation from the request to the end of its worker.\<close>

definition interactive_install :: "string \<Rightarrow> app \<Rightarrow> app" where
  "interactive_install p st =
     (let st1 = install_file p st
      in if installing st1 \<and> \<not> installing st then worker_run st1 else st1)"

subsection \<open>The slots as the event loop calls them\<close>

text \<open>
  What the user and the worker thread can make the main window do: the buttons of the
  queue tab (lines 591 to 645), the two buttons of the history tab (lines 709 and 726),
  a file dropped or chosen for installation, and the end of the worker thread. Between
  two events the environment may change the world. The batch thread is not among them:
  \<^verbatim>\<open>start_batch_installation\<close> never starts it.
\<close>

datatype event =
    Add_to_queue string            \<comment> \<open>one file chosen in the dialog of \<^verbatim>\<open>add_to_queue\<close>\<close>
  | Remove_from_queue string       \<comment> \<open>the task id of the selected item\<close>
  | Clear_queue
  | Start_batch
  | Refresh_history
  | Clear_history "string option"  \<comment> \<open>confirmed; the error of \<^verbatim>\<open>os.remove\<close>, if any\<close>
  | Install_file string
  | Worker_ends
  | Environment world

text \<open>
  An exception that leaves a slot is passed to \<^verbatim>\<open>sys.excepthook\<close>, and the event loop
  goes on.
\<close>

definition slot :: "(exn + unit) \<times> app \<Rightarrow> app" where
  "slot r = (case r of (Inl e, st) \<Rightarrow> global_exception_handler e st | (Inr u, st) \<Rightarrow> st)"

fun handle :: "pylib \<Rightarrow> event \<Rightarrow> app \<Rightarrow> app" where
  "handle L (Add_to_queue path) st = add_to_queue L path st"
| "handle L (Remove_from_queue tid) st = remove_from_queue tid st"
| "handle L Clear_queue st = clear_queue st"
| "handle L Start_batch st = slot (start_batch_installation st)"
| "handle L Refresh_history st = slot (load_history L st)"
| "handle L (Clear_history remove_fails) st = clear_history remove_fails st"
| "handle L (Install_file path) st = install_file path st"
| "handle L Worker_ends st = worker_run st"
| "handle L (Environment w) st = st\<lparr>os := w\<rparr>"

definition run_events :: "pylib \<Rightarrow> event list \<Rightarrow> app \<Rightarrow> app" where
  "run_events L evs st = foldl (\<lambda>s e. handle L e s) st evs"

subsection \<open>Example worlds\<close>

text \<open>
  A world in which nothing fails: the home directory is \<^verbatim>\<open>/home/u\<close>, the given files
  exist, every child process exits with code 0 and no output, and every tool is found.
\<close>

definition example_world :: "string list \<Rightarrow> world" where
  "example_world fs =
     \<lparr>home = ''/home/u'', files = fs, trace = [], faults = (\<lambda>n. None),
      child = (\<lambda>n. Exited 0 [] []), child_files = (\<lambda>n fs. fs), contents = (\<lambda>n. []),
      which = (\<lambda>name. True), readable = (\<lambda>p. True), executable = (\<lambda>p. False),
      getsize = (\<lambda>p. 1), sha256_hex = (\<lambda>p. None), walk = (\<lambda>d. []), header = (\<lambda>p. None),
      logged = []\<rparr>"

text \<open>
  A queued task as the constructor makes it, and an application state that holds the
  given task objects, queue and world; its clock reads 0, 1, 2, ...
\<close>

definition example_task :: "string \<Rightarrow> string \<Rightarrow> InstallationTask" where
  "example_task path tid =
     \<lparr>file_path = path, task_id = tid, status = Str ''queued'', progress = 0, message = '''',
      start_time = None, end_time = None, file_hash = ''unknown'', file_size = 0\<rparr>"

definition example_app :: "(nat \<Rightarrow> InstallationTask) \<Rightarrow> nat list \<Rightarrow> world \<Rightarrow> app" where
  "example_app h queue w =
     \<lparr>heap = h, next_ref = length queue, installation_queue = queue,
      installation_history = [], current_batch_installer = None, batch_is_running = False,
      current_worker = None, worker_is_running = False,
      installing = False, history_json = NoFile, emitted = [], dialogs = [],
      status_label = [], clock = (\<lambda>n. n), ticks = 0, os = w\<rparr>"

text \<open>Two queued tasks: a file of an unknown type and an executable installer.\<close>

definition two_tasks :: "nat \<Rightarrow> InstallationTask" where
  "two_tasks r =
     (if r = 0 then example_task ''/tmp/a.xyz'' ''0a0a0a0a''
      else example_task ''/tmp/b.run'' ''1b1b1b1b'')"

definition two_task_app :: app where
  "two_task_app = example_app two_tasks [0, 1] (example_world [''/tmp/a.xyz'', ''/tmp/b.run''])"

text \<open>
  A world in which every child process runs into the timeout, a state with one queued
  task for \<^verbatim>\<open>/tmp/b.run\<close> in it, and a world in which no program can be started.
\<close>

definition slow_world :: world where
  "slow_world = (example_world [''/tmp/b.run''])\<lparr>child := (\<lambda>n. TimedOut)\<rparr>"

definition slow_app :: app where
  "slow_app = example_app (\<lambda>r. example_task ''/tmp/b.run'' ''1b1b1b1b'') [0] slow_world"

definition no_tool_world :: world where
  "no_tool_world =
     (example_world [])\<lparr>child := (\<lambda>n. NotStarted ''[Errno 2] No such file or directory'')\<rparr>"

text \<open>
  A library in which a point in time is printed as its microsecond count in decimal and
  parsed back from it, and a task that was started at time 5 and has not ended.
\<close>

definition example_lib :: pylib where
  "example_lib =
     \<lparr>md5_hexdigest = (\<lambda>s. ''d41d8cd98f00b204e9800998ecf8427e''),
      isoformat = str_nat,
      fromisoformat = (\<lambda>s. if s = [] then Inl (Exception ''Invalid isoformat string'')
                            else Inr (nat_of_str s))\<rparr>"

definition started_task :: InstallationTask where
  "started_task = (example_task ''/tmp/a.deb'' ''0a0a0a0a'')
                    \<lparr>status := Str ''installing'', start_time := Some 5\<rparr>"

text \<open>The state of the two tasks with the first of them in the history already.\<close>

definition one_entry_app :: app where
  "one_entry_app = two_task_app\<lparr>installation_history := [0]\<rparr>"

text \<open>
  An entry of \<^verbatim>\<open>history.json\<close> with a path and the status \<^verbatim>\<open>null\<close>, and a state with
  an empty queue and history whose history file holds that entry alone.
\<close>

definition null_status_entry :: task_dict where
  "null_status_entry =
     \<lparr>d_file_path = Some ''/tmp/a.deb'', d_task_id = Absent,
      d_status = Some (NotStr ''NoneType''), d_progress = None, d_message = None,
      d_start_time = Absent, d_end_time = Absent, d_file_hash = None, d_file_size = None\<rparr>"

definition null_status_app :: app where
  "null_status_app =
     (example_app (\<lambda>r. example_task ''/tmp/a.deb'' ''0a0a0a0a'') [] (example_world []))
       \<lparr>history_json := Entries [null_status_entry]\<rparr>"

text \<open>A state with an empty queue and history in which \<^verbatim>\<open>/tmp/a.snap\<close> exists.\<close>

definition snap_app :: app where
  "snap_app = example_app (\<lambda>r. example_task ''/tmp/a.snap'' ''0a0a0a0a'') []
                (example_world [''/tmp/a.snap''])"

text \<open>
  A world in which \<^verbatim>\<open>/tmp/app.AppImage\<close> exists and the first three file operations
  succeed, after which every file operation is refused and no program can be started.
\<close>

definition broken_world :: world where
  "broken_world =
     (example_world [''/tmp/app.AppImage''])
       \<lparr>faults := (\<lambda>n. if n < 3 then None else Some ''Permission denied''),
        child := (\<lambda>n. NotStarted ''Permission denied'')\<rparr>"

text \<open>
  A world in which \<^verbatim>\<open>/tmp/tool.run\<close> and \<^verbatim>\<open>/tmp/pkg.tar.gz\<close> exist, every child process
  exits with code 0, every directory holds one script named \<^verbatim>\<open>app\<close>, and every file
  operation after the first two operations is refused.
\<close>

definition refusing_world :: world where
  "refusing_world =
     (example_world [''/tmp/tool.run'', ''/tmp/pkg.tar.gz''])
       \<lparr>faults := (\<lambda>n. if n < 2 then None else Some ''Permission denied''),
        walk := (\<lambda>d. [d @ ''/app'']), executable := (\<lambda>p. True),
        header := (\<lambda>p. Some ''#!/bin/sh'')\<rparr>"

subsection \<open>Notions used to state the properties of the batch thread\<close>

text \<open>
  What one iteration of \<^verbatim>\<open>BatchInstaller.run\<close> asks of the world for a file: the
  outcome of its \<^verbatim>\<open>try\<close> block (the result string of the procedure, or the exception
  it or the dispatch raised), and the world it leaves, including the log line of the
  handler.
\<close>

definition attempt :: "string \<Rightarrow> world \<Rightarrow> (exn + string) \<times> world" where
  "attempt path w =
     (case batch_getattr (get_file_type path) of
        None \<Rightarrow> (Inl (Exception (''Unsupported file type: '' @ get_file_type path)), w)
      | Some install_func \<Rightarrow> install_func path w)"

definition world_after :: "string \<Rightarrow> world \<Rightarrow> world" where
  "world_after path w =
     (case attempt path w of
        (Inr result, w') \<Rightarrow> w'
      | (Inl e, w') \<Rightarrow>
          snd (logging ''ERROR'' (''Installation failed for '' @ path @ '': '' @ str_exn e) w'))"

text \<open>The outcomes of the files of a batch, in order, each in the world its predecessors left.\<close>

fun outcomes :: "string list \<Rightarrow> world \<Rightarrow> (exn + string) list" where
  "outcomes [] w = []"
| "outcomes (p # ps) w = fst (attempt p w) # outcomes ps (world_after p w)"

text \<open>
  The task record after its iteration, given its outcome and the two clock readings,
  and the signals the iteration emits.
\<close>

definition finished_task ::
  "InstallationTask \<Rightarrow> exn + string \<Rightarrow> datetime \<Rightarrow> datetime \<Rightarrow> InstallationTask" where
  "finished_task t outcome t0 t1 =
     t\<lparr>status := Str (case outcome of Inr result \<Rightarrow> ''completed'' | Inl e \<Rightarrow> ''failed''),
       message := (case outcome of Inr result \<Rightarrow> result | Inl e \<Rightarrow> str_exn e),
       start_time := Some t0,
       end_time := Some t1\<rparr>"

definition task_signals :: "InstallationTask \<Rightarrow> exn + string \<Rightarrow> signal list" where
  "task_signals t outcome =
     [ProgressUpdated (task_id t) 10 (''Starting installation of '' @ basename (file_path t))]
     @ (if batch_getattr (get_file_type (file_path t)) = None then []
        else [ProgressUpdated (task_id t) 50 ''Installing...''])
     @ (case outcome of
          Inr result \<Rightarrow>
            [ProgressUpdated (task_id t) 100 result, TaskCompleted (task_id t) True result]
        | Inl e \<Rightarrow>
            [ProgressUpdated (task_id t) 100 (''Failed: '' @ str_exn e),
             TaskCompleted (task_id t) False (str_exn e)])"

text \<open>The task records the history list refers to, oldest first.\<close>

definition history_tasks :: "app \<Rightarrow> InstallationTask list" where
  "history_tasks st = map (heap st) (installation_history st)"

text \<open>The error text of the first check of \<^verbatim>\<open>install_file\<close> that a bad file fails.\<close>

definition rejection_text :: "world \<Rightarrow> string \<Rightarrow> string" where
  "rejection_text w p =
     (if \<not> path_exists w p then ''File does not exist: '' @ p
      else if \<not> readable w p then ''File is not readable: '' @ p
      else ''File is empty: '' @ p)"

text \<open>
  An operation returns in a world when it ends without an exception; it keeps the
  world in order when it leaves the home directory as it is and only adds to the trace.
\<close>

definition returns :: "'a io \<Rightarrow> world \<Rightarrow> bool" where
  "returns m w = (case fst (m w) of Inr x \<Rightarrow> True | Inl e \<Rightarrow> False)"

definition keeps :: "'a io \<Rightarrow> world \<Rightarrow> bool" where
  "keeps m w \<longleftrightarrow>
     home (snd (m w)) = home w \<and> take (length (trace w)) (trace (snd (m w))) = trace w"

text \<open>An operation begins with \<^verbatim>\<open>opn\<close> when that is the first operation it adds to the trace.\<close>

definition begins :: "'a io \<Rightarrow> os_op \<Rightarrow> world \<Rightarrow> bool" where
  "begins m opn w \<longleftrightarrow>
     home (snd (m w)) = home w
     \<and> take (Suc (length (trace w))) (trace (snd (m w))) = trace w @ [opn]"

section \<open>Properties\<close>

subsection \<open>Strings and paths\<close>

lemma lower_char_dot: "lower_char c = CHR ''.'' \<longleftrightarrow> c = CHR ''.''"
  by (simp add: lower_char_def upper_letters_def lower_letters_def)

lemma rfind_split:
  assumes "c \<in> set s"
  shows "\<exists>ys zs. s = ys @ c # zs \<and> c \<notin> set zs \<and> rfind s c = int (length ys)"
proof -
  let ?t = "takeWhile (\<lambda>x. x \<noteq> c) (rev s)"
  let ?d = "dropWhile (\<lambda>x. x \<noteq> c) (rev s)"
  from assms have "?d \<noteq> []" by (simp add: dropWhile_eq_Nil_conv)
  then obtain y ys where d: "?d = y # ys" by (cases ?d) auto
  then have "y = c" using hd_dropWhile [of "\<lambda>x. x \<noteq> c" "rev s"] by force
  have "s = rev (?t @ ?d)" by (simp only: takeWhile_dropWhile_id rev_rev_ident)
  then have "s = rev ?d @ rev ?t" by (simp only: rev_append)
  with d \<open>y = c\<close> have s: "s = rev ys @ c # rev ?t" by simp
  have len: "length s = length ys + 1 + length ?t" by (subst s) simp
  have r: "rfind s c = int (length (rev ys))" using assms len by (simp add: rfind_def)
  have "c \<notin> set (rev ?t)" using set_takeWhileD by fastforce
  with s r show ?thesis by blast
qed

lemma rfind_ge: "- 1 \<le> rfind s c"
proof (cases "c \<in> set s")
  case True
  from rfind_split [OF True] show ?thesis by auto
next
  case False
  then show ?thesis by (simp add: rfind_def)
qed

lemma rfind_drop:
  assumes "c \<in> set s"
  shows "\<exists>zs. drop (nat (rfind s c)) s = c # zs \<and> c \<notin> set zs"
proof -
  from rfind_split [OF assms] obtain ys zs
    where "s = ys @ c # zs" "c \<notin> set zs" "rfind s c = int (length ys)" by blast
  then show ?thesis by simp
qed

lemma splitext_ext_shape:
  "snd (splitext p) = [] \<or>
   (\<exists>r. snd (splitext p) = CHR ''.'' # r \<and> CHR ''.'' \<notin> set r)"
proof (cases "CHR ''.'' \<in> set p")
  case False
  then have "rfind p (CHR ''.'') = - 1" by (simp add: rfind_def)
  moreover have "- 1 \<le> rfind p (CHR ''/'')" by (rule rfind_ge)
  ultimately show ?thesis by (simp add: splitext_def Let_def)
next
  case True
  from rfind_drop [OF True] show ?thesis
    by (auto simp: splitext_def Let_def)
qed

lemma get_file_type_single:
  assumes "\<not> endswith p ''.tar.gz''" "\<not> endswith p ''.tar.xz''"
  shows "get_file_type p = lower (drop 1 (snd (splitext p)))"
proof -
  from splitext_ext_shape [of p] show ?thesis
  proof
    assume "snd (splitext p) = []"
    with assms show ?thesis by (simp add: get_file_type_def lower_def lstrip_def)
  next
    assume "\<exists>r. snd (splitext p) = CHR ''.'' # r \<and> CHR ''.'' \<notin> set r"
    then obtain r where r: "snd (splitext p) = CHR ''.'' # r" "CHR ''.'' \<notin> set r" by blast
    have "dropWhile (\<lambda>x. x = CHR ''.'') (map lower_char r) = map lower_char r"
      using r(2) by (cases r) (auto simp: lower_char_dot)
    with assms r show ?thesis
      by (simp add: get_file_type_def lower_def lstrip_def lower_char_dot)
  qed
qed

subsection \<open>The counter of the AppImage destination\<close>

lemma digit_val_digit_char: "d < 10 \<Longrightarrow> digit_val (digit_char d) = d"
proof -
  assume "d < 10"
  then have "d \<in> set [0..<10]" by simp
  moreover have "\<forall>d \<in> set [0..<10]. digit_val (digit_char d) = d"
    by (simp add: upt_rec digit_char_def digit_val_def)
  ultimately show ?thesis by blast
qed

lemma nat_of_str_append: "nat_of_str (s @ [c]) = 10 * nat_of_str s + digit_val c"
  by (simp add: nat_of_str_def)

lemma nat_of_str_str_nat: "nat_of_str (str_nat n) = n"
proof (induction n rule: str_nat.induct)
  case (1 n)
  show ?case
  proof (cases "n < 10")
    case True
    then show ?thesis
      by (subst str_nat.simps) (simp add: nat_of_str_def digit_val_digit_char)
  next
    case False
    with "1.IH" have IH: "nat_of_str (str_nat (n div 10)) = n div 10" by simp
    have "nat_of_str (str_nat n) = nat_of_str (str_nat (n div 10) @ [digit_char (n mod 10)])"
      using False by (subst str_nat.simps) simp
    also have "\<dots> = 10 * (n div 10) + n mod 10"
      by (simp add: nat_of_str_append IH digit_val_digit_char)
    finally show ?thesis by simp
  qed
qed

lemma str_nat_inj: "str_nat a = str_nat b \<Longrightarrow> a = b"
proof -
  assume "str_nat a = str_nat b"
  then have "nat_of_str (str_nat a) = nat_of_str (str_nat b)" by (rule arg_cong)
  then show "a = b" by (simp only: nat_of_str_str_nat)
qed

lemma str_nat_nonempty: "str_nat n \<noteq> []"
  by (subst str_nat.simps) simp

lemma candidate_inj: "candidate base a ext = candidate base b ext \<Longrightarrow> a = b"
  by (auto simp: candidate_def dest: str_nat_inj)

lemma finite_counters: "finite {k. candidate base k ext \<in> set fs}"
proof -
  have "inj (\<lambda>k. candidate base k ext)"
    by (rule injI) (rule candidate_inj)
  then have "finite ((\<lambda>k. candidate base k ext) -` set fs)"
    by (rule finite_vimageI [OF finite_set])
  then show ?thesis by (simp add: vimage_def)
qed

lemma counters_decrease:
  assumes "candidate base counter ext \<in> set fs"
  shows "card {k. Suc counter \<le> k \<and> candidate base k ext \<in> set fs}
         < card {k. counter \<le> k \<and> candidate base k ext \<in> set fs}"
proof (rule psubset_card_mono)
  show "finite {k. counter \<le> k \<and> candidate base k ext \<in> set fs}"
    using finite_counters [of base ext fs] by (rule rev_finite_subset) auto
  have "counter \<in> {k. counter \<le> k \<and> candidate base k ext \<in> set fs}"
    using assms by simp
  moreover have "counter \<notin> {k. Suc counter \<le> k \<and> candidate base k ext \<in> set fs}"
    by simp
  moreover have "{k. Suc counter \<le> k \<and> candidate base k ext \<in> set fs}
        \<subseteq> {k. counter \<le> k \<and> candidate base k ext \<in> set fs}"
    by auto
  ultimately show "{k. Suc counter \<le> k \<and> candidate base k ext \<in> set fs}
        \<subset> {k. counter \<le> k \<and> candidate base k ext \<in> set fs}"
    by blast
qed

termination free_counter
  by (relation "measure (\<lambda>(fs, base, ext, counter).
        card {k. counter \<le> k \<and> candidate base k ext \<in> set fs})")
     (auto intro: counters_decrease)

declare free_counter.simps [simp del]

lemma free_counter_free: "candidate base (free_counter fs base ext c) ext \<notin> set fs"
proof (induction fs base ext c rule: free_counter.induct)
  case (1 fs base ext counter)
  show ?case
  proof (cases "candidate base counter ext \<in> set fs")
    case True
    with "1.IH" show ?thesis by (subst free_counter.simps) simp
  next
    case False
    then show ?thesis by (subst free_counter.simps) simp
  qed
qed

lemma free_counter_ge: "c \<le> free_counter fs base ext c"
proof (induction fs base ext c rule: free_counter.induct)
  case (1 fs base ext counter)
  show ?case
  proof (cases "candidate base counter ext \<in> set fs")
    case True
    with "1.IH" have "Suc counter \<le> free_counter fs base ext (Suc counter)" by simp
    with True show ?thesis by (subst free_counter.simps) simp
  next
    case False
    then show ?thesis by (subst free_counter.simps) simp
  qed
qed

lemma free_counter_least:
  "c \<le> j \<Longrightarrow> j < free_counter fs base ext c \<Longrightarrow> candidate base j ext \<in> set fs"
proof (induction fs base ext c rule: free_counter.induct)
  case (1 fs base ext counter)
  show ?case
  proof (cases "candidate base counter ext \<in> set fs")
    case True
    show ?thesis
    proof (cases "j = counter")
      case True
      with \<open>candidate base counter ext \<in> set fs\<close> show ?thesis by simp
    next
      case False
      with "1.prems" have "Suc counter \<le> j" by simp
      moreover from "1.prems" True have "j < free_counter fs base ext (Suc counter)"
        by (subst (asm) free_counter.simps) simp
      ultimately show ?thesis using "1.IH" True by simp
    qed
  next
    case False
    with "1.prems" show ?thesis by (subst (asm) free_counter.simps) simp
  qed
qed

lemma free_counter_mono:
  assumes "set fs \<subseteq> set fs'"
  shows "free_counter fs base ext c \<le> free_counter fs' base ext c"
proof (rule ccontr)
  assume "\<not> free_counter fs base ext c \<le> free_counter fs' base ext c"
  then have lt: "free_counter fs' base ext c < free_counter fs base ext c" by simp
  have "c \<le> free_counter fs' base ext c" by (rule free_counter_ge)
  then have "candidate base (free_counter fs' base ext c) ext \<in> set fs"
    using lt by (rule free_counter_least)
  with assms have "candidate base (free_counter fs' base ext c) ext \<in> set fs'" by blast
  with free_counter_free show False by blast
qed

subsection \<open>Evaluating the destination on concrete files\<close>

lemma free_counter_hit:
  "candidate base c ext \<in> set fs \<Longrightarrow> free_counter fs base ext c = free_counter fs base ext (Suc c)"
  by (subst free_counter.simps) simp

lemma free_counter_miss:
  "candidate base c ext \<notin> set fs \<Longrightarrow> free_counter fs base ext c = c"
  by (subst free_counter.simps) simp

lemma str_nat_digit: "n < 10 \<Longrightarrow> str_nat n = [digit_char n]"
  by (subst str_nat.simps) simp

lemmas eval_path = appimage_dest_def path_join_def basename_def splitext_def rfind_def
  startswith_def endswith_def candidate_def str_nat_digit digit_char_def free_counter_hit
  free_counter_miss Let_def expanduser_def rstrip_def

lemmas eval_io = io_bind_def io_return_def io_raise_def io_get_def io_try_def io_try_timeout_def
  os_call_def makedirs_def shutil_move_def chmod_def write_file_def copy2_def read_file_def
  subprocess_run_def logging_def path_exists_def

subsection \<open>C2: the destination of an AppImage\<close>

text \<open>
  C2 (as amended). For both \<^verbatim>\<open>install_appimage\<close> methods the destination is computed by
  \<^verbatim>\<open>appimage_dest\<close> from the files that exist. (1) The destination never names an
  existing file. (2) When the plain name is free, it is taken. (3) When it exists, the
  destination carries the suffix \<^verbatim>\<open>_k\<close> for the least \<^verbatim>\<open>k\<close> from 1 on whose name is free.
  (4) As long as nothing is deleted (every old file still exists, and so does the
  destination chosen before), the next install of the same name gets a strictly larger
  counter. The loop terminates on every list of files (the termination proof of
  \<^verbatim>\<open>free_counter\<close>).
\<close>

theorem appimage_destination:
  "appimage_dest fs dir p \<notin> set fs
   \<and> (path_join dir (basename p) \<notin> set fs \<longrightarrow> appimage_dest fs dir p = path_join dir (basename p))
   \<and> (path_join dir (basename p) \<in> set fs \<longrightarrow>
        (\<exists>k. 1 \<le> k
           \<and> appimage_dest fs dir p
               = candidate (fst (splitext (path_join dir (basename p)))) k
                   (snd (splitext (path_join dir (basename p))))
           \<and> (\<forall>j. 1 \<le> j \<and> j < k \<longrightarrow>
                  candidate (fst (splitext (path_join dir (basename p)))) j
                    (snd (splitext (path_join dir (basename p)))) \<in> set fs)))
   \<and> (set fs \<subseteq> set fs' \<and> path_join dir (basename p) \<in> set fs \<and> appimage_dest fs dir p \<in> set fs' \<longrightarrow>
        (\<exists>k k'. k < k'
           \<and> appimage_dest fs dir p
               = candidate (fst (splitext (path_join dir (basename p)))) k
                   (snd (splitext (path_join dir (basename p))))
           \<and> appimage_dest fs' dir p
               = candidate (fst (splitext (path_join dir (basename p)))) k'
                   (snd (splitext (path_join dir (basename p))))))"
proof -
  let ?dest = "path_join dir (basename p)"
  let ?base = "fst (splitext ?dest)"
  let ?ext = "snd (splitext ?dest)"
  let ?k = "free_counter fs ?base ?ext 1"
  let ?k' = "free_counter fs' ?base ?ext 1"
  have hit: "appimage_dest gs dir p = candidate ?base (free_counter gs ?base ?ext 1) ?ext"
    if "?dest \<in> set gs" for gs
    using that by (simp add: appimage_dest_def Let_def case_prod_beta)
  have miss: "appimage_dest fs dir p = ?dest" if "?dest \<notin> set fs"
    using that by (simp add: appimage_dest_def Let_def)
  have free: "appimage_dest fs dir p \<notin> set fs"
  proof (cases "?dest \<in> set fs")
    case True
    then show ?thesis using free_counter_free [of ?base fs ?ext 1] by (simp add: hit)
  next
    case False
    then show ?thesis by (simp add: miss)
  qed
  have least: "\<exists>k. 1 \<le> k \<and> appimage_dest fs dir p = candidate ?base k ?ext
                 \<and> (\<forall>j. 1 \<le> j \<and> j < k \<longrightarrow> candidate ?base j ?ext \<in> set fs)"
    if "?dest \<in> set fs"
  proof (intro exI [of _ ?k] conjI allI impI)
    show "1 \<le> ?k" by (rule free_counter_ge)
    show "appimage_dest fs dir p = candidate ?base ?k ?ext" using that by (rule hit)
    fix j assume "1 \<le> j \<and> j < ?k"
    then show "candidate ?base j ?ext \<in> set fs" using free_counter_least by blast
  qed
  have grow: "\<exists>k k'. k < k' \<and> appimage_dest fs dir p = candidate ?base k ?ext
                 \<and> appimage_dest fs' dir p = candidate ?base k' ?ext"
    if sub: "set fs \<subseteq> set fs'" and ex: "?dest \<in> set fs" and used: "appimage_dest fs dir p \<in> set fs'"
  proof -
    from sub ex have ex': "?dest \<in> set fs'" by blast
    have a: "appimage_dest fs dir p = candidate ?base ?k ?ext" using ex by (rule hit)
    have b: "appimage_dest fs' dir p = candidate ?base ?k' ?ext" using ex' by (rule hit)
    have le: "?k \<le> ?k'" using sub by (rule free_counter_mono)
    have "candidate ?base ?k ?ext \<in> set fs'" using used ex by (simp add: hit)
    moreover have "candidate ?base ?k' ?ext \<notin> set fs'" by (rule free_counter_free)
    ultimately have "?k \<noteq> ?k'" by auto
    with le have c: "?k < ?k'" by simp
    from a b c show ?thesis by blast
  qed
  from free miss least grow show ?thesis by blast
qed

text \<open>
  Witness for C2: with \<^verbatim>\<open>app.AppImage\<close> installed, the next two installs of that name
  go to \<^verbatim>\<open>app_1.AppImage\<close> and \<^verbatim>\<open>app_2.AppImage\<close>; the hypotheses of (3) and (4) hold
  there.
\<close>

theorem appimage_destination_witness:
  "(\<exists>k k'. k < k'
      \<and> appimage_dest [''/home/u/Applications/app.AppImage''] ''/home/u/Applications''
            ''/tmp/app.AppImage''
          = candidate (fst (splitext (path_join ''/home/u/Applications'' (basename ''/tmp/app.AppImage''))))
              k (snd (splitext (path_join ''/home/u/Applications'' (basename ''/tmp/app.AppImage''))))
      \<and> appimage_dest [''/home/u/Applications/app.AppImage'', ''/home/u/Applications/app_1.AppImage'']
            ''/home/u/Applications'' ''/tmp/app.AppImage''
          = candidate (fst (splitext (path_join ''/home/u/Applications'' (basename ''/tmp/app.AppImage''))))
              k' (snd (splitext (path_join ''/home/u/Applications'' (basename ''/tmp/app.AppImage'')))))
   \<and> appimage_dest [''/home/u/Applications/app.AppImage''] ''/home/u/Applications'' ''/tmp/app.AppImage''
     = ''/home/u/Applications/app_1.AppImage''
   \<and> appimage_dest [''/home/u/Applications/app.AppImage'', ''/home/u/Applications/app_1.AppImage'']
       ''/home/u/Applications'' ''/tmp/app.AppImage''
     = ''/home/u/Applications/app_2.AppImage''"
proof (intro conjI)
  let ?fs = "[''/home/u/Applications/app.AppImage'']"
  let ?fs' = "[''/home/u/Applications/app.AppImage'', ''/home/u/Applications/app_1.AppImage'']"
  have e1: "appimage_dest ?fs ''/home/u/Applications'' ''/tmp/app.AppImage''
              = ''/home/u/Applications/app_1.AppImage''"
    by (simp add: eval_path)
  have e2: "appimage_dest ?fs' ''/home/u/Applications'' ''/tmp/app.AppImage''
              = ''/home/u/Applications/app_2.AppImage''"
    by (simp add: eval_path)
  have d: "path_join ''/home/u/Applications'' (basename ''/tmp/app.AppImage'')
             = ''/home/u/Applications/app.AppImage''"
    by (simp add: eval_path)
  have hyp: "set ?fs \<subseteq> set ?fs'
      \<and> path_join ''/home/u/Applications'' (basename ''/tmp/app.AppImage'') \<in> set ?fs
      \<and> appimage_dest ?fs ''/home/u/Applications'' ''/tmp/app.AppImage'' \<in> set ?fs'"
    unfolding e1 d by simp
  from appimage_destination [of ?fs "''/home/u/Applications''" "''/tmp/app.AppImage''" ?fs',
      THEN conjunct2, THEN conjunct2, THEN conjunct2, THEN mp, OF hyp]
  show "\<exists>k k'. k < k'
      \<and> appimage_dest ?fs ''/home/u/Applications'' ''/tmp/app.AppImage''
          = candidate (fst (splitext (path_join ''/home/u/Applications'' (basename ''/tmp/app.AppImage''))))
              k (snd (splitext (path_join ''/home/u/Applications'' (basename ''/tmp/app.AppImage''))))
      \<and> appimage_dest ?fs' ''/home/u/Applications'' ''/tmp/app.AppImage''
          = candidate (fst (splitext (path_join ''/home/u/Applications'' (basename ''/tmp/app.AppImage''))))
              k' (snd (splitext (path_join ''/home/u/Applications'' (basename ''/tmp/app.AppImage''))))" .
  show "appimage_dest ?fs ''/home/u/Applications'' ''/tmp/app.AppImage''
          = ''/home/u/Applications/app_1.AppImage''" by (rule e1)
  show "appimage_dest ?fs' ''/home/u/Applications'' ''/tmp/app.AppImage''
          = ''/home/u/Applications/app_2.AppImage''" by (rule e2)
qed

text \<open>
  What \<^verbatim>\<open>BatchInstaller.install_appimage\<close> returns and leaves behind when no file
  operation fails.
\<close>

lemma batch_install_appimage_ok:
  assumes "faults w = (\<lambda>n. None)"
  shows "batch_install_appimage p w =
     (let fs1 = List.insert (app_dir w) (files w);
          dest = appimage_dest fs1 (app_dir w) p
      in (Inr (''AppImage installed to '' @ dest),
          w\<lparr>trace := trace w @ [Makedirs (app_dir w), Move p dest, Chmod dest],
            files := List.insert dest (removeAll p fs1)\<rparr>))"
  using assms
  by (simp add: batch_install_appimage_def io_bind_def io_get_def io_return_def makedirs_def
      shutil_move_def chmod_def os_call_def app_dir_def Let_def)

lemma example_world_simps:
  "faults (example_world fs) = (\<lambda>n. None)"
  "files (example_world fs) = fs"
  "home (example_world fs) = ''/home/u''"
  "app_dir (example_world fs) = ''/home/u/Applications''"
  by (simp_all add: example_world_def app_dir_def expanduser_def startswith_def rstrip_def)

lemma batch_install_appimage_example:
  "fst (batch_install_appimage p (example_world fs))
     = Inr (''AppImage installed to ''
             @ appimage_dest (List.insert ''/home/u/Applications'' fs) ''/home/u/Applications'' p)"
  by (simp add: batch_install_appimage_ok example_world_simps Let_def)

text \<open>
  Counterexample to C2 as stated: three installs of \<^verbatim>\<open>/tmp/app.AppImage\<close>. With
  \<^verbatim>\<open>app.AppImage\<close> present the file goes to \<^verbatim>\<open>app_1.AppImage\<close>; with \<^verbatim>\<open>app_1\<close> present
  too it goes to \<^verbatim>\<open>app_2.AppImage\<close>; after \<^verbatim>\<open>app_1.AppImage\<close> has been deleted (and
  \<^verbatim>\<open>app_2\<close> is still there) it goes to \<^verbatim>\<open>app_1.AppImage\<close> again. The counters are 1, 2, 1:
  not increasing, and the freed slot is reused.
\<close>

theorem appimage_freed_slot_reused:
  "fst (batch_install_appimage ''/tmp/app.AppImage''
          (example_world [''/home/u/Applications/app.AppImage'', ''/tmp/app.AppImage'']))
     = Inr ''AppImage installed to /home/u/Applications/app_1.AppImage''
   \<and> fst (batch_install_appimage ''/tmp/app.AppImage''
          (example_world [''/home/u/Applications/app.AppImage'',
             ''/home/u/Applications/app_1.AppImage'', ''/tmp/app.AppImage'']))
     = Inr ''AppImage installed to /home/u/Applications/app_2.AppImage''
   \<and> fst (batch_install_appimage ''/tmp/app.AppImage''
          (example_world [''/home/u/Applications/app.AppImage'',
             ''/home/u/Applications/app_2.AppImage'', ''/tmp/app.AppImage'']))
     = Inr ''AppImage installed to /home/u/Applications/app_1.AppImage''"
proof (intro conjI)
  show "fst (batch_install_appimage ''/tmp/app.AppImage''
          (example_world [''/home/u/Applications/app.AppImage'', ''/tmp/app.AppImage'']))
     = Inr ''AppImage installed to /home/u/Applications/app_1.AppImage''"
    unfolding batch_install_appimage_example by (simp add: eval_path)
  show "fst (batch_install_appimage ''/tmp/app.AppImage''
          (example_world [''/home/u/Applications/app.AppImage'',
             ''/home/u/Applications/app_1.AppImage'', ''/tmp/app.AppImage'']))
     = Inr ''AppImage installed to /home/u/Applications/app_2.AppImage''"
    unfolding batch_install_appimage_example by (simp add: eval_path)
  show "fst (batch_install_appimage ''/tmp/app.AppImage''
          (example_world [''/home/u/Applications/app.AppImage'',
             ''/home/u/Applications/app_2.AppImage'', ''/tmp/app.AppImage'']))
     = Inr ''AppImage installed to /home/u/Applications/app_1.AppImage''"
    unfolding batch_install_appimage_example by (simp add: eval_path)
qed

subsection \<open>C4: format detection and the registry\<close>

text \<open>
  Detection itself: the two-segment suffixes win, and every other path gets the
  extension of \<^verbatim>\<open>os.path.splitext\<close> in lower case without its dot
  (\<^verbatim>\<open>get_file_type_single\<close> above). As a HOL function it is total and deterministic.
\<close>

lemma get_file_type_tar_gz: "endswith p ''.tar.gz'' \<Longrightarrow> get_file_type p = ''tar.gz''"
  by (simp add: get_file_type_def)

lemma get_file_type_tar_xz:
  "\<not> endswith p ''.tar.gz'' \<Longrightarrow> endswith p ''.tar.xz'' \<Longrightarrow> get_file_type p = ''tar.xz''"
  by (simp add: get_file_type_def)

text \<open>A call into the world changes nothing of the application but its \<^verbatim>\<open>os\<close> field.\<close>

lemma with_os_frame:
  "heap (snd (with_os m st)) = heap st"
  "installation_queue (snd (with_os m st)) = installation_queue st"
  "installation_history (snd (with_os m st)) = installation_history st"
  "history_json (snd (with_os m st)) = history_json st"
  "installing (snd (with_os m st)) = installing st"
  "current_worker (snd (with_os m st)) = current_worker st"
  "worker_is_running (snd (with_os m st)) = worker_is_running st"
  "dialogs (snd (with_os m st)) = dialogs st"
  "emitted (snd (with_os m st)) = emitted st"
  "clock (snd (with_os m st)) = clock st"
  "ticks (snd (with_os m st)) = ticks st"
  "next_ref (snd (with_os m st)) = next_ref st"
  "current_batch_installer (snd (with_os m st)) = current_batch_installer st"
  by (simp_all add: with_os_def split: prod.split)

text \<open>
  The registry of \<^verbatim>\<open>install_file\<close>: a file that passes the checks is rejected when its
  tag is outside the list, and handed to the procedure of its tag otherwise. The loop of
  \<^verbatim>\<open>BatchInstaller.run\<close> rejects every tag for which \<^verbatim>\<open>getattr\<close> finds no method.
\<close>

lemma check_file_ok: "fst (check_file p w) = Inr () \<Longrightarrow> check_file p w = (Inr (), w)"
  by (auto simp: check_file_def io_bind_def io_get_def io_return_def io_raise_def logging_def
      split: if_splits)

lemma linux_getattr_supported: "ext \<in> set supported_types \<Longrightarrow> linux_getattr ext \<noteq> None"
  by (auto simp: linux_getattr_def supported_types_def method_name_def replace_char_def)

lemma install_file_supported:
  assumes "\<not> installing st" "current_worker st = None \<or> \<not> worker_is_running st"
    and "fst (check_file p (os st)) = Inr ()"
    and "get_file_type p \<in> set supported_types"
  shows "\<exists>f. linux_getattr (get_file_type p) = Some f
           \<and> install_file p st
               = st\<lparr>installing := True,
                    status_label := ''Installing '' @ basename p @ ''...'',
                    current_worker := Some \<lparr>worker_func = f, worker_path = p\<rparr>,
                    worker_is_running := True\<rparr>"
proof -
  from assms(4) obtain f where f: "linux_getattr (get_file_type p) = Some f"
    using linux_getattr_supported by blast
  have c: "with_os (check_file p) st = (Inr (), st)"
    using check_file_ok [OF assms(3)] by (simp add: with_os_def)
  have "install_file p st
      = st\<lparr>installing := True,
           status_label := ''Installing '' @ basename p @ ''...'',
           current_worker := Some \<lparr>worker_func = f, worker_path = p\<rparr>,
           worker_is_running := True\<rparr>"
    using assms(1,2,4) by (auto simp: install_file_def c f Let_def)
  with f show ?thesis by blast
qed

lemma install_file_unsupported:
  assumes "\<not> installing st" "current_worker st = None \<or> \<not> worker_is_running st"
    and "fst (check_file p (os st)) = Inr ()"
    and "get_file_type p \<notin> set supported_types"
  shows "install_file p st
           = show_error (''Unsupported file type: '' @ get_file_type p)
               (log_error (''Unsupported file type: '' @ get_file_type p) st)"
    and "dialogs (install_file p st)
           = dialogs st @ [Critical ''Error'' (''Unsupported file type: '' @ get_file_type p)]"
    and "installing (install_file p st) = False"
    and "current_worker (install_file p st) = current_worker st"
    and "trace (os (install_file p st)) = trace (os st)"
    and "files (os (install_file p st)) = files (os st)"
proof -
  have c: "with_os (check_file p) st = (Inr (), st)"
    using check_file_ok [OF assms(3)] by (simp add: with_os_def)
  show e: "install_file p st
          = show_error (''Unsupported file type: '' @ get_file_type p)
              (log_error (''Unsupported file type: '' @ get_file_type p) st)"
    using assms(1,2,4) by (auto simp: install_file_def c Let_def)
  show "dialogs (install_file p st)
           = dialogs st @ [Critical ''Error'' (''Unsupported file type: '' @ get_file_type p)]"
    by (simp add: e show_error_def log_error_def with_os_def logging_def)
  show "installing (install_file p st) = False"
    using assms(1) by (simp add: e show_error_def log_error_def with_os_def logging_def)
  show "current_worker (install_file p st) = current_worker st"
    by (simp add: e show_error_def log_error_def with_os_def logging_def)
  show "trace (os (install_file p st)) = trace (os st)"
    by (simp add: e show_error_def log_error_def with_os_def logging_def)
  show "files (os (install_file p st)) = files (os st)"
    by (simp add: e show_error_def log_error_def with_os_def logging_def)
qed

lemma run_try_unsupported:
  "batch_getattr (get_file_type (file_path (heap st r))) = None \<Longrightarrow>
   fst (run_try r st)
     = Inl (Exception (''Unsupported file type: '' @ get_file_type (file_path (heap st r))))"
  by (simp add: run_try_def Let_def)

lemmas eval_file_type = get_file_type_def endswith_def splitext_def rfind_def lstrip_def lower_def
  lower_char_def upper_letters_def lower_letters_def Let_def

text \<open>
  Claim C4. The tag of a path is a function of the path alone, the same in the three
  classes that compute it. A path that ends in \<^verbatim>\<open>.tar.gz\<close> gets the tag \<^verbatim>\<open>tar.gz\<close> and,
  failing that, one that ends in \<^verbatim>\<open>.tar.xz\<close> the tag \<^verbatim>\<open>tar.xz\<close>, whatever its last
  suffix alone would give. Every other path gets its last suffix (the extension of
  \<^verbatim>\<open>os.path.splitext\<close>, which is empty or a dot followed by characters other than the
  dot) in lower case without the dot. A file that passes the checks of \<^verbatim>\<open>install_file\<close>
  and whose tag is outside the supported list is rejected: the error
  \<^verbatim>\<open>Unsupported file type\<close> with the tag is shown, no worker is started and nothing is
  done to the file system. A file with a supported tag is handed to the procedure of
  the tag.
\<close>

theorem format_detection:
  "(endswith p ''.tar.gz'' \<longrightarrow> get_file_type p = ''tar.gz'')
   \<and> (\<not> endswith p ''.tar.gz'' \<and> endswith p ''.tar.xz'' \<longrightarrow> get_file_type p = ''tar.xz'')
   \<and> (\<not> endswith p ''.tar.gz'' \<and> \<not> endswith p ''.tar.xz'' \<longrightarrow>
        get_file_type p = lower (drop 1 (snd (splitext p))))
   \<and> (snd (splitext p) = [] \<or> (\<exists>r. snd (splitext p) = CHR ''.'' # r \<and> CHR ''.'' \<notin> set r))
   \<and> (\<not> installing st \<and> (current_worker st = None \<or> \<not> worker_is_running st)
        \<and> fst (check_file p (os st)) = Inr () \<and> get_file_type p \<notin> set supported_types \<longrightarrow>
        install_file p st
          = show_error (''Unsupported file type: '' @ get_file_type p)
              (log_error (''Unsupported file type: '' @ get_file_type p) st)
        \<and> dialogs (install_file p st)
            = dialogs st @ [Critical ''Error'' (''Unsupported file type: '' @ get_file_type p)]
        \<and> installing (install_file p st) = False
        \<and> current_worker (install_file p st) = current_worker st
        \<and> trace (os (install_file p st)) = trace (os st)
        \<and> files (os (install_file p st)) = files (os st))
   \<and> (\<not> installing st \<and> (current_worker st = None \<or> \<not> worker_is_running st)
        \<and> fst (check_file p (os st)) = Inr () \<and> get_file_type p \<in> set supported_types \<longrightarrow>
        (\<exists>f. linux_getattr (get_file_type p) = Some f
           \<and> install_file p st
               = st\<lparr>installing := True,
                    status_label := ''Installing '' @ basename p @ ''...'',
                    current_worker := Some \<lparr>worker_func = f, worker_path = p\<rparr>,
                    worker_is_running := True\<rparr>))"
proof (intro conjI impI)
  show "get_file_type p = ''tar.gz''" if "endswith p ''.tar.gz''"
    using that by (rule get_file_type_tar_gz)
  show "get_file_type p = ''tar.xz''" if "\<not> endswith p ''.tar.gz'' \<and> endswith p ''.tar.xz''"
    using that by (simp add: get_file_type_tar_xz)
  show "get_file_type p = lower (drop 1 (snd (splitext p)))"
    if "\<not> endswith p ''.tar.gz'' \<and> \<not> endswith p ''.tar.xz''"
    using that by (simp add: get_file_type_single)
  show "snd (splitext p) = [] \<or> (\<exists>r. snd (splitext p) = CHR ''.'' # r \<and> CHR ''.'' \<notin> set r)"
    by (rule splitext_ext_shape)
next
  assume a: "\<not> installing st \<and> (current_worker st = None \<or> \<not> worker_is_running st)
        \<and> fst (check_file p (os st)) = Inr () \<and> get_file_type p \<notin> set supported_types"
  then have 1: "\<not> installing st" and 2: "current_worker st = None \<or> \<not> worker_is_running st"
    and 3: "fst (check_file p (os st)) = Inr ()" and 4: "get_file_type p \<notin> set supported_types"
    by simp_all
  show "install_file p st
          = show_error (''Unsupported file type: '' @ get_file_type p)
              (log_error (''Unsupported file type: '' @ get_file_type p) st)"
    using 1 2 3 4 by (rule install_file_unsupported)
  show "dialogs (install_file p st)
            = dialogs st @ [Critical ''Error'' (''Unsupported file type: '' @ get_file_type p)]"
    using 1 2 3 4 by (rule install_file_unsupported)
  show "installing (install_file p st) = False"
    using 1 2 3 4 by (rule install_file_unsupported)
  show "current_worker (install_file p st) = current_worker st"
    using 1 2 3 4 by (rule install_file_unsupported)
  show "trace (os (install_file p st)) = trace (os st)"
    using 1 2 3 4 by (rule install_file_unsupported)
  show "files (os (install_file p st)) = files (os st)"
    using 1 2 3 4 by (rule install_file_unsupported)
next
  assume a: "\<not> installing st \<and> (current_worker st = None \<or> \<not> worker_is_running st)
        \<and> fst (check_file p (os st)) = Inr () \<and> get_file_type p \<in> set supported_types"
  then show "\<exists>f. linux_getattr (get_file_type p) = Some f
           \<and> install_file p st
               = st\<lparr>installing := True,
                    status_label := ''Installing '' @ basename p @ ''...'',
                    current_worker := Some \<lparr>worker_func = f, worker_path = p\<rparr>,
                    worker_is_running := True\<rparr>"
    by (intro install_file_supported) simp_all
qed

lemma two_task_app_simps:
  "installation_queue two_task_app = [0, 1]"
  "current_batch_installer two_task_app = None"
  "heap two_task_app = two_tasks"
  "os two_task_app = example_world [''/tmp/a.xyz'', ''/tmp/b.run'']"
  "clock two_task_app = (\<lambda>n. n)"
  "ticks two_task_app = 0"
  "installing two_task_app = False"
  "current_worker two_task_app = None"
  "dialogs two_task_app = []"
  by (simp_all add: two_task_app_def example_app_def)

text \<open>
  The theorem at an archive, at a package whose suffix is in upper case, and at the two
  files of the example state: \<^verbatim>\<open>/tmp/a.xyz\<close> is rejected and \<^verbatim>\<open>/tmp/b.run\<close> is accepted.
\<close>

theorem format_detection_witness:
  "get_file_type ''/tmp/pkg.tar.gz'' = ''tar.gz''
   \<and> get_file_type ''/tmp/App.DEB'' = ''deb''
   \<and> dialogs (install_file ''/tmp/a.xyz'' two_task_app)
       = [Critical ''Error'' ''Unsupported file type: xyz'']
   \<and> installing (install_file ''/tmp/a.xyz'' two_task_app) = False
   \<and> current_worker (install_file ''/tmp/a.xyz'' two_task_app) = None
   \<and> trace (os (install_file ''/tmp/a.xyz'' two_task_app)) = []
   \<and> installing (install_file ''/tmp/b.run'' two_task_app) = True"
proof -
  have a: "get_file_type ''/tmp/pkg.tar.gz'' = ''tar.gz''"
    using format_detection [of "''/tmp/pkg.tar.gz''" two_task_app, THEN conjunct1]
    by (simp add: endswith_def)
  have "get_file_type ''/tmp/App.DEB'' = lower (drop 1 (snd (splitext ''/tmp/App.DEB'')))"
    using format_detection [of "''/tmp/App.DEB''" two_task_app,
        THEN conjunct2, THEN conjunct2, THEN conjunct1]
    by (simp add: endswith_def)
  then have b: "get_file_type ''/tmp/App.DEB'' = ''deb''"
    by (simp add: splitext_def rfind_def lower_def lower_char_def upper_letters_def
        lower_letters_def Let_def)
  have idle: "\<not> installing two_task_app"
    "current_worker two_task_app = None \<or> \<not> worker_is_running two_task_app"
    by (simp_all add: two_task_app_simps)
  have ck: "fst (check_file p (os two_task_app)) = Inr ()"
    if "p \<in> set [''/tmp/a.xyz'', ''/tmp/b.run'']" for p
    using that
    by (auto simp: check_file_def io_bind_def io_get_def io_return_def two_task_app_simps
        example_world_def path_exists_def)
  have tx: "get_file_type ''/tmp/a.xyz'' = ''xyz''" by (simp add: eval_file_type)
  have tr: "get_file_type ''/tmp/b.run'' = ''run''" by (simp add: eval_file_type)
  have "\<not> installing two_task_app
      \<and> (current_worker two_task_app = None \<or> \<not> worker_is_running two_task_app)
      \<and> fst (check_file ''/tmp/a.xyz'' (os two_task_app)) = Inr ()
      \<and> get_file_type ''/tmp/a.xyz'' \<notin> set supported_types"
    using idle ck by (simp add: tx supported_types_def)
  from format_detection [of "''/tmp/a.xyz''" two_task_app,
      THEN conjunct2, THEN conjunct2, THEN conjunct2, THEN conjunct2, THEN conjunct1,
      THEN mp, OF this, THEN conjunct2]
  have c: "dialogs (install_file ''/tmp/a.xyz'' two_task_app)
       = [Critical ''Error'' ''Unsupported file type: xyz'']
     \<and> installing (install_file ''/tmp/a.xyz'' two_task_app) = False
     \<and> current_worker (install_file ''/tmp/a.xyz'' two_task_app) = None
     \<and> trace (os (install_file ''/tmp/a.xyz'' two_task_app)) = []"
    by (simp add: tx two_task_app_simps example_world_def)
  have "\<not> installing two_task_app
      \<and> (current_worker two_task_app = None \<or> \<not> worker_is_running two_task_app)
      \<and> fst (check_file ''/tmp/b.run'' (os two_task_app)) = Inr ()
      \<and> get_file_type ''/tmp/b.run'' \<in> set supported_types"
    using idle ck by (simp add: tr supported_types_def)
  from format_detection [of "''/tmp/b.run''" two_task_app,
      THEN conjunct2, THEN conjunct2, THEN conjunct2, THEN conjunct2, THEN conjunct2,
      THEN mp, OF this]
  obtain f where "install_file ''/tmp/b.run'' two_task_app
      = two_task_app\<lparr>installing := True,
           status_label := ''Installing '' @ basename ''/tmp/b.run'' @ ''...'',
           current_worker := Some \<lparr>worker_func = f, worker_path = ''/tmp/b.run''\<rparr>,
           worker_is_running := True\<rparr>"
    by blast
  then have d: "installing (install_file ''/tmp/b.run'' two_task_app) = True" by simp
  from a b c d show ?thesis by blast
qed

subsection \<open>C6: the batch loop\<close>

text \<open>
  One iteration of the loop in closed form: the task gets its outcome and the two
  clock readings, the signals of the iteration are emitted, and the world is the one the
  attempt left. Nothing else of the state changes.
\<close>

lemma run_try_eq:
  "run_try r st =
     (fst (attempt (file_path (heap st r)) (os st)),
      st\<lparr>emitted := emitted st
             @ [ProgressUpdated (task_id (heap st r)) 10
                  (''Starting installation of '' @ basename (file_path (heap st r)))]
             @ (if batch_getattr (get_file_type (file_path (heap st r))) = None then []
                else [ProgressUpdated (task_id (heap st r)) 50 ''Installing...'']),
         os := snd (attempt (file_path (heap st r)) (os st))\<rparr>)"
  by (cases "batch_getattr (get_file_type (file_path (heap st r)))")
     (simp_all add: run_try_def attempt_def Let_def emit_def with_os_def split: prod.split)

lemma run_body_eq:
  "run_body r st =
     st\<lparr>heap := (heap st)(r := finished_task (heap st r)
                     (fst (attempt (file_path (heap st r)) (os st)))
                     (clock st (ticks st)) (clock st (Suc (ticks st)))),
        emitted := emitted st
          @ task_signals (heap st r) (fst (attempt (file_path (heap st r)) (os st))),
        os := world_after (file_path (heap st r)) (os st),
        ticks := Suc (Suc (ticks st))\<rparr>"
proof (cases "attempt (file_path (heap st r)) (os st)")
  case (Pair res w')
  show ?thesis
  proof (cases res)
    case (Inl e)
    with Pair show ?thesis
      by (auto intro!: app.equality InstallationTask.equality
          simp: run_body_def run_try_eq now_def update_task_def Let_def run_failed_def
          emit_def with_os_def logging_def finished_task_def task_signals_def world_after_def
          fun_eq_iff)
  next
    case (Inr result)
    with Pair show ?thesis
      by (auto intro!: app.equality InstallationTask.equality
          simp: run_body_def run_try_eq now_def update_task_def Let_def run_completed_def
          emit_def finished_task_def task_signals_def world_after_def fun_eq_iff)
  qed
qed


lemma run_body_fields:
  "clock (run_body r st) = clock st"
  "ticks (run_body r st) = Suc (Suc (ticks st))"
  "os (run_body r st) = world_after (file_path (heap st r)) (os st)"
  "installation_queue (run_body r st) = installation_queue st"
  "installation_history (run_body r st) = installation_history st"
  "history_json (run_body r st) = history_json st"
  "current_batch_installer (run_body r st) = current_batch_installer st"
  "next_ref (run_body r st) = next_ref st"
  "dialogs (run_body r st) = dialogs st"
  "installing (run_body r st) = installing st"
  "emitted (run_body r st)
     = emitted st @ task_signals (heap st r) (fst (attempt (file_path (heap st r)) (os st)))"
  by (simp_all add: run_body_eq)

lemma run_body_heap:
  "heap (run_body r st) r
     = finished_task (heap st r) (fst (attempt (file_path (heap st r)) (os st)))
         (clock st (ticks st)) (clock st (Suc (ticks st)))"
  "x \<noteq> r \<Longrightarrow> heap (run_body r st) x = heap st x"
  by (simp_all add: run_body_eq)

lemma run_loop_drains: "fst (run_loop True ts st) = []"
  by (induction ts arbitrary: st) simp_all

lemma run_loop_stopped: "run_loop False ts st = (ts, st)"
  by (cases ts) simp_all

lemma run_loop_True_frame:
  "installation_queue (snd (run_loop True ts st)) = installation_queue st
   \<and> installation_history (snd (run_loop True ts st)) = installation_history st
   \<and> history_json (snd (run_loop True ts st)) = history_json st
   \<and> clock (snd (run_loop True ts st)) = clock st
   \<and> next_ref (snd (run_loop True ts st)) = next_ref st"
  by (induction ts arbitrary: st) (simp_all add: run_body_fields)

lemma run_loop_frame:
  "installation_queue (snd (run_loop go ts st)) = installation_queue st
   \<and> installation_history (snd (run_loop go ts st)) = installation_history st
   \<and> history_json (snd (run_loop go ts st)) = history_json st
   \<and> clock (snd (run_loop go ts st)) = clock st
   \<and> next_ref (snd (run_loop go ts st)) = next_ref st"
  by (cases go) (simp_all add: run_loop_True_frame run_loop_stopped)

lemma run_loop_ticks: "ticks (snd (run_loop True ts st)) = ticks st + 2 * length ts"
  by (induction ts arbitrary: st) (simp_all add: run_body_fields)

lemma run_loop_True_heap_other:
  "x \<notin> set ts \<Longrightarrow> heap (snd (run_loop True ts st)) x = heap st x"
  by (induction ts arbitrary: st) (simp_all add: run_body_heap)

lemma run_loop_heap_other: "x \<notin> set ts \<Longrightarrow> heap (snd (run_loop go ts st)) x = heap st x"
  by (cases go) (simp_all add: run_loop_True_heap_other run_loop_stopped)

lemma finished_task_path [simp]: "file_path (finished_task t out t0 t1) = file_path t"
  by (simp add: finished_task_def)

lemma finished_task_id [simp]: "task_id (finished_task t out t0 t1) = task_id t"
  by (simp add: finished_task_def)

lemma paths_after_body:
  "r \<notin> set rest \<Longrightarrow>
   map (\<lambda>x. file_path (heap (run_body r st) x)) rest = map (\<lambda>x. file_path (heap st x)) rest"
proof (rule map_cong)
  fix x assume "r \<notin> set rest" "x \<in> set rest"
  then have "x \<noteq> r" by blast
  then show "file_path (heap (run_body r st) x) = file_path (heap st x)"
    by (simp add: run_body_heap)
qed simp

lemma run_loop_heap_nth:
  assumes "distinct ts" "j < length ts"
  shows "heap (snd (run_loop True ts st)) (ts ! j)
     = finished_task (heap st (ts ! j))
         (outcomes (map (\<lambda>x. file_path (heap st x)) ts) (os st) ! j)
         (clock st (ticks st + 2 * j)) (clock st (Suc (ticks st + 2 * j)))"
  using assms
proof (induction ts arbitrary: st j)
  case Nil
  then show ?case by simp
next
  case (Cons r rest)
  from Cons.prems have r: "r \<notin> set rest" and d: "distinct rest" by simp_all
  show ?case
  proof (cases j)
    case 0
    then show ?thesis using r by (simp add: run_loop_heap_other run_body_heap)
  next
    case (Suc i)
    with Cons.prems have i: "i < length rest" by simp
    then have ne: "rest ! i \<noteq> r" using r by (metis nth_mem)
    from Cons.IH [OF d i, of "run_body r st"] Suc ne r show ?thesis
      by (simp add: run_body_fields run_body_heap paths_after_body)
  qed
qed

lemma signals_after_body:
  "r \<notin> set rest \<Longrightarrow> length outs = length rest \<Longrightarrow>
   map (\<lambda>(x, out). task_signals (heap (run_body r st) x) out) (zip rest outs)
     = map (\<lambda>(x, out). task_signals (heap st x) out) (zip rest outs)"
proof (rule map_cong)
  fix z assume a: "r \<notin> set rest" "z \<in> set (zip rest outs)"
  obtain x out where z: "z = (x, out)" by (cases z)
  with a have "x \<in> set rest" by (auto dest: set_zip_leftD)
  with a have "x \<noteq> r" by blast
  then show "(case z of (x, out) \<Rightarrow> task_signals (heap (run_body r st) x) out)
             = (case z of (x, out) \<Rightarrow> task_signals (heap st x) out)"
    by (simp add: z run_body_heap)
qed simp

lemma outcomes_length: "length (outcomes ps w) = length ps"
  by (induction ps arbitrary: w) simp_all

lemma run_loop_emitted:
  assumes "distinct ts"
  shows "emitted (snd (run_loop True ts st))
     = emitted st
       @ concat (map (\<lambda>(x, out). task_signals (heap st x) out)
           (zip ts (outcomes (map (\<lambda>x. file_path (heap st x)) ts) (os st))))"
  using assms
proof (induction ts arbitrary: st)
  case Nil
  then show ?case by simp
next
  case (Cons r rest)
  from Cons.prems have r: "r \<notin> set rest" and d: "distinct rest" by simp_all
  from Cons.IH [OF d, of "run_body r st"] r show ?case
    by (simp add: run_body_fields paths_after_body signals_after_body outcomes_length)
qed


lemma task_signals_no_finish: "BatchFinished \<notin> set (task_signals t out)"
  by (cases out) (simp_all add: task_signals_def)

lemma finished_task_terminal:
  "status (finished_task t out t0 t1) \<in> {Str ''completed'', Str ''failed''}
   \<and> end_time (finished_task t out t0 t1) = Some t1
   \<and> start_time (finished_task t out t0 t1) = Some t0"
  by (cases out) (simp_all add: finished_task_def)

lemma run_stopped: "run (b\<lparr>running := False\<rparr>) st = (b\<lparr>running := False\<rparr>, emit BatchFinished st)"
  by (simp add: run_def run_loop_stopped)

text \<open>
  C6. A batch over distinct task objects \<^verbatim>\<open>ts\<close> (the constructor sets \<^verbatim>\<open>running\<close>):
  (1) the deque is drained and every task is attempted, one outcome per task;
  (2) the signals are those of the tasks in the order of the queue, followed by one
  \<^verbatim>\<open>batch_finished\<close>, and no other \<^verbatim>\<open>batch_finished\<close> is emitted;
  (3) the \<^verbatim>\<open>j\<close>-th task ends as \<^verbatim>\<open>completed\<close> or \<^verbatim>\<open>failed\<close> with its start and end time
  recorded, and its final record is determined by its own outcome and the clock alone;
  (4) tasks outside the batch are untouched;
  (5) in any two runs (for instance one in which task \<^verbatim>\<open>k\<close> fails and one in which it
  does not) a task whose own attempt has the same outcome ends with the same status
  and message. \<^verbatim>\<open>run_stopped\<close> above is the case of a stopped scheduler: the signal is
  emitted once and no task is touched.
\<close>

theorem batch_run_isolates_failures:
  assumes "distinct ts"
  shows
    "tasks (fst (run (BatchInstaller_init ts) st)) = []
     \<and> length (outcomes (map (\<lambda>r. file_path (heap st r)) ts) (os st)) = length ts
     \<and> emitted (snd (run (BatchInstaller_init ts) st))
         = emitted st
           @ concat (map (\<lambda>(r, out). task_signals (heap st r) out)
               (zip ts (outcomes (map (\<lambda>r. file_path (heap st r)) ts) (os st))))
           @ [BatchFinished]
     \<and> filter (\<lambda>s. s = BatchFinished)
           (drop (length (emitted st)) (emitted (snd (run (BatchInstaller_init ts) st))))
         = [BatchFinished]
     \<and> (\<forall>j < length ts.
           heap (snd (run (BatchInstaller_init ts) st)) (ts ! j)
             = finished_task (heap st (ts ! j))
                 (outcomes (map (\<lambda>r. file_path (heap st r)) ts) (os st) ! j)
                 (clock st (ticks st + 2 * j)) (clock st (Suc (ticks st + 2 * j)))
           \<and> status (heap (snd (run (BatchInstaller_init ts) st)) (ts ! j))
                 \<in> {Str ''completed'', Str ''failed''}
           \<and> end_time (heap (snd (run (BatchInstaller_init ts) st)) (ts ! j))
                 = Some (clock st (Suc (ticks st + 2 * j))))
     \<and> (\<forall>x. x \<notin> set ts \<longrightarrow> heap (snd (run (BatchInstaller_init ts) st)) x = heap st x)
     \<and> (\<forall>st2 j. j < length ts \<and> heap st2 (ts ! j) = heap st (ts ! j)
           \<and> outcomes (map (\<lambda>r. file_path (heap st2 r)) ts) (os st2) ! j
               = outcomes (map (\<lambda>r. file_path (heap st r)) ts) (os st) ! j
           \<longrightarrow> status (heap (snd (run (BatchInstaller_init ts) st2)) (ts ! j))
                 = status (heap (snd (run (BatchInstaller_init ts) st)) (ts ! j))
               \<and> message (heap (snd (run (BatchInstaller_init ts) st2)) (ts ! j))
                 = message (heap (snd (run (BatchInstaller_init ts) st)) (ts ! j)))"
proof -
  let ?outs = "\<lambda>s. outcomes (map (\<lambda>r. file_path (heap s r)) ts) (os s)"
  have run_eq: "run (BatchInstaller_init ts) s
      = ((BatchInstaller_init ts)\<lparr>tasks := fst (run_loop True ts s)\<rparr>,
         emit BatchFinished (snd (run_loop True ts s)))" for s
    by (simp add: run_def BatchInstaller_init_def split: prod.split)
  have heap_eq: "heap (snd (run (BatchInstaller_init ts) s)) = heap (snd (run_loop True ts s))" for s
    by (simp add: run_eq emit_def)
  have em: "emitted (snd (run (BatchInstaller_init ts) st))
      = emitted st @ concat (map (\<lambda>(r, out). task_signals (heap st r) out) (zip ts (?outs st)))
        @ [BatchFinished]"
    by (simp add: run_eq emit_def run_loop_emitted [OF assms])
  have c1: "tasks (fst (run (BatchInstaller_init ts) st)) = []"
    by (simp add: run_eq run_loop_drains)
  have c2: "length (?outs st) = length ts"
    by (simp add: outcomes_length)
  have nofin: "filter (\<lambda>s. s = BatchFinished)
      (concat (map (\<lambda>(r, out). task_signals (heap st r) out) (zip ts (?outs st)))) = []"
    by (auto simp: filter_empty_conv task_signals_no_finish)
  have c4: "filter (\<lambda>s. s = BatchFinished)
      (drop (length (emitted st)) (emitted (snd (run (BatchInstaller_init ts) st))))
        = [BatchFinished]"
    by (simp add: em nofin)
  have nth: "heap (snd (run (BatchInstaller_init ts) s)) (ts ! j)
      = finished_task (heap s (ts ! j)) (?outs s ! j)
          (clock s (ticks s + 2 * j)) (clock s (Suc (ticks s + 2 * j)))"
    if "j < length ts" for s j
    using run_loop_heap_nth [OF assms that] by (simp add: heap_eq)
  have c5: "\<forall>j < length ts.
      heap (snd (run (BatchInstaller_init ts) st)) (ts ! j)
        = finished_task (heap st (ts ! j)) (?outs st ! j)
            (clock st (ticks st + 2 * j)) (clock st (Suc (ticks st + 2 * j)))
      \<and> status (heap (snd (run (BatchInstaller_init ts) st)) (ts ! j)) \<in> {Str ''completed'', Str ''failed''}
      \<and> end_time (heap (snd (run (BatchInstaller_init ts) st)) (ts ! j))
            = Some (clock st (Suc (ticks st + 2 * j)))"
    using finished_task_terminal by (simp add: nth)
  have c6: "\<forall>x. x \<notin> set ts \<longrightarrow> heap (snd (run (BatchInstaller_init ts) st)) x = heap st x"
    by (simp add: heap_eq run_loop_heap_other)
  have c7: "\<forall>st2 j. j < length ts \<and> heap st2 (ts ! j) = heap st (ts ! j)
           \<and> ?outs st2 ! j = ?outs st ! j
           \<longrightarrow> status (heap (snd (run (BatchInstaller_init ts) st2)) (ts ! j))
                 = status (heap (snd (run (BatchInstaller_init ts) st)) (ts ! j))
               \<and> message (heap (snd (run (BatchInstaller_init ts) st2)) (ts ! j))
                 = message (heap (snd (run (BatchInstaller_init ts) st)) (ts ! j))"
    by (simp add: nth finished_task_def)
  from c1 c2 em c4 c5 c6 c7 show ?thesis by blast
qed

text \<open>
  Witness for C6: a batch of \<^verbatim>\<open>/tmp/a.xyz\<close> (no procedure: it fails) and \<^verbatim>\<open>/tmp/b.run\<close>
  (it succeeds). Both reach a terminal state with an end time; the first task fails in
  the same way in a world where the command of the second fails.
\<close>

lemma two_task_outcomes:
  "fst (attempt ''/tmp/a.xyz'' w) = Inl (Exception ''Unsupported file type: xyz'')
   \<and> fst (attempt ''/tmp/b.run'' (world_after ''/tmp/a.xyz'' (example_world fs)))
       = Inr ''Executed b.run''"
proof -
  have t1: "get_file_type ''/tmp/a.xyz'' = ''xyz''" by (simp add: eval_file_type)
  have t2: "get_file_type ''/tmp/b.run'' = ''run''" by (simp add: eval_file_type)
  have g1: "batch_getattr ''xyz'' = None"
    by (simp add: batch_getattr_def method_name_def replace_char_def)
  have g2: "batch_getattr ''run'' = Some batch_install_executable"
    by (simp add: batch_getattr_def method_name_def replace_char_def)
  have a1: "attempt ''/tmp/a.xyz'' w = (Inl (Exception ''Unsupported file type: xyz''), w)" for w
    by (simp add: attempt_def t1 g1)
  have a2: "fst (attempt ''/tmp/b.run'' w) = Inr ''Executed b.run''"
    if "faults w = (\<lambda>n. None)" "child w = (\<lambda>n. Exited 0 [] [])" for w
    using that
    by (simp add: attempt_def t2 g2 batch_install_executable_def batch_run_command_def eval_io
        basename_def rfind_def Let_def)
  have w1: "faults (world_after ''/tmp/a.xyz'' (example_world fs)) = (\<lambda>n. None)"
    "child (world_after ''/tmp/a.xyz'' (example_world fs)) = (\<lambda>n. Exited 0 [] [])" for fs
    by (simp_all add: world_after_def a1 logging_def example_world_def)
  show ?thesis by (simp add: a1 a2 w1)
qed

theorem batch_run_isolates_failures_witness:
  "status (heap (snd (run (BatchInstaller_init [0, 1]) two_task_app)) 0) = Str ''failed''
   \<and> message (heap (snd (run (BatchInstaller_init [0, 1]) two_task_app)) 0)
       = ''Unsupported file type: xyz''
   \<and> end_time (heap (snd (run (BatchInstaller_init [0, 1]) two_task_app)) 0) = Some 1
   \<and> status (heap (snd (run (BatchInstaller_init [0, 1]) two_task_app)) 1) = Str ''completed''
   \<and> message (heap (snd (run (BatchInstaller_init [0, 1]) two_task_app)) 1) = ''Executed b.run''
   \<and> end_time (heap (snd (run (BatchInstaller_init [0, 1]) two_task_app)) 1) = Some 3
   \<and> status (heap (snd (run (BatchInstaller_init [0, 1])
                 (two_task_app\<lparr>os := (os two_task_app)\<lparr>child := (\<lambda>n. Exited 1 [] ''no'')\<rparr>\<rparr>))) 0)
       = status (heap (snd (run (BatchInstaller_init [0, 1]) two_task_app)) 0)"
proof -
  have d: "distinct [0::nat, 1]" by simp
  have paths: "file_path (heap two_task_app 0) = ''/tmp/a.xyz''"
    "file_path (heap two_task_app (Suc 0)) = ''/tmp/b.run''"
    by (simp_all add: two_task_app_def example_app_def two_tasks_def example_task_def)
  have w: "os two_task_app = example_world [''/tmp/a.xyz'', ''/tmp/b.run'']"
    by (simp add: two_task_app_def example_app_def)
  have ck: "clock two_task_app = (\<lambda>n. n)" "ticks two_task_app = 0"
    by (simp_all add: two_task_app_def example_app_def)
  from batch_run_isolates_failures [OF d, of two_task_app]
  have all: "\<forall>j < length [0::nat, 1].
      heap (snd (run (BatchInstaller_init [0, 1]) two_task_app)) ([0, 1] ! j)
        = finished_task (heap two_task_app ([0, 1] ! j))
            (outcomes (map (\<lambda>r. file_path (heap two_task_app r)) [0, 1]) (os two_task_app) ! j)
            (clock two_task_app (ticks two_task_app + 2 * j))
            (clock two_task_app (Suc (ticks two_task_app + 2 * j)))
        \<and> status (heap (snd (run (BatchInstaller_init [0, 1]) two_task_app)) ([0, 1] ! j))
              \<in> {Str ''completed'', Str ''failed''}
        \<and> end_time (heap (snd (run (BatchInstaller_init [0, 1]) two_task_app)) ([0, 1] ! j))
              = Some (clock two_task_app (Suc (ticks two_task_app + 2 * j)))"
    by blast
  from all [rule_format, of 0]
  have h0: "heap (snd (run (BatchInstaller_init [0, 1]) two_task_app)) 0
      = finished_task (heap two_task_app 0) (Inl (Exception ''Unsupported file type: xyz'')) 0 1"
    by (simp add: paths w ck two_task_outcomes)
  from all [rule_format, of 1]
  have h1: "heap (snd (run (BatchInstaller_init [0, 1]) two_task_app)) 1
      = finished_task (heap two_task_app 1) (Inr ''Executed b.run'') 2 3"
    by (simp add: paths w ck two_task_outcomes numeral_2_eq_2 numeral_3_eq_3)
  let ?st2 = "two_task_app\<lparr>os := (os two_task_app)\<lparr>child := (\<lambda>n. Exited 1 [] ''no'')\<rparr>\<rparr>"
  have pre: "0 < length [0::nat, 1] \<and> heap ?st2 ([0, 1] ! 0) = heap two_task_app ([0, 1] ! 0)
      \<and> outcomes (map (\<lambda>r. file_path (heap ?st2 r)) [0, 1]) (os ?st2) ! 0
          = outcomes (map (\<lambda>r. file_path (heap two_task_app r)) [0, 1]) (os two_task_app) ! 0"
    by (simp add: paths two_task_outcomes)
  from batch_run_isolates_failures [OF d, of two_task_app]
  have "\<forall>st2 j. j < length [0::nat, 1] \<and> heap st2 ([0, 1] ! j) = heap two_task_app ([0, 1] ! j)
           \<and> outcomes (map (\<lambda>r. file_path (heap st2 r)) [0, 1]) (os st2) ! j
               = outcomes (map (\<lambda>r. file_path (heap two_task_app r)) [0, 1]) (os two_task_app) ! j
           \<longrightarrow> status (heap (snd (run (BatchInstaller_init [0, 1]) st2)) ([0, 1] ! j))
                 = status (heap (snd (run (BatchInstaller_init [0, 1]) two_task_app)) ([0, 1] ! j))
               \<and> message (heap (snd (run (BatchInstaller_init [0, 1]) st2)) ([0, 1] ! j))
                 = message (heap (snd (run (BatchInstaller_init [0, 1]) two_task_app)) ([0, 1] ! j))"
    by blast
  from this [rule_format, of 0 ?st2, OF pre]
  have h2: "status (heap (snd (run (BatchInstaller_init [0, 1]) ?st2)) 0)
       = status (heap (snd (run (BatchInstaller_init [0, 1]) two_task_app)) 0)"
    by simp
  have rest: "status (heap (snd (run (BatchInstaller_init [0, 1]) two_task_app)) 0) = Str ''failed''
   \<and> message (heap (snd (run (BatchInstaller_init [0, 1]) two_task_app)) 0)
       = ''Unsupported file type: xyz''
   \<and> end_time (heap (snd (run (BatchInstaller_init [0, 1]) two_task_app)) 0) = Some 1
   \<and> status (heap (snd (run (BatchInstaller_init [0, 1]) two_task_app)) 1) = Str ''completed''
   \<and> message (heap (snd (run (BatchInstaller_init [0, 1]) two_task_app)) 1) = ''Executed b.run''
   \<and> end_time (heap (snd (run (BatchInstaller_init [0, 1]) two_task_app)) 1) = Some 3"
    unfolding h0 h1 by (simp add: finished_task_def)
  from rest h2 show ?thesis by blast
qed

subsection \<open>The command executor\<close>

lemma subprocess_run_trace: "trace (snd (subprocess_run cmd t w)) = trace w @ [Run cmd t]"
  by (simp add: subprocess_run_def Let_def split: proc_outcome.split)

lemma run_command_eq:
  "run_command cmd w =
     (case child w (length (trace w)) of
        Exited rc out err \<Rightarrow>
          if rc = 0 then
            (Inr (), w\<lparr>trace := trace w @ [Run cmd 300],
                        files := child_files w (length (trace w)) (files w)\<rparr>)
          else
            (Inl (Exception (failure_text out err)),
             w\<lparr>trace := trace w @ [Run cmd 300],
               files := child_files w (length (trace w)) (files w),
               logged := logged w
                 @ [(''ERROR'', ''Command failed: '' @ join_with '' '' cmd @ '' - ''
                                  @ failure_text out err)]\<rparr>)
      | Undecodable msg \<Rightarrow>
          (Inl (UnicodeDecodeError msg),
           w\<lparr>trace := trace w @ [Run cmd 300],
             files := child_files w (length (trace w)) (files w)\<rparr>)
      | TimedOut \<Rightarrow>
          (Inl (Exception (''Command timed out: '' @ join_with '' '' cmd)),
           w\<lparr>trace := trace w @ [Run cmd 300],
             files := child_files w (length (trace w)) (files w),
             logged := logged w @ [(''ERROR'', ''Command timed out: '' @ join_with '' '' cmd)]\<rparr>)
      | NotStarted msg \<Rightarrow> (Inl (OSError msg), w\<lparr>trace := trace w @ [Run cmd 300]\<rparr>)
      | Rejected msg \<Rightarrow> (Inl (ValueError msg), w\<lparr>trace := trace w @ [Run cmd 300]\<rparr>))"
  by (simp add: run_command_def io_try_timeout_def io_bind_def subprocess_run_def Let_def
      logging_def io_raise_def io_return_def split: proc_outcome.split)

lemma batch_run_command_eq:
  "batch_run_command cmd w =
     (case child w (length (trace w)) of
        Exited rc out err \<Rightarrow>
          (if rc = 0 then Inr () else Inl (Exception (failure_text out err)),
           w\<lparr>trace := trace w @ [Run cmd 300],
             files := child_files w (length (trace w)) (files w)\<rparr>)
      | Undecodable msg \<Rightarrow>
          (Inl (UnicodeDecodeError msg),
           w\<lparr>trace := trace w @ [Run cmd 300],
             files := child_files w (length (trace w)) (files w)\<rparr>)
      | TimedOut \<Rightarrow>
          (Inl (TimeoutExpired cmd 300),
           w\<lparr>trace := trace w @ [Run cmd 300],
             files := child_files w (length (trace w)) (files w)\<rparr>)
      | NotStarted msg \<Rightarrow> (Inl (OSError msg), w\<lparr>trace := trace w @ [Run cmd 300]\<rparr>)
      | Rejected msg \<Rightarrow> (Inl (ValueError msg), w\<lparr>trace := trace w @ [Run cmd 300]\<rparr>))"
  by (simp add: batch_run_command_def io_bind_def subprocess_run_def Let_def
      io_raise_def io_return_def split: proc_outcome.split)

text \<open>
  Claim C5 (as amended). \<^verbatim>\<open>run_command\<close>, in both classes, hands the argument vector to
  \<^verbatim>\<open>subprocess.run\<close> exactly once with the 300 second limit: the call adds one
  \<^verbatim>\<open>Run cmd 300\<close> to the trace and nothing else. It returns normally only when the child
  exited with code 0 (and its output was text). It raises when the child exits with
  another code or runs into the timeout, as the claim says, and in three more cases:
  when the program cannot be started (\<^verbatim>\<open>OSError\<close>), when the argument vector is refused
  (\<^verbatim>\<open>ValueError\<close>), and when the output of the child cannot be decoded
  (\<^verbatim>\<open>UnicodeDecodeError\<close>, whatever the exit code). After a non-zero exit with decoded
  output the exception is an \<^verbatim>\<open>Exception\<close> whose text is the stripped stderr when that is
  non-empty and the stripped stdout otherwise (possibly empty). After a timeout
  \<^verbatim>\<open>LinuxAppInstaller.run_command\<close> raises \<^verbatim>\<open>Exception("Command timed out: ...")\<close> with
  the command line, while \<^verbatim>\<open>BatchInstaller.run_command\<close> has no handler and lets
  \<^verbatim>\<open>subprocess.TimeoutExpired\<close> through, whose text holds the argument vector. Whatever
  a batch task's procedure raises, the task becomes \<^verbatim>\<open>failed\<close> with the text of that
  exception as its message.
\<close>

theorem run_command_contract:
  "trace (snd (run_command cmd w)) = trace w @ [Run cmd 300]
   \<and> trace (snd (batch_run_command cmd w)) = trace w @ [Run cmd 300]
   \<and> fst (run_command cmd w)
       = (case child w (length (trace w)) of
            Exited rc out err \<Rightarrow>
              if rc = 0 then Inr ()
              else Inl (Exception (if strip err \<noteq> [] then strip err else strip out))
          | Undecodable msg \<Rightarrow> Inl (UnicodeDecodeError msg)
          | TimedOut \<Rightarrow> Inl (Exception (''Command timed out: '' @ join_with '' '' cmd))
          | NotStarted msg \<Rightarrow> Inl (OSError msg)
          | Rejected msg \<Rightarrow> Inl (ValueError msg))
   \<and> fst (batch_run_command cmd w)
       = (case child w (length (trace w)) of
            Exited rc out err \<Rightarrow>
              if rc = 0 then Inr ()
              else Inl (Exception (if strip err \<noteq> [] then strip err else strip out))
          | Undecodable msg \<Rightarrow> Inl (UnicodeDecodeError msg)
          | TimedOut \<Rightarrow> Inl (TimeoutExpired cmd 300)
          | NotStarted msg \<Rightarrow> Inl (OSError msg)
          | Rejected msg \<Rightarrow> Inl (ValueError msg))
   \<and> (fst (run_command cmd w) = Inr ())
       = (\<exists>out err. child w (length (trace w)) = Exited 0 out err)
   \<and> (fst (batch_run_command cmd w) = Inr ())
       = (\<exists>out err. child w (length (trace w)) = Exited 0 out err)
   \<and> (\<forall>e. fst (attempt (file_path (heap st r)) (os st)) = Inl e \<longrightarrow>
          status (heap (run_body r st) r) = Str ''failed''
          \<and> message (heap (run_body r st) r) = str_exn e)"
proof (intro conjI allI impI)
  show "trace (snd (run_command cmd w)) = trace w @ [Run cmd 300]"
    by (simp add: run_command_eq split: proc_outcome.split)
  show "trace (snd (batch_run_command cmd w)) = trace w @ [Run cmd 300]"
    by (simp add: batch_run_command_eq split: proc_outcome.split)
  show "fst (run_command cmd w)
       = (case child w (length (trace w)) of
            Exited rc out err \<Rightarrow>
              if rc = 0 then Inr ()
              else Inl (Exception (if strip err \<noteq> [] then strip err else strip out))
          | Undecodable msg \<Rightarrow> Inl (UnicodeDecodeError msg)
          | TimedOut \<Rightarrow> Inl (Exception (''Command timed out: '' @ join_with '' '' cmd))
          | NotStarted msg \<Rightarrow> Inl (OSError msg)
          | Rejected msg \<Rightarrow> Inl (ValueError msg))"
    by (simp add: run_command_eq failure_text_def split: proc_outcome.split)
  show "fst (batch_run_command cmd w)
       = (case child w (length (trace w)) of
            Exited rc out err \<Rightarrow>
              if rc = 0 then Inr ()
              else Inl (Exception (if strip err \<noteq> [] then strip err else strip out))
          | Undecodable msg \<Rightarrow> Inl (UnicodeDecodeError msg)
          | TimedOut \<Rightarrow> Inl (TimeoutExpired cmd 300)
          | NotStarted msg \<Rightarrow> Inl (OSError msg)
          | Rejected msg \<Rightarrow> Inl (ValueError msg))"
    by (simp add: batch_run_command_eq failure_text_def split: proc_outcome.split)
  show "(fst (run_command cmd w) = Inr ())
       = (\<exists>out err. child w (length (trace w)) = Exited 0 out err)"
    by (cases "child w (length (trace w))") (simp_all add: run_command_eq)
  show "(fst (batch_run_command cmd w) = Inr ())
       = (\<exists>out err. child w (length (trace w)) = Exited 0 out err)"
    by (cases "child w (length (trace w))") (simp_all add: batch_run_command_eq)
next
  fix e assume "fst (attempt (file_path (heap st r)) (os st)) = Inl e"
  then show "status (heap (run_body r st) r) = Str ''failed''"
    by (simp add: run_body_heap finished_task_def)
next
  fix e assume "fst (attempt (file_path (heap st r)) (os st)) = Inl e"
  then show "message (heap (run_body r st) r) = str_exn e"
    by (simp add: run_body_heap finished_task_def)
qed

lemma slow_attempt:
  "fst (attempt ''/tmp/b.run'' slow_world) = Inl (TimeoutExpired [''pkexec'', ''bash'', ''/tmp/b.run''] 300)"
proof -
  have t2: "get_file_type ''/tmp/b.run'' = ''run''" by (simp add: eval_file_type)
  have g2: "batch_getattr ''run'' = Some batch_install_executable"
    by (simp add: batch_getattr_def method_name_def replace_char_def)
  show ?thesis
    by (simp add: attempt_def t2 g2 batch_install_executable_def batch_run_command_eq
        io_bind_def chmod_def os_call_def slow_world_def example_world_def Let_def)
qed

lemma timeout_text:
  "str_exn (TimeoutExpired [''pkexec'', ''bash'', ''/tmp/b.run''] 300)
     = ''Command '' @ [CHR 0x27] @ ''['' @ [CHR 0x27] @ ''pkexec'' @ [CHR 0x27] @ '', ''
         @ [CHR 0x27] @ ''bash'' @ [CHR 0x27] @ '', '' @ [CHR 0x27] @ ''/tmp/b.run'' @ [CHR 0x27]
         @ '']'' @ [CHR 0x27] @ '' timed out after 300 seconds''"
  by (simp add: repr_list_def repr_str_def repr_char_def str_nat.simps digit_char_def Let_def)


text \<open>
  The theorem at a command that times out: the interactive executor reports the timeout
  with the command line, and the batch task for \<^verbatim>\<open>/tmp/b.run\<close> fails with the text of
  \<^verbatim>\<open>TimeoutExpired\<close>.
\<close>

theorem run_command_contract_witness:
  "fst (run_command [''pkexec'', ''bash'', ''/tmp/b.run''] slow_world)
     = Inl (Exception ''Command timed out: pkexec bash /tmp/b.run'')
   \<and> trace (snd (run_command [''pkexec'', ''bash'', ''/tmp/b.run''] slow_world))
     = [Run [''pkexec'', ''bash'', ''/tmp/b.run''] 300]
   \<and> status (heap (run_body 0 slow_app) 0) = Str ''failed''
   \<and> message (heap (run_body 0 slow_app) 0)
     = ''Command '' @ [CHR 0x27] @ ''['' @ [CHR 0x27] @ ''pkexec'' @ [CHR 0x27] @ '', ''
         @ [CHR 0x27] @ ''bash'' @ [CHR 0x27] @ '', '' @ [CHR 0x27] @ ''/tmp/b.run'' @ [CHR 0x27]
         @ '']'' @ [CHR 0x27] @ '' timed out after 300 seconds''"
proof -
  note T = run_command_contract [of "[''pkexec'', ''bash'', ''/tmp/b.run'']" slow_world slow_app 0]
  have w: "child slow_world 0 = TimedOut" "trace slow_world = []"
    by (simp_all add: slow_world_def example_world_def)
  have a: "fst (run_command [''pkexec'', ''bash'', ''/tmp/b.run''] slow_world)
     = Inl (Exception ''Command timed out: pkexec bash /tmp/b.run'')"
    using T [THEN conjunct2, THEN conjunct2, THEN conjunct1] by (simp add: w)
  have b: "trace (snd (run_command [''pkexec'', ''bash'', ''/tmp/b.run''] slow_world))
     = [Run [''pkexec'', ''bash'', ''/tmp/b.run''] 300]"
    using T [THEN conjunct1] by (simp add: w)
  have att: "fst (attempt (file_path (heap slow_app 0)) (os slow_app))
     = Inl (TimeoutExpired [''pkexec'', ''bash'', ''/tmp/b.run''] 300)"
    by (simp add: slow_app_def example_app_def example_task_def slow_attempt)
  note c = T [THEN conjunct2, THEN conjunct2, THEN conjunct2, THEN conjunct2, THEN conjunct2,
      THEN conjunct2, rule_format, OF att]
  from c have c1: "status (heap (run_body 0 slow_app) 0) = Str ''failed''" by (rule conjunct1)
  from c have c2: "message (heap (run_body 0 slow_app) 0)
      = str_exn (TimeoutExpired [''pkexec'', ''bash'', ''/tmp/b.run''] 300)" by (rule conjunct2)
  from a b c1 c2 [unfolded timeout_text] show ?thesis by blast
qed

text \<open>
  The claim as first stated for C5 says that \<^verbatim>\<open>run_command\<close> raises only on a non-zero
  exit or a timeout. Here the program cannot be started: no child exits and none times
  out, and both executors raise.
\<close>

theorem run_command_raises_when_not_started:
  "child no_tool_world (length (trace no_tool_world))
     = NotStarted ''[Errno 2] No such file or directory''
   \<and> fst (run_command [''update-desktop-database'', ''/home/u/.local/share/applications'']
            no_tool_world)
     = Inl (OSError ''[Errno 2] No such file or directory'')
   \<and> fst (batch_run_command [''pkexec'', ''dpkg'', ''-i'', ''/tmp/a.deb''] no_tool_world)
     = Inl (OSError ''[Errno 2] No such file or directory'')"
  by (simp add: run_command_eq batch_run_command_eq no_tool_world_def example_world_def)

subsection \<open>C9: a task and its dictionary\<close>

lemma parse_time_isoformat:
  assumes "\<forall>d. isoformat L d \<noteq> [] \<and> fromisoformat L (isoformat L d) = Inr d"
  shows "parse_time L (case x of Some d \<Rightarrow> Val (isoformat L d) | None \<Rightarrow> Null) = Inr x"
  using assms by (cases x) (simp_all add: parse_time_def)

lemma InstallationTask_init_id:
  "md5_hexdigest L path \<noteq> [] \<Longrightarrow> task_id (InstallationTask_init L w path tid) \<noteq> []"
  by (simp add: InstallationTask_init_def split: option.split)

lemma example_lib_round_trip:
  "\<forall>d. isoformat example_lib d \<noteq> []
       \<and> fromisoformat example_lib (isoformat example_lib d) = Inr d"
  by (simp add: example_lib_def str_nat_nonempty nat_of_str_str_nat)

text \<open>
  Reading back what \<^verbatim>\<open>to_dict\<close> wrote. The constructor inside \<^verbatim>\<open>from_dict\<close> computes a
  hash and a size from the file system of the moment; both are then overwritten with the
  stored values, so the world does not matter.
\<close>

lemma from_dict_to_dict:
  assumes "task_id t \<noteq> []"
    and "\<forall>d. isoformat L d \<noteq> [] \<and> fromisoformat L (isoformat L d) = Inr d"
  shows "from_dict L w (to_dict L t) = Inr t"
proof -
  have s: "parse_time L (d_start_time (to_dict L t)) = Inr (start_time t)"
    using parse_time_isoformat [OF assms(2)] by (simp add: to_dict_def)
  have e: "parse_time L (d_end_time (to_dict L t)) = Inr (end_time t)"
    using parse_time_isoformat [OF assms(2)] by (simp add: to_dict_def)
  have p: "d_file_path (to_dict L t) = Some (file_path t)" by (simp add: to_dict_def)
  show ?thesis
    unfolding from_dict_def p s e using assms(1)
    by (simp add: to_dict_def InstallationTask_init_def get_or_def Let_def)
qed

text \<open>
  Claim C9. Let \<^verbatim>\<open>t\<close> be a task with a non-empty id (every task the constructor makes
  has one, see \<^verbatim>\<open>InstallationTask_init_id\<close>), and let the library print every date as a
  non-empty text that it parses back to the same date. Then \<^verbatim>\<open>from_dict (to_dict t)\<close>
  returns a task equal to \<^verbatim>\<open>t\<close> in all nine fields, whatever the status holds. A
  timestamp that is \<^verbatim>\<open>None\<close> is written as \<^verbatim>\<open>null\<close>, never as a text, and \<^verbatim>\<open>from_dict\<close>
  reads \<^verbatim>\<open>null\<close> and a key that is left out alike, as \<^verbatim>\<open>None\<close>.
\<close>

theorem task_dict_round_trip:
  assumes "task_id t \<noteq> []"
    and "\<forall>d. isoformat L d \<noteq> [] \<and> fromisoformat L (isoformat L d) = Inr d"
  shows "from_dict L w (to_dict L t) = Inr t
     \<and> d_start_time (to_dict L t)
         = (case start_time t of Some d \<Rightarrow> Val (isoformat L d) | None \<Rightarrow> Null)
     \<and> d_end_time (to_dict L t)
         = (case end_time t of Some d \<Rightarrow> Val (isoformat L d) | None \<Rightarrow> Null)
     \<and> d_start_time (to_dict L t) \<noteq> Absent
     \<and> d_end_time (to_dict L t) \<noteq> Absent
     \<and> from_dict L w ((to_dict L t)\<lparr>d_start_time := Absent, d_end_time := Absent\<rparr>)
         = Inr (t\<lparr>start_time := None, end_time := None\<rparr>)"
proof (intro conjI)
  show "from_dict L w (to_dict L t) = Inr t"
    using assms by (rule from_dict_to_dict)
  show "d_start_time (to_dict L t)
         = (case start_time t of Some d \<Rightarrow> Val (isoformat L d) | None \<Rightarrow> Null)"
    by (simp add: to_dict_def)
  show "d_end_time (to_dict L t)
         = (case end_time t of Some d \<Rightarrow> Val (isoformat L d) | None \<Rightarrow> Null)"
    by (simp add: to_dict_def)
  show "d_start_time (to_dict L t) \<noteq> Absent"
    by (simp add: to_dict_def split: option.split)
  show "d_end_time (to_dict L t) \<noteq> Absent"
    by (simp add: to_dict_def split: option.split)
  show "from_dict L w ((to_dict L t)\<lparr>d_start_time := Absent, d_end_time := Absent\<rparr>)
         = Inr (t\<lparr>start_time := None, end_time := None\<rparr>)"
    using assms(1)
    by (simp add: from_dict_def parse_time_def to_dict_def InstallationTask_init_def get_or_def
        Let_def)
qed

text \<open>
  The theorem at a task that was started and has not ended, with the example library.
\<close>

theorem task_dict_round_trip_witness:
  "from_dict example_lib (example_world []) (to_dict example_lib started_task) = Inr started_task
   \<and> d_start_time (to_dict example_lib started_task) = Val ''5''
   \<and> d_end_time (to_dict example_lib started_task) = Null"
proof -
  have id: "task_id started_task \<noteq> []"
    by (simp add: started_task_def example_task_def)
  note T = task_dict_round_trip [OF id example_lib_round_trip, of "example_world []"]
  have s: "start_time started_task = Some 5" "end_time started_task = None"
    by (simp_all add: started_task_def example_task_def)
  have iso: "isoformat example_lib 5 = ''5''"
    by (simp add: example_lib_def str_nat_digit digit_char_def)
  from T have a: "from_dict example_lib (example_world []) (to_dict example_lib started_task)
      = Inr started_task" by (rule conjunct1)
  from T [THEN conjunct2, THEN conjunct1]
  have b: "d_start_time (to_dict example_lib started_task) = Val ''5''" by (simp add: s iso)
  from T [THEN conjunct2, THEN conjunct2, THEN conjunct1]
  have c: "d_end_time (to_dict example_lib started_task) = Null" by (simp add: s)
  from a b c show ?thesis by blast
qed

subsection \<open>C7: the history ledger\<close>

lemma from_dicts_to_dicts:
  assumes "\<forall>d. isoformat L d \<noteq> [] \<and> fromisoformat L (isoformat L d) = Inr d"
  shows "\<forall>t \<in> set ts. task_id t \<noteq> [] \<Longrightarrow> from_dicts L w (map (to_dict L) ts) = Inr ts"
proof (induction ts)
  case Nil
  show ?case by simp
next
  case (Cons t ts)
  then have "from_dict L w (to_dict L t) = Inr t" using assms by (simp add: from_dict_to_dict)
  with Cons show ?case by simp
qed

text \<open>The objects \<^verbatim>\<open>load_history\<close> creates are new ones, holding the parsed tasks in order.\<close>

lemma alloc_all_Cons:
  "alloc_all (t # ts) st
     = (next_ref st
          # fst (alloc_all ts (st\<lparr>heap := (heap st)(next_ref st := t),
                                  next_ref := Suc (next_ref st)\<rparr>)),
        snd (alloc_all ts (st\<lparr>heap := (heap st)(next_ref st := t),
                               next_ref := Suc (next_ref st)\<rparr>)))"
  by (simp add: alloc_def split: prod.split)

lemma alloc_all_next_ref: "next_ref (snd (alloc_all ts st)) = next_ref st + length ts"
  by (induction ts arbitrary: st) (simp_all add: alloc_all_Cons del: alloc_all.simps(2))

lemma alloc_all_frame:
  "installation_queue (snd (alloc_all ts st)) = installation_queue st"
  "history_json (snd (alloc_all ts st)) = history_json st"
  "os (snd (alloc_all ts st)) = os st"
  "dialogs (snd (alloc_all ts st)) = dialogs st"
  "emitted (snd (alloc_all ts st)) = emitted st"
proof (induction ts arbitrary: st)
  case Nil
  {
    case 1 show ?case by simp
  next
    case 2 show ?case by simp
  next
    case 3 show ?case by simp
  next
    case 4 show ?case by simp
  next
    case 5 show ?case by simp
  }
next
  case (Cons t ts)
  {
    case 1 show ?case by (simp add: alloc_all_Cons Cons.IH(1) del: alloc_all.simps(2))
  next
    case 2 show ?case by (simp add: alloc_all_Cons Cons.IH(2) del: alloc_all.simps(2))
  next
    case 3 show ?case by (simp add: alloc_all_Cons Cons.IH(3) del: alloc_all.simps(2))
  next
    case 4 show ?case by (simp add: alloc_all_Cons Cons.IH(4) del: alloc_all.simps(2))
  next
    case 5 show ?case by (simp add: alloc_all_Cons Cons.IH(5) del: alloc_all.simps(2))
  }
qed

lemma alloc_all_heap_old:
  "x < next_ref st \<Longrightarrow> heap (snd (alloc_all ts st)) x = heap st x"
  by (induction ts arbitrary: st) (simp_all add: alloc_all_Cons del: alloc_all.simps(2))

lemma alloc_all_heap_map:
  "map (heap (snd (alloc_all ts st))) (fst (alloc_all ts st)) = ts"
proof (induction ts arbitrary: st)
  case Nil
  show ?case by simp
next
  case (Cons t ts)
  let ?st1 = "st\<lparr>heap := (heap st)(next_ref st := t), next_ref := Suc (next_ref st)\<rparr>"
  have "heap (snd (alloc_all ts ?st1)) (next_ref st) = heap ?st1 (next_ref st)"
    by (rule alloc_all_heap_old) simp
  then have h: "heap (snd (alloc_all ts ?st1)) (next_ref st) = t" by simp
  show ?case using Cons [of ?st1] h by (simp add: alloc_all_Cons del: alloc_all.simps(2))
qed

text \<open>A line in the log changes nothing else.\<close>

lemma log_error_frame:
  "logged (os (log_error msg st)) = logged (os st) @ [(''ERROR'', msg)]"
  "trace (os (log_error msg st)) = trace (os st)"
  "files (os (log_error msg st)) = files (os st)"
  "heap (log_error msg st) = heap st"
  "installation_history (log_error msg st) = installation_history st"
  "installation_queue (log_error msg st) = installation_queue st"
  "history_json (log_error msg st) = history_json st"
  "dialogs (log_error msg st) = dialogs st"
  "installing (log_error msg st) = installing st"
  "current_worker (log_error msg st) = current_worker st"
  "worker_is_running (log_error msg st) = worker_is_running st"
  by (simp_all add: log_error_def with_os_def logging_def)

lemma last_1000_length: "length (last_1000 xs) = min 1000 (length xs)"
  by (simp add: last_1000_def)

lemma last_1000_suffix: "xs = take (length xs - 1000) xs @ last_1000 xs"
  by (simp add: last_1000_def)

lemma display_rows_strings:
  "\<forall>t \<in> set ts. \<exists>s. status t = Str s \<Longrightarrow> display_rows ts = Inr ()"
  by (induction ts) auto

lemma load_history_state: "snd (load_history L st) = load_history_try L st"
  by (simp add: load_history_def update_history_display_def)

lemma load_history_result:
  "fst (load_history L st)
     = display_rows (rev (last_100 (history_tasks (load_history_try L st))))"
  by (simp add: load_history_def update_history_display_def history_tasks_def last_100_def
      drop_map)

lemma load_history_empty:
  "installation_history (load_history_try L st) = [] \<Longrightarrow> fst (load_history L st) = Inr ()"
  by (simp add: load_history_result history_tasks_def last_100_def)

lemma load_history_entries:
  assumes "history_json st = Entries (map (to_dict L) ts)"
    and "\<forall>d. isoformat L d \<noteq> [] \<and> fromisoformat L (isoformat L d) = Inr d"
    and "\<forall>t \<in> set ts. task_id t \<noteq> []"
  shows "history_tasks (load_history_try L st) = ts"
    and "history_json (load_history_try L st) = history_json st"
    and "os (load_history_try L st) = os st"
proof -
  have f: "from_dicts L (os st) (map (to_dict L) ts) = Inr ts"
    using assms(2,3) by (rule from_dicts_to_dicts)
  have l: "load_history_try L st
      = (snd (alloc_all ts st))\<lparr>installation_history := fst (alloc_all ts st)\<rparr>"
    by (simp add: load_history_try_def assms(1) f split: prod.split)
  show "history_tasks (load_history_try L st) = ts"
    by (simp add: l history_tasks_def alloc_all_heap_map)
  show "history_json (load_history_try L st) = history_json st"
    by (simp add: l alloc_all_frame)
  show "os (load_history_try L st) = os st"
    by (simp add: l alloc_all_frame)
qed

text \<open>
  What holds of the ledger. With no file the history becomes empty, nothing else
  changes and \<^verbatim>\<open>load_history\<close> returns; with a file that cannot be parsed, or an entry
  \<^verbatim>\<open>from_dict\<close> rejects, the history becomes empty, one error is logged and
  \<^verbatim>\<open>load_history\<close> returns. \<^verbatim>\<open>save_history_entry\<close> appends the task to the history in
  memory whatever happens to the file; a successful write stores the dictionaries of
  the last 1000 tasks, which are at most 1000 and a suffix of the history (the oldest
  entries are the ones left out); a failed write is logged, shows no dialog and raises
  nothing. When the library parses back the dates it prints and the retained tasks have
  non-empty ids, loading after a successful save gives task objects equal, field by
  field, to the retained ones; what that call of \<^verbatim>\<open>load_history\<close> returns or raises is
  what the rows of the last 100 of them give, newest first.
\<close>

lemma history_ledger:
  assumes "\<forall>d. isoformat L d \<noteq> [] \<and> fromisoformat L (isoformat L d) = Inr d"
    and "\<forall>x \<in> set (last_1000 (installation_history st @ [r])). task_id (heap st x) \<noteq> []"
  shows
    "load_history L (st\<lparr>history_json := NoFile\<rparr>)
       = (Inr (), st\<lparr>history_json := NoFile, installation_history := []\<rparr>)
     \<and> fst (load_history L (st\<lparr>history_json := Unreadable msg\<rparr>)) = Inr ()
     \<and> installation_history (snd (load_history L (st\<lparr>history_json := Unreadable msg\<rparr>))) = []
     \<and> logged (os (snd (load_history L (st\<lparr>history_json := Unreadable msg\<rparr>))))
         = logged (os st) @ [(''ERROR'', ''Failed to load history: '' @ msg)]
     \<and> (\<forall>ds e. from_dicts L (os st) ds = Inl e \<longrightarrow>
           fst (load_history L (st\<lparr>history_json := Entries ds\<rparr>)) = Inr ()
           \<and> installation_history (snd (load_history L (st\<lparr>history_json := Entries ds\<rparr>))) = []
           \<and> logged (os (snd (load_history L (st\<lparr>history_json := Entries ds\<rparr>))))
               = logged (os st) @ [(''ERROR'', ''Failed to load history: '' @ str_exn e)])
     \<and> history_tasks (save_history_entry L wo r st) = history_tasks st @ [heap st r]
     \<and> history_json (save_history_entry L Written r st)
         = Entries (map (to_dict L) (last_1000 (history_tasks st @ [heap st r])))
     \<and> length (last_1000 (history_tasks st @ [heap st r])) = min 1000 (length (history_tasks st) + 1)
     \<and> history_tasks st @ [heap st r]
         = take (length (history_tasks st) + 1 - 1000) (history_tasks st @ [heap st r])
           @ last_1000 (history_tasks st @ [heap st r])
     \<and> history_json (save_history_entry L (OpenFailed err) r st) = history_json st
     \<and> logged (os (save_history_entry L (OpenFailed err) r st))
         = logged (os st) @ [(''ERROR'', ''Failed to save history: '' @ err)]
     \<and> history_json (save_history_entry L (DumpFailed err later) r st) = Unreadable later
     \<and> logged (os (save_history_entry L (DumpFailed err later) r st))
         = logged (os st) @ [(''ERROR'', ''Failed to save history: '' @ err)]
     \<and> dialogs (save_history_entry L wo r st) = dialogs st
     \<and> history_tasks (snd (load_history L (save_history_entry L Written r st)))
         = last_1000 (history_tasks st @ [heap st r])
     \<and> fst (load_history L (save_history_entry L Written r st))
         = display_rows (rev (last_100 (last_1000 (history_tasks st @ [heap st r]))))"
proof (intro conjI allI impI)
  show "load_history L (st\<lparr>history_json := NoFile\<rparr>)
       = (Inr (), st\<lparr>history_json := NoFile, installation_history := []\<rparr>)"
    by (simp add: load_history_def load_history_try_def update_history_display_def last_100_def)
  show "fst (load_history L (st\<lparr>history_json := Unreadable msg\<rparr>)) = Inr ()"
    by (rule load_history_empty) (simp add: load_history_try_def)
  show "installation_history (snd (load_history L (st\<lparr>history_json := Unreadable msg\<rparr>))) = []"
    by (simp add: load_history_state load_history_try_def)
  show "logged (os (snd (load_history L (st\<lparr>history_json := Unreadable msg\<rparr>))))
         = logged (os st) @ [(''ERROR'', ''Failed to load history: '' @ msg)]"
    by (simp add: load_history_state load_history_try_def log_error_frame)
  show "history_tasks (save_history_entry L wo r st) = history_tasks st @ [heap st r]"
    by (cases wo) (simp_all add: save_history_entry_def history_tasks_def Let_def log_error_frame)
  have m: "map (heap st) (last_1000 xs) = last_1000 (map (heap st) xs)" for xs
    by (simp add: last_1000_def drop_map)
  show j: "history_json (save_history_entry L Written r st)
         = Entries (map (to_dict L) (last_1000 (history_tasks st @ [heap st r])))"
    by (simp add: save_history_entry_def history_tasks_def Let_def
        m [of "installation_history st @ [r]", simplified, symmetric])
  show "length (last_1000 (history_tasks st @ [heap st r])) = min 1000 (length (history_tasks st) + 1)"
    by (simp add: last_1000_length)
  show "history_tasks st @ [heap st r]
         = take (length (history_tasks st) + 1 - 1000) (history_tasks st @ [heap st r])
           @ last_1000 (history_tasks st @ [heap st r])"
    using last_1000_suffix [of "history_tasks st @ [heap st r]"] by simp
  show "history_json (save_history_entry L (OpenFailed err) r st) = history_json st"
    by (simp add: save_history_entry_def Let_def log_error_frame)
  show "logged (os (save_history_entry L (OpenFailed err) r st))
         = logged (os st) @ [(''ERROR'', ''Failed to save history: '' @ err)]"
    by (simp add: save_history_entry_def Let_def log_error_frame)
  show "history_json (save_history_entry L (DumpFailed err later) r st) = Unreadable later"
    by (simp add: save_history_entry_def Let_def log_error_frame)
  show "logged (os (save_history_entry L (DumpFailed err later) r st))
         = logged (os st) @ [(''ERROR'', ''Failed to save history: '' @ err)]"
    by (simp add: save_history_entry_def Let_def log_error_frame)
  show "dialogs (save_history_entry L wo r st) = dialogs st"
    by (cases wo) (simp_all add: save_history_entry_def Let_def log_error_frame)
  have "last_1000 (history_tasks st @ [heap st r])
      = map (heap st) (last_1000 (installation_history st @ [r]))"
    by (simp add: history_tasks_def m)
  then have ids: "\<forall>t \<in> set (last_1000 (history_tasks st @ [heap st r])). task_id t \<noteq> []"
    using assms(2) by simp
  have lt: "history_tasks (load_history_try L (save_history_entry L Written r st))
         = last_1000 (history_tasks st @ [heap st r])"
    using j assms(1) ids by (rule load_history_entries(1))
  show "history_tasks (snd (load_history L (save_history_entry L Written r st)))
         = last_1000 (history_tasks st @ [heap st r])"
    by (simp add: load_history_state lt)
  show "fst (load_history L (save_history_entry L Written r st))
         = display_rows (rev (last_100 (last_1000 (history_tasks st @ [heap st r]))))"
    by (simp add: load_history_result lt)
next
  fix ds e assume "from_dicts L (os st) ds = Inl e"
  then show "fst (load_history L (st\<lparr>history_json := Entries ds\<rparr>)) = Inr ()"
    by (intro load_history_empty) (simp add: load_history_try_def)
next
  fix ds e assume "from_dicts L (os st) ds = Inl e"
  then show "installation_history (snd (load_history L (st\<lparr>history_json := Entries ds\<rparr>))) = []"
    by (simp add: load_history_state load_history_try_def)
next
  fix ds e assume "from_dicts L (os st) ds = Inl e"
  then show "logged (os (snd (load_history L (st\<lparr>history_json := Entries ds\<rparr>))))
               = logged (os st) @ [(''ERROR'', ''Failed to load history: '' @ str_exn e)]"
    by (simp add: load_history_state load_history_try_def log_error_frame)
qed

lemma one_entry_app_simps:
  "installation_history one_entry_app = [0]"
  "heap one_entry_app = two_tasks"
  "history_json one_entry_app = NoFile"
  "logged (os one_entry_app) = []"
  by (simp_all add: one_entry_app_def two_task_app_def example_app_def example_world_def)

text \<open>
  The ledger at the state with one entry, to which the second task is appended: once
  with a successful write followed by a load, which returns, once with \<^verbatim>\<open>open\<close>
  failing; and a load of a file that is no JSON.
\<close>

lemma history_ledger_example:
  "history_tasks (snd (load_history example_lib
       (save_history_entry example_lib Written 1 one_entry_app)))
     = [two_tasks 0, two_tasks 1]
   \<and> fst (load_history example_lib (save_history_entry example_lib Written 1 one_entry_app))
     = Inr ()
   \<and> history_tasks (save_history_entry example_lib (OpenFailed ''Permission denied'') 1 one_entry_app)
     = [two_tasks 0, two_tasks 1]
   \<and> history_json (save_history_entry example_lib (OpenFailed ''Permission denied'') 1 one_entry_app)
     = NoFile
   \<and> logged (os (save_history_entry example_lib (OpenFailed ''Permission denied'') 1 one_entry_app))
     = [(''ERROR'', ''Failed to save history: Permission denied'')]
   \<and> installation_history
       (snd (load_history example_lib
          (one_entry_app\<lparr>history_json := Unreadable ''Expecting value''\<rparr>)))
     = []"
proof -
  have ids: "\<forall>x \<in> set (last_1000 (installation_history one_entry_app @ [1])).
      task_id (heap one_entry_app x) \<noteq> []"
    by (simp add: one_entry_app_simps last_1000_def two_tasks_def example_task_def)
  note T = history_ledger [OF example_lib_round_trip ids,
      of "''Expecting value''" "OpenFailed ''Permission denied''" "''Permission denied''"]
  have ht: "history_tasks one_entry_app @ [heap one_entry_app 1] = [two_tasks 0, two_tasks 1]"
    by (simp add: history_tasks_def one_entry_app_simps)
  have l: "last_1000 [two_tasks 0, two_tasks 1] = [two_tasks 0, two_tasks 1]"
    by (simp add: last_1000_def)
  have r: "display_rows (rev (last_100 [two_tasks 0, two_tasks 1])) = Inr ()"
    by (simp add: last_100_def two_tasks_def example_task_def)
  from T have "history_tasks (snd (load_history example_lib
      (save_history_entry example_lib Written 1 one_entry_app)))
      = last_1000 (history_tasks one_entry_app @ [heap one_entry_app 1])"
    by blast
  then have a: "history_tasks (snd (load_history example_lib
      (save_history_entry example_lib Written 1 one_entry_app))) = [two_tasks 0, two_tasks 1]"
    by (simp only: ht l)
  from T have "fst (load_history example_lib
      (save_history_entry example_lib Written 1 one_entry_app))
      = display_rows (rev (last_100 (last_1000
          (history_tasks one_entry_app @ [heap one_entry_app 1]))))"
    by blast
  then have a': "fst (load_history example_lib
      (save_history_entry example_lib Written 1 one_entry_app)) = Inr ()"
    by (simp only: ht l r)
  from T have "history_tasks (save_history_entry example_lib
      (OpenFailed ''Permission denied'') 1 one_entry_app)
      = history_tasks one_entry_app @ [heap one_entry_app 1]"
    by blast
  then have b: "history_tasks (save_history_entry example_lib
      (OpenFailed ''Permission denied'') 1 one_entry_app) = [two_tasks 0, two_tasks 1]"
    by (simp only: ht)
  from T have "history_json (save_history_entry example_lib
      (OpenFailed ''Permission denied'') 1 one_entry_app) = history_json one_entry_app"
    by blast
  then have c: "history_json (save_history_entry example_lib
      (OpenFailed ''Permission denied'') 1 one_entry_app) = NoFile"
    by (simp add: one_entry_app_simps)
  from T have "logged (os (save_history_entry example_lib
      (OpenFailed ''Permission denied'') 1 one_entry_app))
     = logged (os one_entry_app) @ [(''ERROR'', ''Failed to save history: '' @ ''Permission denied'')]"
    by blast
  then have d: "logged (os (save_history_entry example_lib
      (OpenFailed ''Permission denied'') 1 one_entry_app))
     = [(''ERROR'', ''Failed to save history: Permission denied'')]"
    by (simp add: one_entry_app_simps)
  from T have e: "installation_history
       (snd (load_history example_lib
          (one_entry_app\<lparr>history_json := Unreadable ''Expecting value''\<rparr>)))
     = []" by blast
  from a a' b c d e show ?thesis by blast
qed

text \<open>
  Claim C7 (a defect of the code). \<^verbatim>\<open>load_history\<close> can raise to its caller. The
  refresh of the table (line 1023) stands after the \<^verbatim>\<open>try\<close> statement, and for an
  entry whose status is no string \<^verbatim>\<open>task.status.capitalize()\<close> raises
  \<^verbatim>\<open>AttributeError\<close>. Let \<^verbatim>\<open>history.json\<close> hold the one entry
  \<^verbatim>\<open>{"file_path": "/tmp/a.deb", "status": null}\<close>. \<^verbatim>\<open>from_dict\<close> accepts it, so the
  \<^verbatim>\<open>try\<close> statement ends without an exception, the history holds the task and
  nothing is logged; then the refresh raises. Called from the refresh button the
  exception goes to \<^verbatim>\<open>sys.excepthook\<close>, which logs it and shows the dialog of an
  unexpected error.
\<close>

theorem load_history_raises:
  "from_dict example_lib (example_world []) null_status_entry
     = Inr \<lparr>file_path = ''/tmp/a.deb'', task_id = ''d41d8cd9'', status = NotStr ''NoneType'',
            progress = 0, message = '''', start_time = None, end_time = None,
            file_hash = ''unknown'', file_size = 0\<rparr>
   \<and> fst (load_history example_lib null_status_app)
       = Inl (AttributeError ([CHR 0x27] @ ''NoneType'' @ [CHR 0x27]
                @ '' object has no attribute '' @ [CHR 0x27] @ ''capitalize'' @ [CHR 0x27]))
   \<and> history_tasks (snd (load_history example_lib null_status_app))
       = [\<lparr>file_path = ''/tmp/a.deb'', task_id = ''d41d8cd9'', status = NotStr ''NoneType'',
            progress = 0, message = '''', start_time = None, end_time = None,
            file_hash = ''unknown'', file_size = 0\<rparr>]
   \<and> logged (os (snd (load_history example_lib null_status_app))) = []
   \<and> dialogs (slot (load_history example_lib null_status_app))
       = [Critical ''Unexpected Error''
            (''An unexpected error occurred:'' @ nl
               @ ''Uncaught exception: AttributeError: '' @ [CHR 0x27] @ ''NoneType'' @ [CHR 0x27]
               @ '' object has no attribute '' @ [CHR 0x27] @ ''capitalize'' @ [CHR 0x27]
               @ nl @ nl @ ''Please check the logs for more details.'')]"
proof -
  let ?t = "\<lparr>file_path = ''/tmp/a.deb'', task_id = ''d41d8cd9'', status = NotStr ''NoneType'',
            progress = 0, message = '''', start_time = None, end_time = None,
            file_hash = ''unknown'', file_size = 0\<rparr>"
  have f: "from_dict example_lib (example_world []) null_status_entry = Inr ?t"
    by (simp add: from_dict_def null_status_entry_def InstallationTask_init_def parse_time_def
        get_or_def example_lib_def example_world_def path_exists_def Let_def)
  have w: "os null_status_app = example_world []"
    "history_json null_status_app = Entries [null_status_entry]"
    "next_ref null_status_app = 0"
    "dialogs null_status_app = []"
    by (simp_all add: null_status_app_def example_app_def)
  have t: "load_history_try example_lib null_status_app
      = null_status_app\<lparr>heap := (heap null_status_app)(0 := ?t), next_ref := Suc 0,
          installation_history := [0]\<rparr>"
    by (simp add: load_history_try_def w f alloc_def)
  have l: "load_history example_lib null_status_app
      = (Inl (no_capitalize ''NoneType''),
         null_status_app\<lparr>heap := (heap null_status_app)(0 := ?t), next_ref := Suc 0,
           installation_history := [0]\<rparr>)"
    by (simp add: load_history_def t update_history_display_def last_100_def)
  have a: "fst (load_history example_lib null_status_app)
       = Inl (AttributeError ([CHR 0x27] @ ''NoneType'' @ [CHR 0x27]
                @ '' object has no attribute '' @ [CHR 0x27] @ ''capitalize'' @ [CHR 0x27]))"
    by (simp add: l no_capitalize_def)
  have b: "history_tasks (snd (load_history example_lib null_status_app)) = [?t]"
    by (simp add: l history_tasks_def)
  have c: "logged (os (snd (load_history example_lib null_status_app))) = []"
    by (simp add: l w example_world_def)
  have d: "dialogs (slot (load_history example_lib null_status_app))
       = [Critical ''Unexpected Error''
            (''An unexpected error occurred:'' @ nl
               @ ''Uncaught exception: AttributeError: '' @ [CHR 0x27] @ ''NoneType'' @ [CHR 0x27]
               @ '' object has no attribute '' @ [CHR 0x27] @ ''capitalize'' @ [CHR 0x27]
               @ nl @ nl @ ''Please check the logs for more details.'')]"
    by (simp add: l w no_capitalize_def slot_def global_exception_handler_def log_error_def
        with_os_def Let_def split: prod.split)
  from f a b c d show ?thesis by blast
qed

subsection \<open>C10: the checks before an interactive installation\<close>

lemma check_file_bad:
  assumes "\<not> path_exists w p \<or> \<not> readable w p \<or> getsize w p = 0"
  shows "check_file p w
     = (Inl (Exception (rejection_text w p)),
        w\<lparr>logged := logged w @ [(''ERROR'', rejection_text w p)]\<rparr>)"
  using assms
  by (auto simp: check_file_def rejection_text_def io_bind_def io_get_def io_raise_def
      logging_def path_exists_def)

text \<open>
  Claim C10. When no installation is in progress and the file is missing, unreadable or
  empty, \<^verbatim>\<open>install_file\<close> returns the state it was given with one error dialog and one
  line in the error log added, both carrying the text of the failed check. The
  \<^verbatim>\<open>installing\<close> flag stays unset, no worker is created or started, and no operation on
  the file system or on a process is performed. The result does not depend on the type
  of the file: \<^verbatim>\<open>get_file_type\<close> is not reached.
\<close>

theorem install_file_rejects_bad_file:
  assumes "\<not> installing st"
    and "current_worker st = None \<or> \<not> worker_is_running st"
    and "\<not> path_exists (os st) p \<or> \<not> readable (os st) p \<or> getsize (os st) p = 0"
  shows "install_file p st
           = st\<lparr>dialogs := dialogs st @ [Critical ''Error'' (rejection_text (os st) p)],
                os := (os st)\<lparr>logged := logged (os st)
                                   @ [(''ERROR'', rejection_text (os st) p)]\<rparr>\<rparr>
         \<and> installing (install_file p st) = False
         \<and> current_worker (install_file p st) = current_worker st
         \<and> worker_is_running (install_file p st) = worker_is_running st
         \<and> trace (os (install_file p st)) = trace (os st)
         \<and> files (os (install_file p st)) = files (os st)
         \<and> interactive_install p st = install_file p st"
proof -
  have c: "check_file p (os st)
     = (Inl (Exception (rejection_text (os st) p)),
        (os st)\<lparr>logged := logged (os st) @ [(''ERROR'', rejection_text (os st) p)]\<rparr>)"
    using assms(3) by (rule check_file_bad)
  have e: "install_file p st
           = st\<lparr>dialogs := dialogs st @ [Critical ''Error'' (rejection_text (os st) p)],
                os := (os st)\<lparr>logged := logged (os st)
                                   @ [(''ERROR'', rejection_text (os st) p)]\<rparr>\<rparr>"
    using assms(1,2) by (auto simp: install_file_def with_os_def c show_error_def)
  have i: "interactive_install p st = install_file p st"
    using assms(1) by (simp add: interactive_install_def Let_def e)
  from assms(1) e i show ?thesis by simp
qed

text \<open>
  The theorem at a missing file of an unsupported type: the error is the one of the
  missing file, not the one of the type.
\<close>

theorem install_file_rejects_bad_file_witness:
  "install_file ''/tmp/missing.xyz'' two_task_app
     = two_task_app\<lparr>dialogs := [Critical ''Error'' ''File does not exist: /tmp/missing.xyz''],
         os := (os two_task_app)
                 \<lparr>logged := [(''ERROR'', ''File does not exist: /tmp/missing.xyz'')]\<rparr>\<rparr>
   \<and> installing (install_file ''/tmp/missing.xyz'' two_task_app) = False
   \<and> trace (os (install_file ''/tmp/missing.xyz'' two_task_app)) = []"
proof -
  have a: "\<not> installing two_task_app"
    and b: "current_worker two_task_app = None \<or> \<not> worker_is_running two_task_app"
    and c: "\<not> path_exists (os two_task_app) ''/tmp/missing.xyz''
            \<or> \<not> readable (os two_task_app) ''/tmp/missing.xyz''
            \<or> getsize (os two_task_app) ''/tmp/missing.xyz'' = 0"
    by (simp_all add: two_task_app_def example_app_def example_world_def path_exists_def)
  note T = install_file_rejects_bad_file [OF a b c]
  have r: "rejection_text (os two_task_app) ''/tmp/missing.xyz''
      = ''File does not exist: /tmp/missing.xyz''"
    by (simp add: rejection_text_def two_task_app_def example_app_def example_world_def
        path_exists_def)
  have f: "dialogs two_task_app = []" "logged (os two_task_app) = []" "trace (os two_task_app) = []"
    by (simp_all add: two_task_app_def example_app_def example_world_def)
  from T show ?thesis unfolding r f by (simp add: a f)
qed

subsection \<open>C1: which outcomes reach the history\<close>

text \<open>
  The handlers of the interactive path leave the history list and its file alone.
\<close>

lemma show_error_frame:
  "installation_history (show_error msg st) = installation_history st"
  "history_json (show_error msg st) = history_json st"
  "heap (show_error msg st) = heap st"
  "installation_queue (show_error msg st) = installation_queue st"
  by (simp_all add: show_error_def)

lemma install_file_history:
  "installation_history (install_file p st) = installation_history st"
  "history_json (install_file p st) = history_json st"
proof -
  obtain res st1 where c: "with_os (check_file p) st = (res, st1)" by (cases "with_os (check_file p) st")
  have f: "installation_history st1 = installation_history st" "history_json st1 = history_json st"
    using with_os_frame(3,4) [of "check_file p" st] by (simp_all add: c)
  show "installation_history (install_file p st) = installation_history st"
    by (cases res; cases "linux_getattr (get_file_type p)")
       (simp_all add: install_file_def c f show_error_frame log_error_frame Let_def)
  show "history_json (install_file p st) = history_json st"
    by (cases res; cases "linux_getattr (get_file_type p)")
       (simp_all add: install_file_def c f show_error_frame log_error_frame Let_def)
qed

lemma on_install_history:
  "installation_history (on_install_finished msg st) = installation_history st"
  "history_json (on_install_finished msg st) = history_json st"
  "installation_history (on_install_error msg st) = installation_history st"
  "history_json (on_install_error msg st) = history_json st"
  by (simp_all add: on_install_finished_def on_install_error_def Let_def log_error_frame)

lemma worker_run_history:
  "installation_history (worker_run st) = installation_history st"
  "history_json (worker_run st) = history_json st"
proof -
  show "installation_history (worker_run st) = installation_history st"
  proof (cases "current_worker st")
    case None
    then show ?thesis by (simp add: worker_run_def)
  next
    case (Some wk)
    obtain res st1 where c: "with_os (worker_func wk (worker_path wk)) st = (res, st1)"
      by (cases "with_os (worker_func wk (worker_path wk)) st")
    have f: "installation_history st1 = installation_history st"
      using with_os_frame(3) [of "worker_func wk (worker_path wk)" st] by (simp add: c)
    show ?thesis by (cases res) (simp_all add: worker_run_def Some c f on_install_history)
  qed
  show "history_json (worker_run st) = history_json st"
  proof (cases "current_worker st")
    case None
    then show ?thesis by (simp add: worker_run_def)
  next
    case (Some wk)
    obtain res st1 where c: "with_os (worker_func wk (worker_path wk)) st = (res, st1)"
      by (cases "with_os (worker_func wk (worker_path wk)) st")
    have f: "history_json st1 = history_json st"
      using with_os_frame(4) [of "worker_func wk (worker_path wk)" st] by (simp add: c)
    show ?thesis by (cases res) (simp_all add: worker_run_def Some c f on_install_history)
  qed
qed

lemma interactive_install_history:
  "installation_history (interactive_install p st) = installation_history st"
  "history_json (interactive_install p st) = history_json st"
  by (simp_all add: interactive_install_def Let_def worker_run_history install_file_history)

text \<open>The interactive installation of \<^verbatim>\<open>/tmp/a.snap\<close> in the example world, step by step.\<close>

lemma snap_install:
  "install_snap ''/tmp/a.snap'' (example_world [''/tmp/a.snap''])
     = (Inr ''Successfully installed a.snap'',
        (example_world [''/tmp/a.snap''])
          \<lparr>trace := [Run [''pkexec'', ''snap'', ''install'', ''/tmp/a.snap'', ''--dangerous''] 300]\<rparr>)"
  by (simp add: install_snap_def run_command_eq io_bind_def io_get_def io_return_def
      example_world_def basename_def rfind_def)

lemma snap_check: "check_file ''/tmp/a.snap'' (example_world [''/tmp/a.snap''])
     = (Inr (), example_world [''/tmp/a.snap''])"
  by (simp add: check_file_def io_bind_def io_get_def io_return_def example_world_def
      path_exists_def)

lemma snap_type: "get_file_type ''/tmp/a.snap'' = ''snap''"
  by (simp add: eval_file_type)

lemma snap_getattr: "linux_getattr ''snap'' = Some install_snap"
  by (simp add: linux_getattr_def method_name_def replace_char_def supported_types_def)

lemma snap_dialogs:
  "dialogs (interactive_install ''/tmp/a.snap'' snap_app)
     = [Information ''Success'' ''Successfully installed a.snap'']"
  "installing (interactive_install ''/tmp/a.snap'' snap_app) = False"
  by (simp_all add: interactive_install_def install_file_def with_os_def snap_app_def example_app_def
      snap_check snap_type snap_getattr supported_types_def worker_run_def snap_install
      on_install_finished_def Let_def)

text \<open>
  C1 (defect in the code). An interactive installation never reaches the history
  ledger. From the request to the slot that handles the worker's result, no step changes
  \<^verbatim>\<open>installation_history\<close> or \<^verbatim>\<open>history.json\<close>: \<^verbatim>\<open>on_install_finished\<close> and
  \<^verbatim>\<open>on_install_error\<close> show a dialog and reset the flags, and nothing calls
  \<^verbatim>\<open>save_history_entry\<close>. For \<^verbatim>\<open>/tmp/a.snap\<close> the installation completes, the success
  dialog is shown, and the history is as empty as before. Only the batch slot
  \<^verbatim>\<open>on_batch_task_completed\<close> appends to the history.
\<close>

theorem interactive_outcome_not_recorded:
  "installation_history (interactive_install p st) = installation_history st
   \<and> history_json (interactive_install p st) = history_json st
   \<and> installation_history (on_install_finished msg st) = installation_history st
   \<and> installation_history (on_install_error msg st) = installation_history st
   \<and> dialogs (interactive_install ''/tmp/a.snap'' snap_app)
       = [Information ''Success'' ''Successfully installed a.snap'']
   \<and> installing (interactive_install ''/tmp/a.snap'' snap_app) = False
   \<and> installation_history (interactive_install ''/tmp/a.snap'' snap_app) = []
   \<and> history_json (interactive_install ''/tmp/a.snap'' snap_app) = NoFile"
  by (simp add: interactive_install_history on_install_history snap_dialogs)
     (simp add: snap_app_def example_app_def)

subsection \<open>C3: the queue and the batch\<close>

text \<open>
  What each slot leaves alone: the task objects that exist, the queue, the signals of
  the batch thread, whether it runs, and the BatchInstaller of the window.
\<close>

lemma with_os_snd: "snd (with_os m st) = st\<lparr>os := snd (m (os st))\<rparr>"
  by (simp add: with_os_def split: prod.split)

lemma with_os_pair: "with_os m st = (fst (m (os st)), st\<lparr>os := snd (m (os st))\<rparr>)"
  by (simp add: with_os_def split: prod.split)

lemma log_error_eq: "log_error msg st = st\<lparr>os := snd (logging ''ERROR'' msg (os st))\<rparr>"
  by (simp add: log_error_def with_os_snd)

lemma global_exception_handler_queue:
  "heap (global_exception_handler e st) = heap st
   \<and> next_ref (global_exception_handler e st) = next_ref st
   \<and> installation_queue (global_exception_handler e st) = installation_queue st
   \<and> emitted (global_exception_handler e st) = emitted st
   \<and> batch_is_running (global_exception_handler e st) = batch_is_running st
   \<and> current_batch_installer (global_exception_handler e st) = current_batch_installer st"
  by (simp add: global_exception_handler_def Let_def log_error_eq)

lemma install_file_queue:
  "heap (install_file p st) = heap st
   \<and> next_ref (install_file p st) = next_ref st
   \<and> installation_queue (install_file p st) = installation_queue st
   \<and> emitted (install_file p st) = emitted st
   \<and> batch_is_running (install_file p st) = batch_is_running st
   \<and> current_batch_installer (install_file p st) = current_batch_installer st"
  by (simp add: install_file_def with_os_pair show_error_def log_error_eq Let_def
      split: sum.split option.split)

lemma worker_run_queue:
  "heap (worker_run st) = heap st
   \<and> next_ref (worker_run st) = next_ref st
   \<and> installation_queue (worker_run st) = installation_queue st
   \<and> emitted (worker_run st) = emitted st
   \<and> batch_is_running (worker_run st) = batch_is_running st
   \<and> current_batch_installer (worker_run st) = current_batch_installer st"
  by (simp add: worker_run_def with_os_pair on_install_finished_def on_install_error_def
      log_error_eq Let_def split: sum.split option.split)

lemma clear_history_queue:
  "heap (clear_history x st) = heap st
   \<and> next_ref (clear_history x st) = next_ref st
   \<and> installation_queue (clear_history x st) = installation_queue st
   \<and> emitted (clear_history x st) = emitted st
   \<and> batch_is_running (clear_history x st) = batch_is_running st
   \<and> current_batch_installer (clear_history x st) = current_batch_installer st"
  by (simp add: clear_history_def log_error_eq Let_def split: option.split)

lemma alloc_all_batch:
  "batch_is_running (snd (alloc_all ts st)) = batch_is_running st
   \<and> current_batch_installer (snd (alloc_all ts st)) = current_batch_installer st"
  by (induction ts arbitrary: st) (simp_all add: alloc_all_Cons del: alloc_all.simps(2))

lemma load_history_try_queue:
  "(\<forall>r < next_ref st. heap (load_history_try L st) r = heap st r)
   \<and> next_ref st \<le> next_ref (load_history_try L st)
   \<and> installation_queue (load_history_try L st) = installation_queue st
   \<and> emitted (load_history_try L st) = emitted st
   \<and> batch_is_running (load_history_try L st) = batch_is_running st
   \<and> current_batch_installer (load_history_try L st) = current_batch_installer st"
proof (cases "history_json st")
  case NoFile
  then show ?thesis by (simp add: load_history_try_def)
next
  case (Unreadable msg)
  then show ?thesis by (simp add: load_history_try_def log_error_eq)
next
  case (Entries ds)
  show ?thesis
  proof (cases "from_dicts L (os st) ds")
    case (Inl e)
    with Entries show ?thesis by (simp add: load_history_try_def log_error_eq)
  next
    case (Inr ts)
    have "load_history_try L st
        = (snd (alloc_all ts st))\<lparr>installation_history := fst (alloc_all ts st)\<rparr>"
      by (simp add: load_history_try_def Entries Inr split: prod.split)
    then show ?thesis
      by (simp add: alloc_all_frame alloc_all_batch alloc_all_heap_old alloc_all_next_ref)
  qed
qed

lemma slot_start_batch:
  "heap (slot (start_batch_installation st)) = heap st
   \<and> next_ref (slot (start_batch_installation st)) = next_ref st
   \<and> installation_queue (slot (start_batch_installation st)) = installation_queue st
   \<and> emitted (slot (start_batch_installation st)) = emitted st
   \<and> batch_is_running (slot (start_batch_installation st)) = batch_is_running st"
  by (simp add: slot_def start_batch_installation_def global_exception_handler_queue)

lemma slot_load_history:
  "(\<forall>r < next_ref st. heap (slot (load_history L st)) r = heap st r)
   \<and> next_ref st \<le> next_ref (slot (load_history L st))
   \<and> installation_queue (slot (load_history L st)) = installation_queue st
   \<and> emitted (slot (load_history L st)) = emitted st
   \<and> batch_is_running (slot (load_history L st)) = batch_is_running st
   \<and> current_batch_installer (slot (load_history L st)) = current_batch_installer st"
  using load_history_try_queue [of st L]
  by (simp add: slot_def load_history_def update_history_display_def
      global_exception_handler_queue split: sum.split)

text \<open>No event changes a task object that exists, starts the batch thread or emits a signal.\<close>

lemma handle_frame:
  "(\<forall>r < next_ref st. heap (handle L e st) r = heap st r)
   \<and> next_ref st \<le> next_ref (handle L e st)
   \<and> emitted (handle L e st) = emitted st
   \<and> batch_is_running (handle L e st) = batch_is_running st"
proof (cases e)
  case (Add_to_queue p)
  then show ?thesis by (simp add: add_to_queue_def alloc_def)
next
  case (Remove_from_queue tid)
  then show ?thesis by (simp add: remove_from_queue_def)
next
  case Clear_queue
  then show ?thesis by (simp add: clear_queue_def)
next
  case Start_batch
  then show ?thesis by (simp add: slot_start_batch)
next
  case Refresh_history
  then show ?thesis using slot_load_history [of st L] by simp
next
  case (Clear_history x)
  then show ?thesis by (simp add: clear_history_queue)
next
  case (Install_file p)
  then show ?thesis by (simp add: install_file_queue)
next
  case Worker_ends
  then show ?thesis by (simp add: worker_run_queue)
next
  case (Environment w)
  then show ?thesis by simp
qed

lemma handle_batch:
  "e \<noteq> Start_batch \<Longrightarrow> current_batch_installer (handle L e st) = current_batch_installer st"
proof (cases e)
  case (Add_to_queue p)
  then show ?thesis by (simp add: add_to_queue_def alloc_def)
next
  case (Remove_from_queue tid)
  then show ?thesis by (simp add: remove_from_queue_def)
next
  case Clear_queue
  then show ?thesis by (simp add: clear_queue_def)
next
  case Start_batch
  assume "e \<noteq> Start_batch"
  with Start_batch show ?thesis by simp
next
  case Refresh_history
  then show ?thesis using slot_load_history [of st L] by simp
next
  case (Clear_history x)
  then show ?thesis by (simp add: clear_history_queue)
next
  case (Install_file p)
  then show ?thesis by (simp add: install_file_queue)
next
  case Worker_ends
  then show ?thesis by (simp add: worker_run_queue)
next
  case (Environment w)
  then show ?thesis by simp
qed

text \<open>The tasks of the queue exist and are queued: kept by every event.\<close>

lemma handle_queued:
  assumes "\<forall>r \<in> set (installation_queue st). r < next_ref st \<and> status (heap st r) = Str ''queued''"
  shows "\<forall>r \<in> set (installation_queue (handle L e st)).
           r < next_ref (handle L e st) \<and> status (heap (handle L e st) r) = Str ''queued''"
proof (cases e)
  case (Add_to_queue p)
  then show ?thesis using assms
    by (auto simp: add_to_queue_def alloc_def InstallationTask_init_def)
next
  case (Remove_from_queue tid)
  then show ?thesis using assms by (simp add: remove_from_queue_def)
next
  case Clear_queue
  then show ?thesis by (simp add: clear_queue_def)
next
  case Start_batch
  then show ?thesis using assms by (simp add: slot_start_batch)
next
  case Refresh_history
  then show ?thesis using assms slot_load_history [of st L] by fastforce
next
  case (Clear_history x)
  then show ?thesis using assms by (simp add: clear_history_queue)
next
  case (Install_file p)
  then show ?thesis using assms by (simp add: install_file_queue)
next
  case Worker_ends
  then show ?thesis using assms by (simp add: worker_run_queue)
next
  case (Environment w)
  then show ?thesis using assms by simp
qed

lemma run_events_snoc: "run_events L (evs @ [e]) st = handle L e (run_events L evs st)"
  by (simp add: run_events_def)

lemma run_events_queued:
  assumes "\<forall>r \<in> set (installation_queue st). r < next_ref st \<and> status (heap st r) = Str ''queued''"
  shows "\<forall>r \<in> set (installation_queue (run_events L evs st)).
           r < next_ref (run_events L evs st)
           \<and> status (heap (run_events L evs st) r) = Str ''queued''"
proof (induction evs rule: rev_induct)
  case Nil
  show ?case using assms by (simp add: run_events_def)
next
  case (snoc e evs)
  show ?case unfolding run_events_snoc using snoc by (rule handle_queued)
qed

lemma run_events_frame:
  "emitted (run_events L evs st) = emitted st
   \<and> batch_is_running (run_events L evs st) = batch_is_running st"
proof (induction evs rule: rev_induct)
  case Nil
  show ?case by (simp add: run_events_def)
next
  case (snoc e evs)
  show ?case using snoc handle_frame [of "run_events L evs st" L e]
    by (simp add: run_events_snoc)
qed


text \<open>
  Claim C3. In every state the main window reaches from its start, where the queue is
  empty, by the events of the user, the worker and the environment, each task of the
  queue has the status \<^verbatim>\<open>queued\<close>. No batch is ever in flight: the thread is never
  started, so \<^verbatim>\<open>isRunning()\<close> stays as it was and no signal of the batch is emitted.
  Starting a batch leaves the queue and every task object as they are; when the queue
  is not empty and no batch is running it gives the new BatchInstaller a list of its
  own with the tasks of the queue, and then raises at line 974. Every other event,
  among them the additions to the queue and its clearing, leaves the list of that
  BatchInstaller alone, and no event changes a task object that exists.
\<close>

theorem queue_holds_queued_tasks:
  assumes "installation_queue st0 = []"
  shows
    "(\<forall>r \<in> set (installation_queue (run_events L evs st0)).
        status (heap (run_events L evs st0) r) = Str ''queued'')
     \<and> emitted (run_events L evs st0) = emitted st0
     \<and> batch_is_running (run_events L evs st0) = batch_is_running st0
     \<and> installation_queue (handle L Start_batch st) = installation_queue st
     \<and> heap (handle L Start_batch st) = heap st
     \<and> (installation_queue st \<noteq> [] \<and> \<not> (current_batch_installer st \<noteq> None \<and> batch_is_running st)
          \<longrightarrow> fst (start_batch_installation st) = Inl no_set_installer
              \<and> map_option tasks (current_batch_installer (handle L Start_batch st))
                  = Some (installation_queue st))
     \<and> (e \<noteq> Start_batch
          \<longrightarrow> current_batch_installer (handle L e st) = current_batch_installer st)
     \<and> (\<forall>r < next_ref st. heap (handle L e st) r = heap st r)"
proof (intro conjI)
  have "\<forall>r \<in> set (installation_queue st0). r < next_ref st0 \<and> status (heap st0 r) = Str ''queued''"
    using assms by simp
  then show "\<forall>r \<in> set (installation_queue (run_events L evs st0)).
        status (heap (run_events L evs st0) r) = Str ''queued''"
    using run_events_queued [of st0 L evs] by blast
  show "emitted (run_events L evs st0) = emitted st0"
    by (simp add: run_events_frame)
  show "batch_is_running (run_events L evs st0) = batch_is_running st0"
    by (simp add: run_events_frame)
  show "installation_queue (handle L Start_batch st) = installation_queue st"
    by (simp add: slot_start_batch)
  show "heap (handle L Start_batch st) = heap st"
    by (simp add: slot_start_batch)
  show "installation_queue st \<noteq> [] \<and> \<not> (current_batch_installer st \<noteq> None \<and> batch_is_running st)
          \<longrightarrow> fst (start_batch_installation st) = Inl no_set_installer
              \<and> map_option tasks (current_batch_installer (handle L Start_batch st))
                  = Some (installation_queue st)"
    by (auto simp: start_batch_installation_def slot_def global_exception_handler_queue
        BatchInstaller_init_def)
  show "e \<noteq> Start_batch
          \<longrightarrow> current_batch_installer (handle L e st) = current_batch_installer st"
    by (simp add: handle_batch)
  show "\<forall>r < next_ref st. heap (handle L e st) r = heap st r"
    using handle_frame [of st L e] by blast
qed

lemma snap_app_queue:
  "installation_queue snap_app = []" "emitted snap_app = []" "batch_is_running snap_app = False"
  by (simp_all add: snap_app_def example_app_def)

lemma snap_app_events:
  "installation_queue
     (run_events example_lib [Add_to_queue ''/tmp/a.snap'', Start_batch, Add_to_queue ''/tmp/b.run'']
        snap_app) = [0, 1]"
  "map_option tasks (current_batch_installer
     (run_events example_lib [Add_to_queue ''/tmp/a.snap'', Start_batch, Add_to_queue ''/tmp/b.run'']
        snap_app)) = Some [0]"
  "length (dialogs
     (run_events example_lib [Add_to_queue ''/tmp/a.snap'', Start_batch, Add_to_queue ''/tmp/b.run'']
        snap_app)) = 1"
  by (simp_all add: run_events_def add_to_queue_def alloc_def slot_def
      start_batch_installation_def global_exception_handler_def log_error_eq Let_def
      BatchInstaller_init_def snap_app_def example_app_def)

text \<open>
  The theorem at the state with an empty queue in which \<^verbatim>\<open>/tmp/a.snap\<close> exists: that
  file is queued, the batch is started, and \<^verbatim>\<open>/tmp/b.run\<close> is queued after that.
\<close>

theorem queue_holds_queued_tasks_witness:
  "installation_queue snap_app = []
   \<and> installation_queue
       (run_events example_lib
          [Add_to_queue ''/tmp/a.snap'', Start_batch, Add_to_queue ''/tmp/b.run''] snap_app)
       = [0, 1]
   \<and> status (heap (run_events example_lib
          [Add_to_queue ''/tmp/a.snap'', Start_batch, Add_to_queue ''/tmp/b.run''] snap_app) 0)
       = Str ''queued''
   \<and> status (heap (run_events example_lib
          [Add_to_queue ''/tmp/a.snap'', Start_batch, Add_to_queue ''/tmp/b.run''] snap_app) 1)
       = Str ''queued''
   \<and> fst (start_batch_installation
            (run_events example_lib [Add_to_queue ''/tmp/a.snap''] snap_app))
       = Inl no_set_installer
   \<and> map_option tasks (current_batch_installer (run_events example_lib
          [Add_to_queue ''/tmp/a.snap'', Start_batch] snap_app))
       = Some [0]
   \<and> map_option tasks (current_batch_installer (run_events example_lib
          [Add_to_queue ''/tmp/a.snap'', Start_batch, Add_to_queue ''/tmp/b.run''] snap_app))
       = Some [0]
   \<and> emitted (run_events example_lib
          [Add_to_queue ''/tmp/a.snap'', Start_batch, Add_to_queue ''/tmp/b.run''] snap_app) = []
   \<and> \<not> batch_is_running (run_events example_lib
          [Add_to_queue ''/tmp/a.snap'', Start_batch, Add_to_queue ''/tmp/b.run''] snap_app)"
proof -
  let ?evs = "[Add_to_queue ''/tmp/a.snap'', Start_batch, Add_to_queue ''/tmp/b.run'']"
  let ?st = "run_events example_lib [Add_to_queue ''/tmp/a.snap''] snap_app"
  note T = queue_holds_queued_tasks [OF snap_app_queue(1), of example_lib ?evs ?st
      "Add_to_queue ''/tmp/b.run''"]
  have q: "installation_queue (run_events example_lib ?evs snap_app) = [0, 1]"
    by (rule snap_app_events)
  have q1: "installation_queue ?st = [0]" "current_batch_installer ?st = None"
    by (simp_all add: run_events_def add_to_queue_def alloc_def snap_app_def example_app_def)
  have s: "run_events example_lib [Add_to_queue ''/tmp/a.snap'', Start_batch] snap_app
      = handle example_lib Start_batch ?st"
    by (simp add: run_events_def)
  from T have "\<forall>r \<in> set (installation_queue (run_events example_lib ?evs snap_app)).
      status (heap (run_events example_lib ?evs snap_app) r) = Str ''queued''"
    by blast
  then have a: "status (heap (run_events example_lib ?evs snap_app) 0) = Str ''queued''"
    "status (heap (run_events example_lib ?evs snap_app) 1) = Str ''queued''"
    by (simp_all add: q)
  from T have "installation_queue ?st \<noteq> []
      \<and> \<not> (current_batch_installer ?st \<noteq> None \<and> batch_is_running ?st)
      \<longrightarrow> fst (start_batch_installation ?st) = Inl no_set_installer
          \<and> map_option tasks (current_batch_installer (handle example_lib Start_batch ?st))
              = Some (installation_queue ?st)"
    by blast
  then have b: "fst (start_batch_installation ?st) = Inl no_set_installer"
    "map_option tasks (current_batch_installer
       (run_events example_lib [Add_to_queue ''/tmp/a.snap'', Start_batch] snap_app)) = Some [0]"
    by (simp_all add: q1 s)
  from T have "emitted (run_events example_lib ?evs snap_app) = emitted snap_app"
    "batch_is_running (run_events example_lib ?evs snap_app) = batch_is_running snap_app"
    by blast+
  then have c: "emitted (run_events example_lib ?evs snap_app) = []"
    "\<not> batch_is_running (run_events example_lib ?evs snap_app)"
    by (simp_all add: snap_app_queue)
  from snap_app_queue(1) q a b snap_app_events(2) c show ?thesis by blast
qed

subsection \<open>C8: failures of the desktop integration\<close>

text \<open>The three notions in terms of what is added to the trace.\<close>

lemma take_length_prefix: "(take (length xs) ys = xs) = (\<exists>zs. ys = xs @ zs)"
proof
  assume "take (length xs) ys = xs"
  then have "ys = xs @ drop (length xs) ys" by (metis append_take_drop_id)
  then show "\<exists>zs. ys = xs @ zs" ..
next
  assume "\<exists>zs. ys = xs @ zs"
  then show "take (length xs) ys = xs" by auto
qed

lemma keeps_iff:
  "keeps m w \<longleftrightarrow> home (snd (m w)) = home w \<and> (\<exists>ops. trace (snd (m w)) = trace w @ ops)"
  by (simp add: keeps_def take_length_prefix)

lemma begins_iff:
  "begins m opn w \<longleftrightarrow>
     home (snd (m w)) = home w \<and> (\<exists>ops. trace (snd (m w)) = trace w @ opn # ops)"
proof -
  have "(take (Suc (length xs)) ys = xs @ [x]) = (\<exists>zs. ys = xs @ x # zs)" for xs ys and x :: os_op
    using take_length_prefix [of "xs @ [x]" ys] by simp
  then show ?thesis by (simp add: begins_def)
qed

lemma returns_iff: "returns m w \<longleftrightarrow> (\<exists>x w1. m w = (Inr x, w1))"
  by (cases "m w"; cases "fst (m w)") (auto simp: returns_def)

text \<open>
  An operation whose handler returns never raises: this is the \<^verbatim>\<open>try\<close> with
  \<^verbatim>\<open>except Exception\<close> around the body of every integration step.
\<close>

lemma returns_return: "returns (io_return x) w"
  by (simp add: returns_def io_return_def)

lemma returns_logging: "returns (logging level msg) w"
  by (simp add: returns_def logging_def)

lemma returns_bind:
  assumes "returns m w" "\<And>x w'. returns (f x) w'"
  shows "returns (io_bind m f) w"
proof -
  from assms(1) obtain x w1 where "m w = (Inr x, w1)" by (auto simp: returns_iff)
  then have "io_bind m f w = f x w1" by (simp add: io_bind_def)
  with assms(2) show ?thesis by (simp add: returns_def)
qed

lemma returns_try:
  assumes "\<And>e w'. returns (h e) w'"
  shows "returns (io_try m h) w"
proof (cases "m w")
  case (Pair r w1)
  show ?thesis
  proof (cases r)
    case (Inl e)
    with Pair have "io_try m h w = h e w1" by (simp add: io_try_def)
    with assms show ?thesis by (simp add: returns_def)
  next
    case (Inr x)
    with Pair show ?thesis by (simp add: io_try_def returns_def)
  qed
qed

lemmas returns_handler =
  returns_logging returns_bind [OF returns_logging, OF returns_return]

lemma steps_return:
  "returns (extract_appimage_icon appimage_path app_name) w"
  "returns (create_appimage_desktop_entry appimage_path) w"
  "returns (create_tar_desktop_entries extract_dir) w"
  "returns (create_executable_desktop_entry exe_path) w"
  "returns (setup_application_directories app_name) w"
  "returns (create_uninstall_entry app_name install_path uninstall_command) w"
  "returns (setup_file_associations app_name file_extensions) w"
  by (simp_all add: extract_appimage_icon_def create_appimage_desktop_entry_def
      create_tar_desktop_entries_def create_executable_desktop_entry_def
      setup_application_directories_def create_uninstall_entry_def setup_file_associations_def
      returns_try returns_handler returns_return)

lemma post_install_setup_returns: "returns (post_install_setup app_name install_path file_type) w"
  by (simp add: post_install_setup_def returns_try returns_handler)

text \<open>Every operation of the world only adds to the trace, and so does every step.\<close>

lemma keeps_return: "keeps (io_return x) w"
  by (simp add: keeps_def io_return_def)

lemma keeps_raise: "keeps (io_raise e) w"
  by (simp add: keeps_def io_raise_def)

lemma keeps_get: "keeps (io_get g) w"
  by (simp add: keeps_def io_get_def)

lemma keeps_logging: "keeps (logging level msg) w"
  by (simp add: keeps_def logging_def)

lemma keeps_os_call: "keeps (os_call opn eff) w"
  by (simp add: keeps_def os_call_def Let_def split: option.split)

lemma keeps_read_file: "keeps (read_file p) w"
  by (simp add: keeps_def read_file_def Let_def split: option.split)

lemma keeps_subprocess_run: "keeps (subprocess_run cmd t) w"
  by (simp add: keeps_def subprocess_run_def Let_def split: proc_outcome.split)

lemma keeps_trans:
  assumes "keeps m w" "keeps n (snd (m w))" "snd (k w) = snd (n (snd (m w)))"
  shows "keeps k w"
  using assms by (auto simp: keeps_iff)

lemma keeps_bind:
  assumes "\<And>w. keeps m w" "\<And>x w. keeps (f x) w"
  shows "keeps (io_bind m f) w"
proof (cases "m w")
  case (Pair r w1)
  show ?thesis
  proof (cases r)
    case (Inl e)
    with Pair have "snd (io_bind m f w) = snd (m w)" by (simp add: io_bind_def)
    with assms(1) [of w] show ?thesis by (simp add: keeps_def)
  next
    case (Inr x)
    with Pair have "snd (io_bind m f w) = snd (f x (snd (m w)))" by (simp add: io_bind_def)
    with assms(1) [of w] assms(2) [of x "snd (m w)"] show ?thesis by (rule keeps_trans)
  qed
qed

lemma keeps_try:
  assumes "\<And>w. keeps m w" "\<And>e w. keeps (h e) w"
  shows "keeps (io_try m h) w"
proof (cases "m w")
  case (Pair r w1)
  show ?thesis
  proof (cases r)
    case (Inl e)
    with Pair have "snd (io_try m h w) = snd (h e (snd (m w)))" by (simp add: io_try_def)
    with assms(1) [of w] assms(2) [of e "snd (m w)"] show ?thesis by (rule keeps_trans)
  next
    case (Inr x)
    with Pair have "snd (io_try m h w) = snd (m w)" by (simp add: io_try_def)
    with assms(1) [of w] show ?thesis by (simp add: keeps_def)
  qed
qed

lemma keeps_try_timeout:
  assumes "\<And>w. keeps m w" "\<And>w. keeps h w"
  shows "keeps (io_try_timeout m h) w"
proof (cases "m w")
  case (Pair r w1)
  show ?thesis
  proof (cases "\<exists>c t. r = Inl (TimeoutExpired c t)")
    case True
    with Pair have "snd (io_try_timeout m h w) = snd (h (snd (m w)))"
      by (auto simp: io_try_timeout_def)
    with assms(1) [of w] assms(2) [of "snd (m w)"] show ?thesis by (rule keeps_trans)
  next
    case False
    with Pair have "snd (io_try_timeout m h w) = snd (m w)"
      by (auto simp: io_try_timeout_def split: sum.split exn.split)
    with assms(1) [of w] show ?thesis by (simp add: keeps_def)
  qed
qed

lemmas keeps_prim = keeps_return keeps_raise keeps_get keeps_logging keeps_os_call
  keeps_read_file keeps_subprocess_run

lemmas keeps_comb = keeps_bind keeps_try keeps_try_timeout

lemma keeps_run_command: "keeps (run_command cmd) w"
  unfolding run_command_def
  by (intro keeps_comb keeps_prim) (simp add: split_beta keeps_bind keeps_prim)

lemma keeps_file_ops:
  "keeps (makedirs p) w" "keeps (chmod p) w" "keeps (write_file p c) w"
  "keeps (copy2 p q) w" "keeps (shutil_move p q) w"
  by (simp_all add: makedirs_def chmod_def write_file_def copy2_def shutil_move_def keeps_os_call)

lemmas keeps_all = keeps_prim keeps_file_ops keeps_run_command

lemma keeps_if: "keeps a w \<Longrightarrow> keeps b w \<Longrightarrow> keeps (if c then a else b) w"
  by simp

lemma keeps_case_prod3:
  "(\<And>a b c. keeps (f a b c) w) \<Longrightarrow> keeps (case x of (a, b, c) \<Rightarrow> f a b c) w"
  by (cases x) auto

lemma keeps_case_prod2:
  "(\<And>a b. keeps (f a b) w) \<Longrightarrow> keeps (case x of (a, b) \<Rightarrow> f a b) w"
  by (cases x) auto

lemma keeps_case_option:
  "keeps a w \<Longrightarrow> (\<And>x. keeps (f x) w) \<Longrightarrow> keeps (case v of None \<Rightarrow> a | Some x \<Rightarrow> f x) w"
  by (cases v) auto

lemmas keeps_rules = keeps_comb keeps_all keeps_if keeps_case_prod3 keeps_case_option

lemma keeps_find_icon: "keeps (find_icon actual_mount app_name names) w"
proof (induction names arbitrary: w)
  case Nil
  show ?case by (simp add: keeps_return)
next
  case (Cons icon_name rest)
  show ?case
    unfolding find_icon.simps Let_def by (intro keeps_rules Cons.IH)
qed

lemma keeps_extract_appimage_icon: "keeps (extract_appimage_icon appimage_path app_name) w"
  unfolding extract_appimage_icon_def Let_def by (intro keeps_rules keeps_find_icon)

lemma keeps_write_desktop_files: "keeps (write_desktop_files app_name content) w"
  unfolding write_desktop_files_def by (intro keeps_rules)

lemma keeps_update_desktop_database: "keeps update_desktop_database w"
  unfolding update_desktop_database_def by (intro keeps_rules)

lemma keeps_create_appimage_desktop_entry: "keeps (create_appimage_desktop_entry appimage_path) w"
  unfolding create_appimage_desktop_entry_def Let_def
  by (intro keeps_rules keeps_extract_appimage_icon keeps_write_desktop_files
      keeps_update_desktop_database)

lemma keeps_tar_entries: "keeps (tar_entries exes) w"
proof (induction exes arbitrary: w)
  case Nil
  show ?case by (simp add: keeps_return)
next
  case (Cons exe_path rest)
  show ?case
    unfolding tar_entries.simps Let_def
    by (intro keeps_rules keeps_write_desktop_files Cons.IH)
qed

lemma keeps_create_tar_desktop_entries: "keeps (create_tar_desktop_entries extract_dir) w"
  unfolding create_tar_desktop_entries_def
  by (intro keeps_rules keeps_tar_entries keeps_update_desktop_database)

lemma keeps_create_executable_desktop_entry: "keeps (create_executable_desktop_entry exe_path) w"
  unfolding create_executable_desktop_entry_def Let_def
  by (intro keeps_rules keeps_write_desktop_files keeps_update_desktop_database)

lemma keeps_setup_application_directories: "keeps (setup_application_directories app_name) w"
  unfolding setup_application_directories_def by (intro keeps_rules)

lemma keeps_create_uninstall_entry:
  "keeps (create_uninstall_entry app_name install_path uninstall_command) w"
  unfolding create_uninstall_entry_def Let_def by (intro keeps_rules)

lemma keeps_associate_extension: "keeps (associate_extension app_name ext) w"
  unfolding associate_extension_def Let_def by (intro keeps_rules)

lemma keeps_associate_all: "keeps (associate_all app_name exts) w"
proof (induction exts arbitrary: w)
  case Nil
  show ?case by (simp add: keeps_return)
next
  case (Cons ext rest)
  show ?case
    unfolding associate_all.simps by (intro keeps_rules keeps_associate_extension Cons.IH)
qed

lemma keeps_setup_file_associations: "keeps (setup_file_associations app_name exts) w"
  unfolding setup_file_associations_def by (intro keeps_rules keeps_associate_all)

lemma keeps_post_install_setup: "keeps (post_install_setup app_name install_path file_type) w"
  unfolding post_install_setup_def
  by (intro keeps_rules keeps_setup_application_directories keeps_create_uninstall_entry
      keeps_setup_file_associations)

lemmas keeps_steps = keeps_extract_appimage_icon keeps_write_desktop_files
  keeps_update_desktop_database keeps_create_appimage_desktop_entry
  keeps_create_tar_desktop_entries keeps_create_executable_desktop_entry
  keeps_setup_application_directories keeps_create_uninstall_entry
  keeps_setup_file_associations keeps_post_install_setup keeps_associate_all
  keeps_associate_extension

text \<open>Sequencing, and the first operation of a composed operation.\<close>

lemma bind_Inr: "m w = (Inr x, w1) \<Longrightarrow> io_bind m f w = f x w1"
  by (simp add: io_bind_def)

lemma bind_Inl: "m w = (Inl e, w1) \<Longrightarrow> io_bind m f w = (Inl e, w1)"
  by (simp add: io_bind_def)

lemma try_bind_Inr: "m w = (Inr x, w1) \<Longrightarrow> io_try (io_bind m f) h w = io_try (f x) h w1"
  by (simp add: io_try_def io_bind_def)

lemma try_bind_Inl: "m w = (Inl e, w1) \<Longrightarrow> io_try (io_bind m f) h w = h e w1"
  by (simp add: io_try_def io_bind_def)

lemma begins_keeps:
  assumes "begins m opn w" "keeps n (snd (m w))" "snd (k w) = snd (n (snd (m w)))"
  shows "begins k opn w"
  using assms by (auto simp: begins_iff keeps_iff)

lemma begins_same: "begins m opn w \<Longrightarrow> snd (k w) = snd (m w) \<Longrightarrow> begins k opn w"
  by (simp add: begins_def)

lemma begins_os_call: "begins (os_call opn eff) opn w"
  by (simp add: begins_def os_call_def Let_def split: option.split)

lemma begins_bind:
  assumes "begins m opn w" "\<And>x w. keeps (f x) w"
  shows "begins (io_bind m f) opn w"
proof (cases "m w")
  case (Pair r w1)
  show ?thesis
  proof (cases r)
    case (Inl e)
    with Pair have "snd (io_bind m f w) = snd (m w)" by (simp add: io_bind_def)
    with assms(1) show ?thesis by (rule begins_same)
  next
    case (Inr x)
    with Pair have "snd (io_bind m f w) = snd (f x (snd (m w)))" by (simp add: io_bind_def)
    with assms(1) assms(2) [of x "snd (m w)"] show ?thesis by (rule begins_keeps)
  qed
qed

lemma begins_try:
  assumes "begins m opn w" "\<And>e w. keeps (h e) w"
  shows "begins (io_try m h) opn w"
proof (cases "m w")
  case (Pair r w1)
  show ?thesis
  proof (cases r)
    case (Inl e)
    with Pair have "snd (io_try m h w) = snd (h e (snd (m w)))" by (simp add: io_try_def)
    with assms(1) assms(2) [of e "snd (m w)"] show ?thesis by (rule begins_keeps)
  next
    case (Inr x)
    with Pair have "snd (io_try m h w) = snd (m w)" by (simp add: io_try_def)
    with assms(1) show ?thesis by (rule begins_same)
  qed
qed

lemma begins_get_bind: "begins (f (g w)) opn w \<Longrightarrow> begins (io_bind (io_get g) f) opn w"
  by (simp add: begins_def io_bind_def io_get_def)

lemma begins_makedirs: "begins (makedirs p) (Makedirs p) w"
  by (simp add: makedirs_def begins_os_call)

lemma begins_write_file: "begins (write_file p c) (WriteFile p c) w"
  by (simp add: write_file_def begins_os_call)

text \<open>The first operation of each integration step.\<close>

lemma begins_extract_appimage_icon:
  "begins (extract_appimage_icon appimage_path app_name)
     (Makedirs (''/tmp/'' @ app_name @ ''_mount'')) w"
  unfolding extract_appimage_icon_def Let_def
  by (intro begins_try begins_bind begins_makedirs keeps_rules keeps_find_icon)

lemma begins_write_desktop_files:
  "begins (write_desktop_files app_name content)
     (Makedirs (dirname (expanduser (home w)
        (''~/.local/share/applications/'' @ app_name @ ''.desktop'')))) w"
  unfolding write_desktop_files_def
  by (intro begins_get_bind begins_bind begins_makedirs keeps_rules)

lemma begins_setup_application_directories:
  "begins (setup_application_directories app_name)
     (Makedirs (expanduser (home w) (''~/.local/share/'' @ app_name))) w"
  unfolding setup_application_directories_def
  by (intro begins_try begins_get_bind begins_bind begins_makedirs keeps_rules)

lemma begins_create_uninstall_entry:
  "begins (create_uninstall_entry app_name install_path None)
     (WriteFile (expanduser (home w)
                  (''~/.local/share/applications/'' @ app_name @ ''-uninstall.desktop''))
        (uninstall_desktop_content app_name (''rm -rf '' @ install_path))) w"
  unfolding create_uninstall_entry_def Let_def option.case
  by (intro begins_try begins_get_bind begins_bind begins_write_file keeps_rules)

lemma begins_associate_extension:
  "begins (associate_extension app_name ext)
     (Makedirs (expanduser (home w) ''~/.local/share/mime/packages'')) w"
  unfolding associate_extension_def Let_def
  by (intro begins_get_bind begins_bind begins_makedirs keeps_rules)

lemma begins_setup_file_associations:
  "exts \<noteq> [] \<Longrightarrow>
   begins (setup_file_associations app_name exts)
     (Makedirs (expanduser (home w) ''~/.local/share/mime/packages'')) w"
proof (cases exts)
  case Nil
  assume "exts \<noteq> []"
  with Nil show ?thesis by simp
next
  case (Cons ext rest)
  show ?thesis
    unfolding setup_file_associations_def Cons associate_all.simps
    by (simp, intro begins_try begins_bind begins_associate_extension keeps_rules
        keeps_associate_all)
qed

text \<open>
  \<^verbatim>\<open>post_install_setup\<close> and \<^verbatim>\<open>create_appimage_desktop_entry\<close> in any world: they return,
  and each of their steps is begun, in order, whatever happened in the step before.
\<close>

lemma file_associations_nonempty: "map_of file_associations t = Some exts \<Longrightarrow> exts \<noteq> []"
  by (auto simp: file_associations_def split: if_splits)

lemma returnsE:
  assumes "returns m w"
  obtains x w1 where "m w = (Inr x, w1)"
  using assms by (auto simp: returns_iff)

lemma beginsD:
  assumes "begins m opn w" "m w = (r, w1)"
  shows "home w1 = home w \<and> (\<exists>ops. trace w1 = trace w @ opn # ops)"
  using assms by (auto simp: begins_iff)

lemma post_install_setup_run:
  "\<exists>dirs o1 o2 o3.
     fst (post_install_setup n p t w) = Inr (completion_message n p dirs)
     \<and> home (snd (post_install_setup n p t w)) = home w
     \<and> trace (snd (post_install_setup n p t w))
         = trace w
           @ Makedirs (expanduser (home w) (''~/.local/share/'' @ n)) # o1
           @ WriteFile (expanduser (home w) (''~/.local/share/applications/'' @ n @ ''-uninstall.desktop''))
               (uninstall_desktop_content n (''rm -rf '' @ p)) # o2
           @ (if map_of file_associations t = None then []
              else Makedirs (expanduser (home w) ''~/.local/share/mime/packages'') # o3)"
proof -
  obtain dirs w1 where s1: "setup_application_directories n w = (Inr dirs, w1)"
    using steps_return(5) by (rule returnsE)
  from beginsD [OF begins_setup_application_directories s1]
  obtain o1 where h1: "home w1 = home w"
    and t1: "trace w1 = trace w @ Makedirs (expanduser (home w) (''~/.local/share/'' @ n)) # o1"
    by blast
  obtain u w2 where s2: "create_uninstall_entry n p None w1 = (Inr u, w2)"
    using steps_return(6) by (rule returnsE)
  from beginsD [OF begins_create_uninstall_entry s2]
  obtain o2 where h2: "home w2 = home w1"
    and t2: "trace w2 = trace w1
        @ WriteFile (expanduser (home w1) (''~/.local/share/applications/'' @ n @ ''-uninstall.desktop''))
            (uninstall_desktop_content n (''rm -rf '' @ p)) # o2"
    by blast
  let ?A = "case map_of file_associations t of
              Some exts \<Rightarrow> setup_file_associations n exts | None \<Rightarrow> io_return ()"
  have "returns ?A w2"
    by (cases "map_of file_associations t") (simp_all add: returns_return steps_return)
  then obtain v w3 where s3: "?A w2 = (Inr v, w3)" by (rule returnsE)
  have eq: "post_install_setup n p t w
      = (Inr (completion_message n p dirs),
         w3\<lparr>logged := logged w3 @ [(''INFO'', ''Post-installation setup completed for '' @ n)]\<rparr>)"
    by (simp add: post_install_setup_def io_try_def io_bind_def s1 s2 s3 logging_def io_return_def)
  have t3: "\<exists>o3. home w3 = home w2
      \<and> trace w3 = trace w2
          @ (if map_of file_associations t = None then []
             else Makedirs (expanduser (home w2) ''~/.local/share/mime/packages'') # o3)"
  proof (cases "map_of file_associations t")
    case None
    with s3 show ?thesis by (simp add: io_return_def)
  next
    case (Some exts)
    then have ne: "exts \<noteq> []" by (rule file_associations_nonempty)
    from s3 Some have "setup_file_associations n exts w2 = (Inr v, w3)" by simp
    from beginsD [OF begins_setup_file_associations [OF ne] this] Some
    show ?thesis by auto
  qed
  then obtain o3 where h3: "home w3 = home w2"
    and t3': "trace w3 = trace w2
          @ (if map_of file_associations t = None then []
             else Makedirs (expanduser (home w2) ''~/.local/share/mime/packages'') # o3)"
    by blast
  show ?thesis
    apply (rule exI [of _ dirs], rule exI [of _ o1], rule exI [of _ o2], rule exI [of _ o3])
    apply (simp add: eq t3' t2 t1 h1 h2 h3)
    done
qed

lemma create_appimage_desktop_entry_run:
  "\<exists>o1 o2.
     fst (create_appimage_desktop_entry dest w) = Inr ()
     \<and> home (snd (create_appimage_desktop_entry dest w)) = home w
     \<and> trace (snd (create_appimage_desktop_entry dest w))
         = trace w
           @ Makedirs (''/tmp/'' @ fst (splitext (basename dest)) @ ''_mount'') # o1
           @ Makedirs (dirname (expanduser (home w)
               (''~/.local/share/applications/'' @ fst (splitext (basename dest)) @ ''.desktop'')))
             # o2"
proof -
  let ?n = "fst (splitext (basename dest))"
  let ?H = "\<lambda>e. logging ''WARNING''
               (''Failed to create desktop entry for '' @ dest @ '': '' @ str_exn e)"
  let ?R = "\<lambda>icon_path. io_bind (write_desktop_files ?n
                   (appimage_desktop_content ?n dest icon_path)) (\<lambda>_. update_desktop_database)"
  obtain icon w1 where s1: "extract_appimage_icon dest ?n w = (Inr icon, w1)"
    using steps_return(1) by (rule returnsE)
  from beginsD [OF begins_extract_appimage_icon s1]
  obtain o1 where h1: "home w1 = home w"
    and t1: "trace w1 = trace w @ Makedirs (''/tmp/'' @ ?n @ ''_mount'') # o1"
    by blast
  have eq: "create_appimage_desktop_entry dest w = io_try (?R icon) ?H w1"
    unfolding create_appimage_desktop_entry_def Let_def using s1 by (rule try_bind_Inr)
  have b: "begins (io_try (?R icon) ?H)
      (Makedirs (dirname (expanduser (home w1) (''~/.local/share/applications/'' @ ?n @ ''.desktop''))))
      w1"
    by (intro begins_try begins_bind begins_write_desktop_files keeps_rules
        keeps_update_desktop_database)
  obtain r w2 where s2: "io_try (?R icon) ?H w1 = (r, w2)" by (cases "io_try (?R icon) ?H w1")
  from beginsD [OF b s2]
  obtain o2 where h2: "home w2 = home w1"
    and t2: "trace w2 = trace w1
        @ Makedirs (dirname (expanduser (home w1) (''~/.local/share/applications/'' @ ?n @ ''.desktop'')))
          # o2"
    by blast
  have "returns (create_appimage_desktop_entry dest) w" by (rule steps_return)
  then have f: "fst (create_appimage_desktop_entry dest w) = Inr ()"
    by (cases "fst (create_appimage_desktop_entry dest w)") (simp_all add: returns_def)
  have cw: "create_appimage_desktop_entry dest w = (r, w2)" using s2 by (simp only: eq)
  show ?thesis
    apply (rule exI [of _ o1], rule exI [of _ o2])
    apply (simp add: f)
    apply (simp add: cw t2 t1 h1 h2)
    done
qed

text \<open>
  Whether an installation succeeds is decided by its own operations alone: the result
  of \<^verbatim>\<open>install_appimage\<close> by the move of the file, that of \<^verbatim>\<open>install_executable\<close> by the
  run of the installer, that of \<^verbatim>\<open>install_tar\<close> by the extraction and the archive's
  \<^verbatim>\<open>install.sh\<close>.
\<close>

lemma install_appimage_outcome:
  "fst (install_appimage p w)
     = (case fst (appimage_primary p w) of
          Inr dest \<Rightarrow> Inr (''AppImage installed to '' @ dest @ '' with desktop integration'')
        | Inl e \<Rightarrow> Inl (Exception (''Failed to install AppImage: '' @ str_exn e)))"
proof (cases "appimage_primary p w")
  case (Pair r w1)
  show ?thesis
  proof (cases r)
    case (Inl e)
    with Pair show ?thesis
      by (simp add: install_appimage_def io_bind_def io_try_def io_raise_def)
  next
    case (Inr dest)
    obtain u w2 where c1: "create_appimage_desktop_entry dest w1 = (Inr u, w2)"
      using steps_return(2) by (rule returnsE)
    obtain msg w3 where c2:
      "post_install_setup (fst (splitext (basename dest))) dest ''appimage'' w2 = (Inr msg, w3)"
      using post_install_setup_returns by (rule returnsE)
    from Pair Inr c1 c2 show ?thesis
      by (simp add: install_appimage_def io_bind_def io_try_def io_return_def)
  qed
qed

lemma install_appimage_run:
  assumes prim: "appimage_primary p w = (Inr dest, w1)"
  shows "\<exists>o1 o2 o3 o4 o5.
     trace (snd (install_appimage p w))
       = trace w1
         @ Makedirs (''/tmp/'' @ fst (splitext (basename dest)) @ ''_mount'') # o1
         @ Makedirs (dirname (expanduser (home w1)
             (''~/.local/share/applications/'' @ fst (splitext (basename dest)) @ ''.desktop'')))
           # o2
         @ Makedirs (expanduser (home w1) (''~/.local/share/'' @ fst (splitext (basename dest))))
           # o3
         @ WriteFile (expanduser (home w1)
               (''~/.local/share/applications/'' @ fst (splitext (basename dest))
                  @ ''-uninstall.desktop''))
             (uninstall_desktop_content (fst (splitext (basename dest))) (''rm -rf '' @ dest))
           # o4
         @ Makedirs (expanduser (home w1) ''~/.local/share/mime/packages'') # o5"
proof -
  let ?n = "fst (splitext (basename dest))"
  obtain u w2 where c1: "create_appimage_desktop_entry dest w1 = (Inr u, w2)"
    using steps_return(2) by (rule returnsE)
  obtain msg w3 where c2: "post_install_setup ?n dest ''appimage'' w2 = (Inr msg, w3)"
    using post_install_setup_returns by (rule returnsE)
  have e: "snd (install_appimage p w) = w3"
    using prim c1 c2 by (simp add: install_appimage_def io_bind_def io_try_def io_return_def)
  from create_appimage_desktop_entry_run [of dest w1]
  obtain o1 o2 where h2: "home w2 = home w1"
    and t2: "trace w2 = trace w1
           @ Makedirs (''/tmp/'' @ ?n @ ''_mount'') # o1
           @ Makedirs (dirname (expanduser (home w1)
               (''~/.local/share/applications/'' @ ?n @ ''.desktop''))) # o2"
    unfolding c1 by auto
  have a: "map_of file_associations ''appimage'' \<noteq> None"
    by (simp add: file_associations_def)
  from post_install_setup_run [of ?n dest "''appimage''" w2]
  obtain o3 o4 o5 where t3: "trace w3 = trace w2
           @ Makedirs (expanduser (home w2) (''~/.local/share/'' @ ?n)) # o3
           @ WriteFile (expanduser (home w2) (''~/.local/share/applications/'' @ ?n @ ''-uninstall.desktop''))
               (uninstall_desktop_content ?n (''rm -rf '' @ dest)) # o4
           @ Makedirs (expanduser (home w2) ''~/.local/share/mime/packages'') # o5"
    unfolding c2 using a by auto
  show ?thesis
    apply (rule exI [of _ o1], rule exI [of _ o2], rule exI [of _ o3], rule exI [of _ o4],
        rule exI [of _ o5])
    apply (simp only: e t3 t2 h2 append_assoc append_Cons)
    done
qed

lemma install_executable_outcome:
  "fst (install_executable p w)
     = (case fst (executable_primary p w) of
          Inr u \<Rightarrow> Inr (''Executed '' @ basename p @ '' with desktop integration'')
        | Inl e \<Rightarrow> Inl (Exception (''Failed to execute installer: '' @ str_exn e)))"
proof (cases "executable_primary p w")
  case (Pair r w1)
  show ?thesis
  proof (cases r)
    case (Inl e)
    with Pair show ?thesis
      by (simp add: install_executable_def io_bind_def io_try_def io_raise_def)
  next
    case (Inr u0)
    let ?C = "if \<not> (startswith (lower (basename p)) ''install''
                      \<or> startswith (lower (basename p)) ''setup''
                      \<or> startswith (lower (basename p)) ''configure'')
              then create_executable_desktop_entry p else io_return ()"
    have "returns ?C w1" by (simp add: steps_return returns_return)
    then obtain u w2 where c1: "?C w1 = (Inr u, w2)" by (rule returnsE)
    obtain msg w3 where c2:
      "post_install_setup (fst (splitext (basename p))) p ''executable'' w2 = (Inr msg, w3)"
      using post_install_setup_returns by (rule returnsE)
    have "io_try (io_bind (executable_primary p) (\<lambda>_. io_bind ?C (\<lambda>_.
             post_install_setup (fst (splitext (basename p))) p ''executable'')))
           (\<lambda>e. io_raise (Exception (''Failed to execute installer: '' @ str_exn e))) w
        = (Inr msg, w3)"
      using Pair Inr c1 c2 by (simp only: io_try_def io_bind_def prod.case sum.case)
    then show ?thesis
      using Pair Inr
      by (simp add: install_executable_def Let_def io_bind_def [of "io_try _ _"] io_return_def)
  qed
qed

lemma install_tar_outcome:
  "fst (install_tar p w)
     = (case tar_extract p w of
          (Inl e, w1) \<Rightarrow> Inl (Exception (''Failed to extract archive: '' @ str_exn e))
        | (Inr d, w1) \<Rightarrow>
            (case fst (tar_install_script d (snd (create_tar_desktop_entries d w1))) of
               Inl e \<Rightarrow> Inl (Exception (''Failed to extract archive: '' @ str_exn e))
             | Inr u \<Rightarrow> Inr (''Extracted to '' @ d @ '' with desktop integration'')))"
proof (cases "tar_extract p w")
  case (Pair r w1)
  show ?thesis
  proof (cases r)
    case (Inl e)
    with Pair show ?thesis
      by (simp add: install_tar_def io_bind_def io_try_def io_raise_def)
  next
    case (Inr d)
    obtain u w2 where c1: "create_tar_desktop_entries d w1 = (Inr u, w2)"
      using steps_return(3) by (rule returnsE)
    obtain r2 w3 where c2: "tar_install_script d w2 = (r2, w3)"
      by (cases "tar_install_script d w2")
    obtain msg w4 where c3: "post_install_setup (basename d) d ''tar'' w3 = (Inr msg, w4)"
      using post_install_setup_returns by (rule returnsE)
    from Pair Inr c1 c2 c3 show ?thesis
      by (cases r2) (simp_all add: install_tar_def io_bind_def io_try_def io_return_def io_raise_def)
  qed
qed

text \<open>
  The steps that follow the installer of an executable and the extraction of an
  archive: the world in which the installation ends, and what it adds to the trace.
\<close>

lemma create_executable_desktop_entry_run:
  "\<exists>o1.
     fst (create_executable_desktop_entry p w) = Inr ()
     \<and> home (snd (create_executable_desktop_entry p w)) = home w
     \<and> trace (snd (create_executable_desktop_entry p w))
         = trace w
           @ Makedirs (dirname (expanduser (home w)
               (''~/.local/share/applications/'' @ fst (splitext (basename p)) @ ''.desktop'')))
             # o1"
proof -
  have b: "begins (create_executable_desktop_entry p)
      (Makedirs (dirname (expanduser (home w)
         (''~/.local/share/applications/'' @ fst (splitext (basename p)) @ ''.desktop'')))) w"
    unfolding create_executable_desktop_entry_def Let_def
    by (intro begins_try begins_bind begins_write_desktop_files keeps_rules
        keeps_update_desktop_database)
  obtain u w1 where s: "create_executable_desktop_entry p w = (Inr u, w1)"
    using steps_return(4) by (rule returnsE)
  from beginsD [OF b s] show ?thesis by (simp add: s)
qed

lemma install_executable_world:
  assumes prim: "executable_primary p w = (Inr u, w1)"
  shows "snd (install_executable p w)
     = snd (post_install_setup (fst (splitext (basename p))) p ''executable''
         (snd ((if \<not> (startswith (lower (basename p)) ''install''
                       \<or> startswith (lower (basename p)) ''setup''
                       \<or> startswith (lower (basename p)) ''configure'')
                then create_executable_desktop_entry p else io_return ()) w1)))"
proof -
  let ?C = "if \<not> (startswith (lower (basename p)) ''install''
                    \<or> startswith (lower (basename p)) ''setup''
                    \<or> startswith (lower (basename p)) ''configure'')
            then create_executable_desktop_entry p else io_return ()"
  have "returns ?C w1" by (simp add: steps_return returns_return)
  then obtain u1 w2 where c1: "?C w1 = (Inr u1, w2)" by (rule returnsE)
  obtain msg w3 where c2:
    "post_install_setup (fst (splitext (basename p))) p ''executable'' w2 = (Inr msg, w3)"
    using post_install_setup_returns by (rule returnsE)
  have "io_try (io_bind (executable_primary p) (\<lambda>_. io_bind ?C (\<lambda>_.
           post_install_setup (fst (splitext (basename p))) p ''executable'')))
         (\<lambda>e. io_raise (Exception (''Failed to execute installer: '' @ str_exn e))) w
      = (Inr msg, w3)"
    using prim c1 c2 by (simp only: io_try_def io_bind_def prod.case sum.case)
  then have "snd (install_executable p w) = w3"
    by (simp add: install_executable_def Let_def io_bind_def [of "io_try _ _"] io_return_def)
  then show ?thesis by (simp only: c1 c2 snd_conv)
qed

lemma install_executable_run:
  assumes prim: "executable_primary p w = (Inr u, w1)"
  shows "\<exists>o1 o2 o3.
     trace (snd (install_executable p w))
       = trace w1
         @ (if startswith (lower (basename p)) ''install''
               \<or> startswith (lower (basename p)) ''setup''
               \<or> startswith (lower (basename p)) ''configure''
            then []
            else Makedirs (dirname (expanduser (home w1)
                   (''~/.local/share/applications/'' @ fst (splitext (basename p)) @ ''.desktop'')))
                 # o1)
         @ Makedirs (expanduser (home w1) (''~/.local/share/'' @ fst (splitext (basename p)))) # o2
         @ WriteFile (expanduser (home w1)
               (''~/.local/share/applications/'' @ fst (splitext (basename p))
                  @ ''-uninstall.desktop''))
             (uninstall_desktop_content (fst (splitext (basename p))) (''rm -rf '' @ p))
           # o3"
proof -
  let ?n = "fst (splitext (basename p))"
  let ?g = "startswith (lower (basename p)) ''install''
               \<or> startswith (lower (basename p)) ''setup''
               \<or> startswith (lower (basename p)) ''configure''"
  let ?C = "if \<not> ?g then create_executable_desktop_entry p else io_return ()"
  let ?w2 = "snd (?C w1)"
  have e: "snd (install_executable p w) = snd (post_install_setup ?n p ''executable'' ?w2)"
    using prim by (rule install_executable_world)
  have c: "\<exists>o1. home ?w2 = home w1
      \<and> trace ?w2 = trace w1
          @ (if ?g then []
             else Makedirs (dirname (expanduser (home w1)
                    (''~/.local/share/applications/'' @ ?n @ ''.desktop''))) # o1)"
  proof (cases ?g)
    case True
    then show ?thesis by (simp add: io_return_def)
  next
    case False
    with create_executable_desktop_entry_run [of p w1] show ?thesis by auto
  qed
  then obtain o1 where h2: "home ?w2 = home w1"
    and t2: "trace ?w2 = trace w1
          @ (if ?g then []
             else Makedirs (dirname (expanduser (home w1)
                    (''~/.local/share/applications/'' @ ?n @ ''.desktop''))) # o1)"
    by blast
  have a: "map_of file_associations ''executable'' = None"
    by (simp add: file_associations_def)
  from post_install_setup_run [of ?n p "''executable''" ?w2]
  obtain o2 o3 where t3: "trace (snd (post_install_setup ?n p ''executable'' ?w2))
         = trace ?w2
           @ Makedirs (expanduser (home ?w2) (''~/.local/share/'' @ ?n)) # o2
           @ WriteFile (expanduser (home ?w2) (''~/.local/share/applications/'' @ ?n @ ''-uninstall.desktop''))
               (uninstall_desktop_content ?n (''rm -rf '' @ p)) # o3"
    using a by auto
  show ?thesis
    apply (rule exI [of _ o1], rule exI [of _ o2], rule exI [of _ o3])
    apply (simp only: e t3 t2 h2 append_assoc)
    done
qed

lemma install_tar_world:
  assumes ext: "tar_extract p w = (Inr d, w1)"
    and scr: "tar_install_script d (snd (create_tar_desktop_entries d w1)) = (Inr u, w3)"
  shows "snd (install_tar p w) = snd (post_install_setup (basename d) d ''tar'' w3)"
proof -
  obtain u1 w2 where c1: "create_tar_desktop_entries d w1 = (Inr u1, w2)"
    using steps_return(3) by (rule returnsE)
  from scr have c2: "tar_install_script d w2 = (Inr u, w3)" by (simp add: c1)
  obtain msg w4 where c3: "post_install_setup (basename d) d ''tar'' w3 = (Inr msg, w4)"
    using post_install_setup_returns by (rule returnsE)
  from ext c1 c2 c3 show ?thesis
    by (simp add: install_tar_def io_bind_def io_try_def io_return_def)
qed

lemma install_tar_run:
  assumes ext: "tar_extract p w = (Inr d, w1)"
    and scr: "tar_install_script d (snd (create_tar_desktop_entries d w1)) = (Inr u, w3)"
  shows "\<exists>o1 o2.
     trace (snd (install_tar p w))
       = trace w3
         @ Makedirs (expanduser (home w3) (''~/.local/share/'' @ basename d)) # o1
         @ WriteFile (expanduser (home w3)
               (''~/.local/share/applications/'' @ basename d @ ''-uninstall.desktop''))
             (uninstall_desktop_content (basename d) (''rm -rf '' @ d))
           # o2"
proof -
  have e: "snd (install_tar p w) = snd (post_install_setup (basename d) d ''tar'' w3)"
    using ext scr by (rule install_tar_world)
  have a: "map_of file_associations ''tar'' = None"
    by (simp add: file_associations_def)
  from post_install_setup_run [of "basename d" d "''tar''" w3]
  obtain o1 o2 where t3: "trace (snd (post_install_setup (basename d) d ''tar'' w3))
         = trace w3
           @ Makedirs (expanduser (home w3) (''~/.local/share/'' @ basename d)) # o1
           @ WriteFile (expanduser (home w3)
                 (''~/.local/share/applications/'' @ basename d @ ''-uninstall.desktop''))
               (uninstall_desktop_content (basename d) (''rm -rf '' @ d)) # o2"
    using a by auto
  show ?thesis
    apply (rule exI [of _ o1], rule exI [of _ o2])
    apply (simp only: e t3)
    done
qed


text \<open>
  Claim C8. In every world, whatever file operations are refused and whatever the child
  processes do: (1) none of the integration steps raises: the AppImage menu and desktop
  entry, the icon extraction, the entries for an archive and for an executable, the
  per-application directories, the uninstall entry, the file associations, and
  \<^verbatim>\<open>post_install_setup\<close> as a whole; (2) an installation fails exactly when its own
  operations fail, with their error, and succeeds with its usual message otherwise;
  (3) \<^verbatim>\<open>post_install_setup\<close> begins the directories, then the uninstall entry, then (for
  a type that has them) the file associations, and returns the completion message, in
  which a directory that could not be made reads \<^verbatim>\<open>N/A\<close>; (4) after the AppImage has
  been moved, the installation begins the icon extraction, the menu entry, the
  directories, the uninstall entry and the file associations, in this order; (5) after
  the installer of an executable has run, the installation begins the menu entry
  (unless the file is named like an installer), then the directories, then the
  uninstall entry, and it ends in the world in which \<^verbatim>\<open>post_install_setup\<close> ends when it
  starts where the entry step ended; (6) after an archive has been extracted, the step
  for its entries has ended and its \<^verbatim>\<open>install.sh\<close>, if any, has run without error, the
  installation begins the directories, then the uninstall entry, and it ends in the
  world in which \<^verbatim>\<open>post_install_setup\<close> ends.
\<close>

theorem desktop_integration_contained:
  "returns (create_appimage_desktop_entry dest) w
   \<and> returns (extract_appimage_icon dest n) w
   \<and> returns (create_tar_desktop_entries d) w
   \<and> returns (create_executable_desktop_entry p) w
   \<and> returns (setup_application_directories n) w
   \<and> returns (create_uninstall_entry n ip uc) w
   \<and> returns (setup_file_associations n exts) w
   \<and> returns (post_install_setup n ip t) w
   \<and> fst (install_appimage p w)
       = (case fst (appimage_primary p w) of
            Inr dest \<Rightarrow> Inr (''AppImage installed to '' @ dest @ '' with desktop integration'')
          | Inl e \<Rightarrow> Inl (Exception (''Failed to install AppImage: '' @ str_exn e)))
   \<and> fst (install_executable p w)
       = (case fst (executable_primary p w) of
            Inr u \<Rightarrow> Inr (''Executed '' @ basename p @ '' with desktop integration'')
          | Inl e \<Rightarrow> Inl (Exception (''Failed to execute installer: '' @ str_exn e)))
   \<and> fst (install_tar p w)
       = (case tar_extract p w of
            (Inl e, w1) \<Rightarrow> Inl (Exception (''Failed to extract archive: '' @ str_exn e))
          | (Inr d, w1) \<Rightarrow>
              (case fst (tar_install_script d (snd (create_tar_desktop_entries d w1))) of
                 Inl e \<Rightarrow> Inl (Exception (''Failed to extract archive: '' @ str_exn e))
               | Inr u \<Rightarrow> Inr (''Extracted to '' @ d @ '' with desktop integration'')))
   \<and> (\<exists>dirs o1 o2 o3.
         fst (post_install_setup n ip t w) = Inr (completion_message n ip dirs)
         \<and> trace (snd (post_install_setup n ip t w))
             = trace w
               @ Makedirs (expanduser (home w) (''~/.local/share/'' @ n)) # o1
               @ WriteFile (expanduser (home w)
                     (''~/.local/share/applications/'' @ n @ ''-uninstall.desktop''))
                   (uninstall_desktop_content n (''rm -rf '' @ ip)) # o2
               @ (if map_of file_associations t = None then []
                  else Makedirs (expanduser (home w) ''~/.local/share/mime/packages'') # o3))
   \<and> (\<forall>dest w1. appimage_primary p w = (Inr dest, w1) \<longrightarrow>
         (\<exists>o1 o2 o3 o4 o5.
            trace (snd (install_appimage p w))
              = trace w1
                @ Makedirs (''/tmp/'' @ fst (splitext (basename dest)) @ ''_mount'') # o1
                @ Makedirs (dirname (expanduser (home w1)
                    (''~/.local/share/applications/'' @ fst (splitext (basename dest))
                       @ ''.desktop''))) # o2
                @ Makedirs (expanduser (home w1)
                    (''~/.local/share/'' @ fst (splitext (basename dest)))) # o3
                @ WriteFile (expanduser (home w1)
                      (''~/.local/share/applications/'' @ fst (splitext (basename dest))
                         @ ''-uninstall.desktop''))
                    (uninstall_desktop_content (fst (splitext (basename dest)))
                       (''rm -rf '' @ dest)) # o4
                @ Makedirs (expanduser (home w1) ''~/.local/share/mime/packages'') # o5))
   \<and> (\<forall>u w1. executable_primary p w = (Inr u, w1) \<longrightarrow>
         snd (install_executable p w)
           = snd (post_install_setup (fst (splitext (basename p))) p ''executable''
               (snd ((if \<not> (startswith (lower (basename p)) ''install''
                             \<or> startswith (lower (basename p)) ''setup''
                             \<or> startswith (lower (basename p)) ''configure'')
                      then create_executable_desktop_entry p else io_return ()) w1)))
         \<and> (\<exists>o1 o2 o3.
              trace (snd (install_executable p w))
                = trace w1
                  @ (if startswith (lower (basename p)) ''install''
                        \<or> startswith (lower (basename p)) ''setup''
                        \<or> startswith (lower (basename p)) ''configure''
                     then []
                     else Makedirs (dirname (expanduser (home w1)
                            (''~/.local/share/applications/'' @ fst (splitext (basename p))
                               @ ''.desktop''))) # o1)
                  @ Makedirs (expanduser (home w1)
                      (''~/.local/share/'' @ fst (splitext (basename p)))) # o2
                  @ WriteFile (expanduser (home w1)
                        (''~/.local/share/applications/'' @ fst (splitext (basename p))
                           @ ''-uninstall.desktop''))
                      (uninstall_desktop_content (fst (splitext (basename p)))
                         (''rm -rf '' @ p)) # o3))
   \<and> (\<forall>dir w1 u w3.
         tar_extract p w = (Inr dir, w1)
         \<and> tar_install_script dir (snd (create_tar_desktop_entries dir w1)) = (Inr u, w3) \<longrightarrow>
         snd (install_tar p w) = snd (post_install_setup (basename dir) dir ''tar'' w3)
         \<and> (\<exists>o1 o2.
              trace (snd (install_tar p w))
                = trace w3
                  @ Makedirs (expanduser (home w3) (''~/.local/share/'' @ basename dir)) # o1
                  @ WriteFile (expanduser (home w3)
                        (''~/.local/share/applications/'' @ basename dir
                           @ ''-uninstall.desktop''))
                      (uninstall_desktop_content (basename dir) (''rm -rf '' @ dir)) # o2))"
proof (intro conjI allI impI)
  show "returns (create_appimage_desktop_entry dest) w" by (rule steps_return)
  show "returns (extract_appimage_icon dest n) w" by (rule steps_return)
  show "returns (create_tar_desktop_entries d) w" by (rule steps_return)
  show "returns (create_executable_desktop_entry p) w" by (rule steps_return)
  show "returns (setup_application_directories n) w" by (rule steps_return)
  show "returns (create_uninstall_entry n ip uc) w" by (rule steps_return)
  show "returns (setup_file_associations n exts) w" by (rule steps_return)
  show "returns (post_install_setup n ip t) w" by (rule post_install_setup_returns)
  show "fst (install_appimage p w)
       = (case fst (appimage_primary p w) of
            Inr dest \<Rightarrow> Inr (''AppImage installed to '' @ dest @ '' with desktop integration'')
          | Inl e \<Rightarrow> Inl (Exception (''Failed to install AppImage: '' @ str_exn e)))"
    by (rule install_appimage_outcome)
  show "fst (install_executable p w)
       = (case fst (executable_primary p w) of
            Inr u \<Rightarrow> Inr (''Executed '' @ basename p @ '' with desktop integration'')
          | Inl e \<Rightarrow> Inl (Exception (''Failed to execute installer: '' @ str_exn e)))"
    by (rule install_executable_outcome)
  show "fst (install_tar p w)
       = (case tar_extract p w of
            (Inl e, w1) \<Rightarrow> Inl (Exception (''Failed to extract archive: '' @ str_exn e))
          | (Inr d, w1) \<Rightarrow>
              (case fst (tar_install_script d (snd (create_tar_desktop_entries d w1))) of
                 Inl e \<Rightarrow> Inl (Exception (''Failed to extract archive: '' @ str_exn e))
               | Inr u \<Rightarrow> Inr (''Extracted to '' @ d @ '' with desktop integration'')))"
    by (rule install_tar_outcome)
  show "\<exists>dirs o1 o2 o3.
         fst (post_install_setup n ip t w) = Inr (completion_message n ip dirs)
         \<and> trace (snd (post_install_setup n ip t w))
             = trace w
               @ Makedirs (expanduser (home w) (''~/.local/share/'' @ n)) # o1
               @ WriteFile (expanduser (home w)
                     (''~/.local/share/applications/'' @ n @ ''-uninstall.desktop''))
                   (uninstall_desktop_content n (''rm -rf '' @ ip)) # o2
               @ (if map_of file_associations t = None then []
                  else Makedirs (expanduser (home w) ''~/.local/share/mime/packages'') # o3)"
    using post_install_setup_run [of n ip t w] by blast
next
  fix dest w1 assume "appimage_primary p w = (Inr dest, w1)"
  then show "\<exists>o1 o2 o3 o4 o5.
            trace (snd (install_appimage p w))
              = trace w1
                @ Makedirs (''/tmp/'' @ fst (splitext (basename dest)) @ ''_mount'') # o1
                @ Makedirs (dirname (expanduser (home w1)
                    (''~/.local/share/applications/'' @ fst (splitext (basename dest))
                       @ ''.desktop''))) # o2
                @ Makedirs (expanduser (home w1)
                    (''~/.local/share/'' @ fst (splitext (basename dest)))) # o3
                @ WriteFile (expanduser (home w1)
                      (''~/.local/share/applications/'' @ fst (splitext (basename dest))
                         @ ''-uninstall.desktop''))
                    (uninstall_desktop_content (fst (splitext (basename dest)))
                       (''rm -rf '' @ dest)) # o4
                @ Makedirs (expanduser (home w1) ''~/.local/share/mime/packages'') # o5"
    by (rule install_appimage_run)
next
  fix u w1 assume "executable_primary p w = (Inr u, w1)"
  then show "snd (install_executable p w)
           = snd (post_install_setup (fst (splitext (basename p))) p ''executable''
               (snd ((if \<not> (startswith (lower (basename p)) ''install''
                             \<or> startswith (lower (basename p)) ''setup''
                             \<or> startswith (lower (basename p)) ''configure'')
                      then create_executable_desktop_entry p else io_return ()) w1)))"
    by (rule install_executable_world)
next
  fix u w1 assume "executable_primary p w = (Inr u, w1)"
  then show "\<exists>o1 o2 o3.
              trace (snd (install_executable p w))
                = trace w1
                  @ (if startswith (lower (basename p)) ''install''
                        \<or> startswith (lower (basename p)) ''setup''
                        \<or> startswith (lower (basename p)) ''configure''
                     then []
                     else Makedirs (dirname (expanduser (home w1)
                            (''~/.local/share/applications/'' @ fst (splitext (basename p))
                               @ ''.desktop''))) # o1)
                  @ Makedirs (expanduser (home w1)
                      (''~/.local/share/'' @ fst (splitext (basename p)))) # o2
                  @ WriteFile (expanduser (home w1)
                        (''~/.local/share/applications/'' @ fst (splitext (basename p))
                           @ ''-uninstall.desktop''))
                      (uninstall_desktop_content (fst (splitext (basename p)))
                         (''rm -rf '' @ p)) # o3"
    by (rule install_executable_run)
next
  fix dir w1 u w3
  assume "tar_extract p w = (Inr dir, w1)
         \<and> tar_install_script dir (snd (create_tar_desktop_entries dir w1)) = (Inr u, w3)"
  then show "snd (install_tar p w) = snd (post_install_setup (basename dir) dir ''tar'' w3)"
    by (intro install_tar_world [of p w dir w1 u w3]) simp_all
next
  fix dir w1 u w3
  assume "tar_extract p w = (Inr dir, w1)
         \<and> tar_install_script dir (snd (create_tar_desktop_entries dir w1)) = (Inr u, w3)"
  then show "\<exists>o1 o2.
              trace (snd (install_tar p w))
                = trace w3
                  @ Makedirs (expanduser (home w3) (''~/.local/share/'' @ basename dir)) # o1
                  @ WriteFile (expanduser (home w3)
                        (''~/.local/share/applications/'' @ basename dir
                           @ ''-uninstall.desktop''))
                      (uninstall_desktop_content (basename dir) (''rm -rf '' @ dir)) # o2"
    by (intro install_tar_run [of p w dir w1 u w3]) simp_all
qed

text \<open>The installation of \<^verbatim>\<open>/tmp/app.AppImage\<close> in the world that refuses everything after the move.\<close>

lemma appimage_primary_ok:
  assumes "faults w (length (trace w)) = None"
    and "faults w (Suc (length (trace w))) = None"
    and "faults w (Suc (Suc (length (trace w)))) = None"
  shows "appimage_primary p w =
     (let fs1 = List.insert (app_dir w) (files w);
          dest = appimage_dest fs1 (app_dir w) p
      in (Inr dest,
          w\<lparr>trace := trace w @ [Makedirs (app_dir w), Move p dest, Chmod dest],
            files := List.insert dest (removeAll p fs1)\<rparr>))"
  using assms
  by (simp add: appimage_primary_def io_bind_def io_get_def io_return_def makedirs_def
      shutil_move_def chmod_def os_call_def app_dir_def Let_def)

lemma broken_world_simps:
  "faults broken_world 0 = None"
  "faults broken_world (Suc 0) = None"
  "faults broken_world (Suc (Suc 0)) = None"
  "files broken_world = [''/tmp/app.AppImage'']"
  "trace broken_world = []"
  "home broken_world = ''/home/u''"
  "app_dir broken_world = ''/home/u/Applications''"
  by (simp_all add: broken_world_def example_world_def app_dir_def expanduser_def startswith_def
      rstrip_def)

lemma broken_dest:
  "appimage_dest [''/home/u/Applications'', ''/tmp/app.AppImage''] ''/home/u/Applications''
     ''/tmp/app.AppImage'' = ''/home/u/Applications/app.AppImage''"
  by (simp add: eval_path)

lemma broken_primary:
  "appimage_primary ''/tmp/app.AppImage'' broken_world
     = (Inr ''/home/u/Applications/app.AppImage'',
        broken_world\<lparr>trace := [Makedirs ''/home/u/Applications'',
                                 Move ''/tmp/app.AppImage'' ''/home/u/Applications/app.AppImage'',
                                 Chmod ''/home/u/Applications/app.AppImage''],
                      files := [''/home/u/Applications/app.AppImage'', ''/home/u/Applications'']\<rparr>)"
proof -
  have "appimage_primary ''/tmp/app.AppImage'' broken_world =
     (let fs1 = List.insert (app_dir broken_world) (files broken_world);
          dest = appimage_dest fs1 (app_dir broken_world) ''/tmp/app.AppImage''
      in (Inr dest,
          broken_world\<lparr>trace := trace broken_world
               @ [Makedirs (app_dir broken_world), Move ''/tmp/app.AppImage'' dest, Chmod dest],
            files := List.insert dest (removeAll ''/tmp/app.AppImage'' fs1)\<rparr>))"
    by (rule appimage_primary_ok) (simp_all add: broken_world_simps)
  then show ?thesis
    by (simp add: broken_world_simps Let_def broken_dest)
qed

lemma broken_paths:
  "fst (splitext (basename ''/home/u/Applications/app.AppImage'')) = ''app''"
  "expanduser ''/home/u'' ''~/.local/share/app'' = ''/home/u/.local/share/app''"
  "expanduser ''/home/u'' ''~/.local/share/mime/packages'' = ''/home/u/.local/share/mime/packages''"
  "expanduser ''/home/u'' ''~/.local/share/applications/app-uninstall.desktop''
     = ''/home/u/.local/share/applications/app-uninstall.desktop''"
  "dirname (expanduser ''/home/u'' ''~/.local/share/applications/app.desktop'')
     = ''/home/u/.local/share/applications''"
  by (simp_all add: basename_def splitext_def rfind_def startswith_def expanduser_def rstrip_def
      dirname_def Let_def)

text \<open>
  The installations of \<^verbatim>\<open>/tmp/tool.run\<close> and of \<^verbatim>\<open>/tmp/pkg.tar.gz\<close> in the world that
  refuses every file operation after the second.
\<close>

lemma refusing_world_simps:
  "faults refusing_world 0 = None"
  "faults refusing_world (Suc 0) = None"
  "\<And>n. 2 \<le> n \<Longrightarrow> faults refusing_world n = Some ''Permission denied''"
  "child refusing_world = (\<lambda>n. Exited 0 [] [])"
  "child_files refusing_world = (\<lambda>n fs. fs)"
  "files refusing_world = [''/tmp/tool.run'', ''/tmp/pkg.tar.gz'']"
  "trace refusing_world = []"
  "home refusing_world = ''/home/u''"
  "logged refusing_world = []"
  "walk refusing_world = (\<lambda>d. [d @ ''/app''])"
  "executable refusing_world = (\<lambda>p. True)"
  "header refusing_world = (\<lambda>p. Some ''#!/bin/sh'')"
  by (simp_all add: refusing_world_def example_world_def)

lemma refusing_primary:
  "executable_primary ''/tmp/tool.run'' refusing_world
     = (Inr (),
        refusing_world\<lparr>trace := [Chmod ''/tmp/tool.run'',
                                   Run [''pkexec'', ''bash'', ''/tmp/tool.run''] 300]\<rparr>)"
  by (simp add: executable_primary_def io_bind_def chmod_def os_call_def Let_def run_command_eq
      refusing_world_simps)

lemma refusing_extract:
  "tar_extract ''/tmp/pkg.tar.gz'' refusing_world
     = (Inr ''/home/u/Applications/pkg.tar'',
        refusing_world\<lparr>trace := [Makedirs ''/home/u/Applications'',
                                   Makedirs ''/home/u/Applications/pkg.tar'',
                                   Run [''tar'', ''-xf'', ''/tmp/pkg.tar.gz'', ''-C'',
                                        ''/home/u/Applications/pkg.tar''] 300],
                        files := [''/home/u/Applications/pkg.tar'', ''/home/u/Applications'',
                                  ''/tmp/tool.run'', ''/tmp/pkg.tar.gz'']\<rparr>)"
  by (simp add: tar_extract_def io_bind_def io_get_def io_return_def makedirs_def os_call_def
      Let_def run_command_eq refusing_world_simps app_dir_def eval_path)


lemma refusing_entries:
  "create_tar_desktop_entries ''/home/u/Applications/pkg.tar''
     (refusing_world\<lparr>trace := [Makedirs ''/home/u/Applications'',
                                   Makedirs ''/home/u/Applications/pkg.tar'',
                                   Run [''tar'', ''-xf'', ''/tmp/pkg.tar.gz'', ''-C'',
                                        ''/home/u/Applications/pkg.tar''] 300],
                        files := [''/home/u/Applications/pkg.tar'', ''/home/u/Applications'',
                                  ''/tmp/tool.run'', ''/tmp/pkg.tar.gz'']\<rparr>)
     = (Inr (),
        refusing_world\<lparr>trace := [Makedirs ''/home/u/Applications'',
                                   Makedirs ''/home/u/Applications/pkg.tar'',
                                   Run [''tar'', ''-xf'', ''/tmp/pkg.tar.gz'', ''-C'',
                                        ''/home/u/Applications/pkg.tar''] 300,
                                   Makedirs ''/home/u/.local/share/applications''],
                        files := [''/home/u/Applications/pkg.tar'', ''/home/u/Applications'',
                                  ''/tmp/tool.run'', ''/tmp/pkg.tar.gz''],
                        logged := [(''WARNING'',
                           ''Failed to create desktop entries for /home/u/Applications/pkg.tar: Permission denied'')]\<rparr>)"
  by (simp add: create_tar_desktop_entries_def is_program_def write_desktop_files_def
      io_bind_def io_get_def io_return_def io_try_def makedirs_def os_call_def logging_def
      Let_def refusing_world_simps eval_path dirname_def)

lemma refusing_script:
  "tar_install_script ''/home/u/Applications/pkg.tar''
     (refusing_world\<lparr>trace := [Makedirs ''/home/u/Applications'',
                                   Makedirs ''/home/u/Applications/pkg.tar'',
                                   Run [''tar'', ''-xf'', ''/tmp/pkg.tar.gz'', ''-C'',
                                        ''/home/u/Applications/pkg.tar''] 300,
                                   Makedirs ''/home/u/.local/share/applications''],
                        files := [''/home/u/Applications/pkg.tar'', ''/home/u/Applications'',
                                  ''/tmp/tool.run'', ''/tmp/pkg.tar.gz''],
                        logged := [(''WARNING'',
                           ''Failed to create desktop entries for /home/u/Applications/pkg.tar: Permission denied'')]\<rparr>)
     = (Inr (),
        refusing_world\<lparr>trace := [Makedirs ''/home/u/Applications'',
                                   Makedirs ''/home/u/Applications/pkg.tar'',
                                   Run [''tar'', ''-xf'', ''/tmp/pkg.tar.gz'', ''-C'',
                                        ''/home/u/Applications/pkg.tar''] 300,
                                   Makedirs ''/home/u/.local/share/applications''],
                        files := [''/home/u/Applications/pkg.tar'', ''/home/u/Applications'',
                                  ''/tmp/tool.run'', ''/tmp/pkg.tar.gz''],
                        logged := [(''WARNING'',
                           ''Failed to create desktop entries for /home/u/Applications/pkg.tar: Permission denied'')]\<rparr>)"
  by (simp add: tar_install_script_def io_bind_def io_get_def io_return_def path_exists_def
      Let_def eval_path)


lemma refusing_paths:
  "fst (splitext (basename ''/tmp/tool.run'')) = ''tool''"
  "basename ''/tmp/tool.run'' = ''tool.run''"
  "basename ''/home/u/Applications/pkg.tar'' = ''pkg.tar''"
  "expanduser ''/home/u'' ''~/.local/share/tool'' = ''/home/u/.local/share/tool''"
  "expanduser ''/home/u'' ''~/.local/share/pkg.tar'' = ''/home/u/.local/share/pkg.tar''"
  "expanduser ''/home/u'' ''~/.local/share/applications/tool-uninstall.desktop''
     = ''/home/u/.local/share/applications/tool-uninstall.desktop''"
  "expanduser ''/home/u'' ''~/.local/share/applications/pkg.tar-uninstall.desktop''
     = ''/home/u/.local/share/applications/pkg.tar-uninstall.desktop''"
  "dirname (expanduser ''/home/u'' ''~/.local/share/applications/tool.desktop'')
     = ''/home/u/.local/share/applications''"
  by (simp_all add: basename_def splitext_def rfind_def startswith_def expanduser_def rstrip_def
      dirname_def Let_def)

lemma refusing_name:
  "\<not> (startswith (lower (basename ''/tmp/tool.run'')) ''install''
       \<or> startswith (lower (basename ''/tmp/tool.run'')) ''setup''
       \<or> startswith (lower (basename ''/tmp/tool.run'')) ''configure'')"
  by (simp add: refusing_paths startswith_def lower_def lower_char_def upper_letters_def
      lower_letters_def)

text \<open>
  The theorem in the worlds where every integration step fails at its first operation:
  the installation of the AppImage succeeds, and each of its five steps was begun; so
  do the installations of the executable and of the archive, with the menu entry, the
  directories and the uninstall entry begun.
\<close>

theorem desktop_integration_contained_witness:
  "fst (install_appimage ''/tmp/app.AppImage'' broken_world)
     = Inr ''AppImage installed to /home/u/Applications/app.AppImage with desktop integration''
   \<and> Makedirs ''/tmp/app_mount'' \<in> set (trace (snd (install_appimage ''/tmp/app.AppImage'' broken_world)))
   \<and> Makedirs ''/home/u/.local/share/applications''
       \<in> set (trace (snd (install_appimage ''/tmp/app.AppImage'' broken_world)))
   \<and> Makedirs ''/home/u/.local/share/app''
       \<in> set (trace (snd (install_appimage ''/tmp/app.AppImage'' broken_world)))
   \<and> WriteFile ''/home/u/.local/share/applications/app-uninstall.desktop''
         (uninstall_desktop_content ''app'' ''rm -rf /home/u/Applications/app.AppImage'')
       \<in> set (trace (snd (install_appimage ''/tmp/app.AppImage'' broken_world)))
   \<and> Makedirs ''/home/u/.local/share/mime/packages''
       \<in> set (trace (snd (install_appimage ''/tmp/app.AppImage'' broken_world)))
   \<and> fst (install_executable ''/tmp/tool.run'' refusing_world)
     = Inr ''Executed tool.run with desktop integration''
   \<and> Makedirs ''/home/u/.local/share/applications''
       \<in> set (trace (snd (install_executable ''/tmp/tool.run'' refusing_world)))
   \<and> Makedirs ''/home/u/.local/share/tool''
       \<in> set (trace (snd (install_executable ''/tmp/tool.run'' refusing_world)))
   \<and> WriteFile ''/home/u/.local/share/applications/tool-uninstall.desktop''
         (uninstall_desktop_content ''tool'' ''rm -rf /tmp/tool.run'')
       \<in> set (trace (snd (install_executable ''/tmp/tool.run'' refusing_world)))
   \<and> fst (install_tar ''/tmp/pkg.tar.gz'' refusing_world)
     = Inr ''Extracted to /home/u/Applications/pkg.tar with desktop integration''
   \<and> Makedirs ''/home/u/.local/share/applications''
       \<in> set (trace (snd (install_tar ''/tmp/pkg.tar.gz'' refusing_world)))
   \<and> Makedirs ''/home/u/.local/share/pkg.tar''
       \<in> set (trace (snd (install_tar ''/tmp/pkg.tar.gz'' refusing_world)))
   \<and> WriteFile ''/home/u/.local/share/applications/pkg.tar-uninstall.desktop''
         (uninstall_desktop_content ''pkg.tar'' ''rm -rf /home/u/Applications/pkg.tar'')
       \<in> set (trace (snd (install_tar ''/tmp/pkg.tar.gz'' refusing_world)))"
proof -
  let ?w1 = "broken_world\<lparr>trace := [Makedirs ''/home/u/Applications'',
                                 Move ''/tmp/app.AppImage'' ''/home/u/Applications/app.AppImage'',
                                 Chmod ''/home/u/Applications/app.AppImage''],
                      files := [''/home/u/Applications/app.AppImage'', ''/home/u/Applications'']\<rparr>"
  note T = desktop_integration_contained [of _ broken_world _ _ "''/tmp/app.AppImage''"]
  from T have "fst (install_appimage ''/tmp/app.AppImage'' broken_world)
       = (case fst (appimage_primary ''/tmp/app.AppImage'' broken_world) of
            Inr dest \<Rightarrow> Inr (''AppImage installed to '' @ dest @ '' with desktop integration'')
          | Inl e \<Rightarrow> Inl (Exception (''Failed to install AppImage: '' @ str_exn e)))"
    by blast
  then have a: "fst (install_appimage ''/tmp/app.AppImage'' broken_world)
     = Inr ''AppImage installed to /home/u/Applications/app.AppImage with desktop integration''"
    by (simp add: broken_primary)
  from T have "\<forall>dest w1. appimage_primary ''/tmp/app.AppImage'' broken_world = (Inr dest, w1) \<longrightarrow>
         (\<exists>o1 o2 o3 o4 o5.
            trace (snd (install_appimage ''/tmp/app.AppImage'' broken_world))
              = trace w1
                @ Makedirs (''/tmp/'' @ fst (splitext (basename dest)) @ ''_mount'') # o1
                @ Makedirs (dirname (expanduser (home w1)
                    (''~/.local/share/applications/'' @ fst (splitext (basename dest))
                       @ ''.desktop''))) # o2
                @ Makedirs (expanduser (home w1)
                    (''~/.local/share/'' @ fst (splitext (basename dest)))) # o3
                @ WriteFile (expanduser (home w1)
                      (''~/.local/share/applications/'' @ fst (splitext (basename dest))
                         @ ''-uninstall.desktop''))
                    (uninstall_desktop_content (fst (splitext (basename dest)))
                       (''rm -rf '' @ dest)) # o4
                @ Makedirs (expanduser (home w1) ''~/.local/share/mime/packages'') # o5)"
    by blast
  from this [rule_format, OF broken_primary]
  obtain o1 o2 o3 o4 o5 where
    "trace (snd (install_appimage ''/tmp/app.AppImage'' broken_world))
       = trace ?w1
         @ Makedirs (''/tmp/'' @ fst (splitext (basename ''/home/u/Applications/app.AppImage'')) @ ''_mount'') # o1
         @ Makedirs (dirname (expanduser (home ?w1)
             (''~/.local/share/applications/''
                @ fst (splitext (basename ''/home/u/Applications/app.AppImage'')) @ ''.desktop''))) # o2
         @ Makedirs (expanduser (home ?w1)
             (''~/.local/share/'' @ fst (splitext (basename ''/home/u/Applications/app.AppImage'')))) # o3
         @ WriteFile (expanduser (home ?w1)
               (''~/.local/share/applications/''
                  @ fst (splitext (basename ''/home/u/Applications/app.AppImage''))
                  @ ''-uninstall.desktop''))
             (uninstall_desktop_content (fst (splitext (basename ''/home/u/Applications/app.AppImage'')))
                (''rm -rf '' @ ''/home/u/Applications/app.AppImage'')) # o4
         @ Makedirs (expanduser (home ?w1) ''~/.local/share/mime/packages'') # o5"
    by blast
  then have t: "trace (snd (install_appimage ''/tmp/app.AppImage'' broken_world))
       = [Makedirs ''/home/u/Applications'',
          Move ''/tmp/app.AppImage'' ''/home/u/Applications/app.AppImage'',
          Chmod ''/home/u/Applications/app.AppImage'']
         @ Makedirs ''/tmp/app_mount'' # o1
         @ Makedirs ''/home/u/.local/share/applications'' # o2
         @ Makedirs ''/home/u/.local/share/app'' # o3
         @ WriteFile ''/home/u/.local/share/applications/app-uninstall.desktop''
             (uninstall_desktop_content ''app'' ''rm -rf /home/u/Applications/app.AppImage'') # o4
         @ Makedirs ''/home/u/.local/share/mime/packages'' # o5"
    unfolding broken_paths(1) by (simp add: broken_world_simps broken_paths)
  let ?x1 = "refusing_world\<lparr>trace := [Chmod ''/tmp/tool.run'',
                                   Run [''pkexec'', ''bash'', ''/tmp/tool.run''] 300]\<rparr>"
  let ?y1 = "refusing_world\<lparr>trace := [Makedirs ''/home/u/Applications'',
                                   Makedirs ''/home/u/Applications/pkg.tar'',
                                   Run [''tar'', ''-xf'', ''/tmp/pkg.tar.gz'', ''-C'',
                                        ''/home/u/Applications/pkg.tar''] 300],
                        files := [''/home/u/Applications/pkg.tar'', ''/home/u/Applications'',
                                  ''/tmp/tool.run'', ''/tmp/pkg.tar.gz'']\<rparr>"
  let ?y3 = "refusing_world\<lparr>trace := [Makedirs ''/home/u/Applications'',
                                   Makedirs ''/home/u/Applications/pkg.tar'',
                                   Run [''tar'', ''-xf'', ''/tmp/pkg.tar.gz'', ''-C'',
                                        ''/home/u/Applications/pkg.tar''] 300,
                                   Makedirs ''/home/u/.local/share/applications''],
                        files := [''/home/u/Applications/pkg.tar'', ''/home/u/Applications'',
                                  ''/tmp/tool.run'', ''/tmp/pkg.tar.gz''],
                        logged := [(''WARNING'',
                           ''Failed to create desktop entries for /home/u/Applications/pkg.tar: Permission denied'')]\<rparr>"
  note X = desktop_integration_contained [of _ refusing_world _ _ "''/tmp/tool.run''"]
  from X have "fst (install_executable ''/tmp/tool.run'' refusing_world)
       = (case fst (executable_primary ''/tmp/tool.run'' refusing_world) of
            Inr u \<Rightarrow> Inr (''Executed '' @ basename ''/tmp/tool.run'' @ '' with desktop integration'')
          | Inl e \<Rightarrow> Inl (Exception (''Failed to execute installer: '' @ str_exn e)))"
    by blast
  then have b: "fst (install_executable ''/tmp/tool.run'' refusing_world)
     = Inr ''Executed tool.run with desktop integration''"
    by (simp add: refusing_primary refusing_paths)
  from X have "\<forall>u w1. executable_primary ''/tmp/tool.run'' refusing_world = (Inr u, w1) \<longrightarrow>
         (\<exists>o1 o2 o3.
              trace (snd (install_executable ''/tmp/tool.run'' refusing_world))
                = trace w1
                  @ (if startswith (lower (basename ''/tmp/tool.run'')) ''install''
                        \<or> startswith (lower (basename ''/tmp/tool.run'')) ''setup''
                        \<or> startswith (lower (basename ''/tmp/tool.run'')) ''configure''
                     then []
                     else Makedirs (dirname (expanduser (home w1)
                            (''~/.local/share/applications/''
                               @ fst (splitext (basename ''/tmp/tool.run''))
                               @ ''.desktop''))) # o1)
                  @ Makedirs (expanduser (home w1)
                      (''~/.local/share/'' @ fst (splitext (basename ''/tmp/tool.run'')))) # o2
                  @ WriteFile (expanduser (home w1)
                        (''~/.local/share/applications/''
                           @ fst (splitext (basename ''/tmp/tool.run''))
                           @ ''-uninstall.desktop''))
                      (uninstall_desktop_content (fst (splitext (basename ''/tmp/tool.run'')))
                         (''rm -rf '' @ ''/tmp/tool.run'')) # o3)"
    by blast
  from this [rule_format, OF refusing_primary]
  obtain p1 p2 p3 where
    "trace (snd (install_executable ''/tmp/tool.run'' refusing_world))
                = trace ?x1
                  @ (if startswith (lower (basename ''/tmp/tool.run'')) ''install''
                        \<or> startswith (lower (basename ''/tmp/tool.run'')) ''setup''
                        \<or> startswith (lower (basename ''/tmp/tool.run'')) ''configure''
                     then []
                     else Makedirs (dirname (expanduser (home ?x1)
                            (''~/.local/share/applications/''
                               @ fst (splitext (basename ''/tmp/tool.run''))
                               @ ''.desktop''))) # p1)
                  @ Makedirs (expanduser (home ?x1)
                      (''~/.local/share/'' @ fst (splitext (basename ''/tmp/tool.run'')))) # p2
                  @ WriteFile (expanduser (home ?x1)
                        (''~/.local/share/applications/''
                           @ fst (splitext (basename ''/tmp/tool.run''))
                           @ ''-uninstall.desktop''))
                      (uninstall_desktop_content (fst (splitext (basename ''/tmp/tool.run'')))
                         (''rm -rf '' @ ''/tmp/tool.run'')) # p3"
    by blast
  then have tx: "trace (snd (install_executable ''/tmp/tool.run'' refusing_world))
       = [Chmod ''/tmp/tool.run'', Run [''pkexec'', ''bash'', ''/tmp/tool.run''] 300]
         @ Makedirs ''/home/u/.local/share/applications'' # p1
         @ Makedirs ''/home/u/.local/share/tool'' # p2
         @ WriteFile ''/home/u/.local/share/applications/tool-uninstall.desktop''
             (uninstall_desktop_content ''tool'' ''rm -rf /tmp/tool.run'') # p3"
    using refusing_name unfolding refusing_paths(1)
    by (simp add: refusing_world_simps refusing_paths)
  note Y = desktop_integration_contained [of _ refusing_world _ _ "''/tmp/pkg.tar.gz''"]
  from Y have "fst (install_tar ''/tmp/pkg.tar.gz'' refusing_world)
       = (case tar_extract ''/tmp/pkg.tar.gz'' refusing_world of
            (Inl e, w1) \<Rightarrow> Inl (Exception (''Failed to extract archive: '' @ str_exn e))
          | (Inr d, w1) \<Rightarrow>
              (case fst (tar_install_script d (snd (create_tar_desktop_entries d w1))) of
                 Inl e \<Rightarrow> Inl (Exception (''Failed to extract archive: '' @ str_exn e))
               | Inr u \<Rightarrow> Inr (''Extracted to '' @ d @ '' with desktop integration'')))"
    by blast
  then have c: "fst (install_tar ''/tmp/pkg.tar.gz'' refusing_world)
     = Inr ''Extracted to /home/u/Applications/pkg.tar with desktop integration''"
    by (simp add: refusing_extract refusing_entries refusing_script)
  have s: "tar_install_script ''/home/u/Applications/pkg.tar''
      (snd (create_tar_desktop_entries ''/home/u/Applications/pkg.tar'' ?y1)) = (Inr (), ?y3)"
    by (simp only: refusing_entries snd_conv refusing_script)
  from Y have "\<forall>dir w1 u w3.
         tar_extract ''/tmp/pkg.tar.gz'' refusing_world = (Inr dir, w1)
         \<and> tar_install_script dir (snd (create_tar_desktop_entries dir w1)) = (Inr u, w3) \<longrightarrow>
         (\<exists>o1 o2.
              trace (snd (install_tar ''/tmp/pkg.tar.gz'' refusing_world))
                = trace w3
                  @ Makedirs (expanduser (home w3) (''~/.local/share/'' @ basename dir)) # o1
                  @ WriteFile (expanduser (home w3)
                        (''~/.local/share/applications/'' @ basename dir
                           @ ''-uninstall.desktop''))
                      (uninstall_desktop_content (basename dir) (''rm -rf '' @ dir)) # o2)"
    by blast
  from this [rule_format, OF conjI, OF refusing_extract s]
  obtain q1 q2 where
    "trace (snd (install_tar ''/tmp/pkg.tar.gz'' refusing_world))
                = trace ?y3
                  @ Makedirs (expanduser (home ?y3)
                      (''~/.local/share/'' @ basename ''/home/u/Applications/pkg.tar'')) # q1
                  @ WriteFile (expanduser (home ?y3)
                        (''~/.local/share/applications/'' @ basename ''/home/u/Applications/pkg.tar''
                           @ ''-uninstall.desktop''))
                      (uninstall_desktop_content (basename ''/home/u/Applications/pkg.tar'')
                         (''rm -rf '' @ ''/home/u/Applications/pkg.tar'')) # q2"
    by blast
  then have ty: "trace (snd (install_tar ''/tmp/pkg.tar.gz'' refusing_world))
       = [Makedirs ''/home/u/Applications'',
          Makedirs ''/home/u/Applications/pkg.tar'',
          Run [''tar'', ''-xf'', ''/tmp/pkg.tar.gz'', ''-C'', ''/home/u/Applications/pkg.tar''] 300,
          Makedirs ''/home/u/.local/share/applications'']
         @ Makedirs ''/home/u/.local/share/pkg.tar'' # q1
         @ WriteFile ''/home/u/.local/share/applications/pkg.tar-uninstall.desktop''
             (uninstall_desktop_content ''pkg.tar'' ''rm -rf /home/u/Applications/pkg.tar'') # q2"
    unfolding refusing_paths(3) by (simp add: refusing_world_simps refusing_paths)
  show ?thesis
    unfolding t tx ty using a b c by simp
qed


end
